theory Spec2Isabelle
  imports Main "HOL-Library.Word" "HOL-Library.Signed_Division"
begin

unbundle bit_operations_syntax

section \<open>The emitted stream\<close>

text \<open>
  The headers under \<^verbatim>\<open>core/\<close> are macro libraries: every instruction macro
  expands to a run of \<^verbatim>\<open>EMITB(...)\<close>, \<^verbatim>\<open>EMITW(...)\<close> and assembler
  directives whose arguments are C constant expressions.  The stream a macro expands to
  is a list of such items; the arguments are C integers, kept as \<open>int\<close> with the
  bit operations of the source (\<^verbatim>\<open>&\<close>, \<^verbatim>\<open>|\<close>, \<^verbatim>\<open><<\<close>).
  \<^verbatim>\<open>EMITB\<close>, \<^verbatim>\<open>EMITW\<close>, \<^verbatim>\<open>EMPTY\<close>, \<^verbatim>\<open>ASM_OP0\<close> and
  \<^verbatim>\<open>ASM_OP1\<close> are the emitting primitives of rtarch.h and stay constructors here.
\<close>

datatype emit = EMITB int | EMITW int | ASM_OP0 string | ASM_OP1 string string

type_synonym code = "emit list"

definition EMPTY :: code where
  "EMPTY = []"

subsection \<open>Operand triplets (rtarch\_x86.h, INTERNAL and EXTERNAL)\<close>

text \<open>
  A register or an addressing mode is a triplet \<^verbatim>\<open>REG, MOD, SIB\<close>; an immediate
  or a displacement is a triplet \<^verbatim>\<open>VAL, TYP, CMD\<close>.  The selector macros of the
  source are the field selectors of the records.  The pass-through wrapper \<^verbatim>\<open>W\<close>
  is the identity on a triplet and is left out.
\<close>

record operand =
  REG :: int
  MOD :: int
  SIB :: code

record vtc =
  VAL :: int
  TYP :: int
  CMD :: code

definition MRM :: "int \<Rightarrow> int \<Rightarrow> int \<Rightarrow> code" where
  "MRM reg md rem = [EMITB (push_bit 6 md OR push_bit 3 reg OR rem)]"

definition AUX :: "code \<Rightarrow> code \<Rightarrow> code \<Rightarrow> code" where
  "AUX sib cdp cim = sib @ cdp @ cim"

definition Reax :: operand where "Reax = \<lparr>REG = 0x00, MOD = 0x03, SIB = EMPTY\<rparr>"
definition Recx :: operand where "Recx = \<lparr>REG = 0x01, MOD = 0x03, SIB = EMPTY\<rparr>"
definition Redx :: operand where "Redx = \<lparr>REG = 0x02, MOD = 0x03, SIB = EMPTY\<rparr>"
definition Rebx :: operand where "Rebx = \<lparr>REG = 0x03, MOD = 0x03, SIB = EMPTY\<rparr>"
definition Rebp :: operand where "Rebp = \<lparr>REG = 0x05, MOD = 0x03, SIB = EMPTY\<rparr>"
definition Resi :: operand where "Resi = \<lparr>REG = 0x06, MOD = 0x03, SIB = EMPTY\<rparr>"
definition Redi :: operand where "Redi = \<lparr>REG = 0x07, MOD = 0x03, SIB = EMPTY\<rparr>"

definition Oeax :: operand where "Oeax = \<lparr>REG = 0x00, MOD = 0x00, SIB = EMPTY\<rparr>"

definition Mecx :: operand where "Mecx = \<lparr>REG = 0x01, MOD = 0x02, SIB = EMPTY\<rparr>"
definition Medx :: operand where "Medx = \<lparr>REG = 0x02, MOD = 0x02, SIB = EMPTY\<rparr>"
definition Mebx :: operand where "Mebx = \<lparr>REG = 0x03, MOD = 0x02, SIB = EMPTY\<rparr>"
definition Mebp :: operand where "Mebp = \<lparr>REG = 0x05, MOD = 0x02, SIB = EMPTY\<rparr>"
definition Mesi :: operand where "Mesi = \<lparr>REG = 0x06, MOD = 0x02, SIB = EMPTY\<rparr>"
definition Medi :: operand where "Medi = \<lparr>REG = 0x07, MOD = 0x02, SIB = EMPTY\<rparr>"

definition Iecx :: operand where "Iecx = \<lparr>REG = 0x04, MOD = 0x02, SIB = [EMITB 0x01]\<rparr>"
definition Iedx :: operand where "Iedx = \<lparr>REG = 0x04, MOD = 0x02, SIB = [EMITB 0x02]\<rparr>"
definition Iebx :: operand where "Iebx = \<lparr>REG = 0x04, MOD = 0x02, SIB = [EMITB 0x03]\<rparr>"
definition Iebp :: operand where "Iebp = \<lparr>REG = 0x04, MOD = 0x02, SIB = [EMITB 0x05]\<rparr>"
definition Iesi :: operand where "Iesi = \<lparr>REG = 0x04, MOD = 0x02, SIB = [EMITB 0x06]\<rparr>"
definition Iedi :: operand where "Iedi = \<lparr>REG = 0x04, MOD = 0x02, SIB = [EMITB 0x07]\<rparr>"

text \<open>The registers and the addressing modes the header declares.\<close>

definition base_regs :: "operand list" where
  "base_regs = [Reax, Recx, Redx, Rebx, Rebp, Resi, Redi]"

definition base_mems :: "operand list" where
  "base_mems = [Oeax, Mecx, Medx, Mebx, Mebp, Mesi, Medi,
                Iecx, Iedx, Iebx, Iebp, Iesi, Iedi]"

subsection \<open>Immediate and displacement classes\<close>

definition IC :: "int \<Rightarrow> vtc" where
  "IC im = \<lparr>VAL = im, TYP = 0x02, CMD = [EMITB (im AND 0x7F)]\<rparr>"
definition IB :: "int \<Rightarrow> vtc" where
  "IB im = \<lparr>VAL = im, TYP = 0x00, CMD = [EMITW (im AND 0xFF)]\<rparr>"
definition IM :: "int \<Rightarrow> vtc" where
  "IM im = \<lparr>VAL = im, TYP = 0x00, CMD = [EMITW (im AND 0xFFF)]\<rparr>"
definition IG :: "int \<Rightarrow> vtc" where
  "IG im = \<lparr>VAL = im, TYP = 0x00, CMD = [EMITW (im AND 0x7FFF)]\<rparr>"
definition IH :: "int \<Rightarrow> vtc" where
  "IH im = \<lparr>VAL = im, TYP = 0x00, CMD = [EMITW (im AND 0xFFFF)]\<rparr>"
definition IV :: "int \<Rightarrow> vtc" where
  "IV im = \<lparr>VAL = im, TYP = 0x00, CMD = [EMITW (im AND 0x7FFFFFFF)]\<rparr>"
definition IW :: "int \<Rightarrow> vtc" where
  "IW im = \<lparr>VAL = im, TYP = 0x00, CMD = [EMITW (im AND 0xFFFFFFFF)]\<rparr>"

text \<open>
  The displacement masks scale with \<^verbatim>\<open>Q\<close>, which rtarch.h sets from the SIMD
  width (the header's comment: \<^verbatim>\<open>ext Q=1,2,4\<close>); it is a parameter here.
\<close>

definition DP :: "int \<Rightarrow> int \<Rightarrow> vtc" where
  "DP q dp = \<lparr>VAL = dp, TYP = 0x00, CMD = [EMITW (dp AND ((0xFFC * q) OR 0xC))]\<rparr>"
definition DF :: "int \<Rightarrow> int \<Rightarrow> vtc" where
  "DF q dp = \<lparr>VAL = dp, TYP = 0x00, CMD = [EMITW (dp AND ((0x3FFC * q) OR 0xC))]\<rparr>"
definition DG :: "int \<Rightarrow> int \<Rightarrow> vtc" where
  "DG q dp = \<lparr>VAL = dp, TYP = 0x00, CMD = [EMITW (dp AND ((0x7FFC * q) OR 0xC))]\<rparr>"
definition DH :: "int \<Rightarrow> int \<Rightarrow> vtc" where
  "DH q dp = \<lparr>VAL = dp, TYP = 0x00, CMD = [EMITW (dp AND ((0xFFFC * q) OR 0xC))]\<rparr>"
definition DV :: "int \<Rightarrow> vtc" where
  "DV dp = \<lparr>VAL = dp, TYP = 0x00, CMD = [EMITW (dp AND 0x7FFFFFFC)]\<rparr>"
definition PLAIN :: vtc where
  "PLAIN = \<lparr>VAL = 0x00, TYP = 0x00, CMD = EMPTY\<rparr>"

section \<open>x86 BASE instructions (rtarch\_x86.h)\<close>

text \<open>
  One constructor for every macro that emits a single machine instruction, under the
  macro's name.  \<open>emit\<close> is the macro's body.  The \<^verbatim>\<open>wx\<close>, \<^verbatim>\<open>xx\<close> and
  \<^verbatim>\<open>xz\<close> spellings of the source forward to these with the same arguments.
\<close>

datatype insn =
    movwx_ri operand vtc
  | movwx_mi operand vtc vtc
  | movwx_rr operand operand
  | movwx_ld operand operand vtc
  | movwx_st operand operand vtc
  | addwz_ri operand vtc
  | addwz_mi operand vtc vtc
  | addwz_rr operand operand
  | addwz_ld operand operand vtc
  | addwz_st operand operand vtc
  | subwz_ri operand vtc
  | subwz_mi operand vtc vtc
  | subwz_rr operand operand
  | subwz_ld operand operand vtc
  | subwz_st operand operand vtc
  | shlwz_rx operand
  | shlwz_mx operand vtc
  | shlwz_ri operand vtc
  | shlwz_mi operand vtc vtc
  | shrwz_rx operand
  | shrwz_mx operand vtc
  | shrwz_ri operand vtc
  | shrwz_mi operand vtc vtc
  | shrwn_rx operand
  | shrwn_mx operand vtc
  | shrwn_ri operand vtc
  | shrwn_mi operand vtc vtc
  | mulwx_ri operand vtc
  | mulwx_rr operand operand
  | mulwx_ld operand operand vtc
  | divwx_xr operand
  | divwx_xm operand vtc
  | divwn_xr operand
  | divwn_xm operand vtc
  | stack_st operand
  | stack_ld operand

fun emit_insn :: "insn \<Rightarrow> code" where
  "emit_insn (movwx_ri RM Im) =
     [EMITB 0xC7] @ MRM 0x00 (MOD RM) (REG RM)
     @ AUX EMPTY EMPTY [EMITW (VAL Im AND (push_bit 6 (TYP Im) - 1))]"
| "emit_insn (movwx_mi RM Dp Im) =
     [EMITB 0xC7] @ MRM 0x00 (MOD RM) (REG RM)
     @ AUX (SIB RM) (CMD Dp) [EMITW (VAL Im AND (push_bit 6 (TYP Im) - 1))]"
| "emit_insn (movwx_rr RG RM) =
     [EMITB 0x8B] @ MRM (REG RG) (MOD RM) (REG RM)"
| "emit_insn (movwx_ld RG RM Dp) =
     [EMITB 0x8B] @ MRM (REG RG) (MOD RM) (REG RM) @ AUX (SIB RM) (CMD Dp) EMPTY"
| "emit_insn (movwx_st RG RM Dp) =
     [EMITB 0x89] @ MRM (REG RG) (MOD RM) (REG RM) @ AUX (SIB RM) (CMD Dp) EMPTY"
| "emit_insn (addwz_ri RM Im) =
     [EMITB (0x81 OR TYP Im)] @ MRM 0x00 (MOD RM) (REG RM) @ AUX EMPTY EMPTY (CMD Im)"
| "emit_insn (addwz_mi RM Dp Im) =
     [EMITB (0x81 OR TYP Im)] @ MRM 0x00 (MOD RM) (REG RM) @ AUX (SIB RM) (CMD Dp) (CMD Im)"
| "emit_insn (addwz_rr RG RM) =
     [EMITB 0x03] @ MRM (REG RG) (MOD RM) (REG RM)"
| "emit_insn (addwz_ld RG RM Dp) =
     [EMITB 0x03] @ MRM (REG RG) (MOD RM) (REG RM) @ AUX (SIB RM) (CMD Dp) EMPTY"
| "emit_insn (addwz_st RG RM Dp) =
     [EMITB 0x01] @ MRM (REG RG) (MOD RM) (REG RM) @ AUX (SIB RM) (CMD Dp) EMPTY"
| "emit_insn (subwz_ri RM Im) =
     [EMITB (0x81 OR TYP Im)] @ MRM 0x05 (MOD RM) (REG RM) @ AUX EMPTY EMPTY (CMD Im)"
| "emit_insn (subwz_mi RM Dp Im) =
     [EMITB (0x81 OR TYP Im)] @ MRM 0x05 (MOD RM) (REG RM) @ AUX (SIB RM) (CMD Dp) (CMD Im)"
| "emit_insn (subwz_rr RG RM) =
     [EMITB 0x2B] @ MRM (REG RG) (MOD RM) (REG RM)"
| "emit_insn (subwz_ld RG RM Dp) =
     [EMITB 0x2B] @ MRM (REG RG) (MOD RM) (REG RM) @ AUX (SIB RM) (CMD Dp) EMPTY"
| "emit_insn (subwz_st RG RM Dp) =
     [EMITB 0x29] @ MRM (REG RG) (MOD RM) (REG RM) @ AUX (SIB RM) (CMD Dp) EMPTY"
| "emit_insn (shlwz_rx RM) =
     [EMITB 0xD3] @ MRM 0x04 (MOD RM) (REG RM)"
| "emit_insn (shlwz_mx RM Dp) =
     [EMITB 0xD3] @ MRM 0x04 (MOD RM) (REG RM) @ AUX (SIB RM) (CMD Dp) EMPTY"
| "emit_insn (shlwz_ri RM Im) =
     [EMITB 0xC1] @ MRM 0x04 (MOD RM) (REG RM)
     @ AUX EMPTY EMPTY [EMITB (VAL Im AND 0x1F)]"
| "emit_insn (shlwz_mi RM Dp Im) =
     [EMITB 0xC1] @ MRM 0x04 (MOD RM) (REG RM)
     @ AUX (SIB RM) (CMD Dp) [EMITB (VAL Im AND 0x1F)]"
| "emit_insn (shrwz_rx RM) =
     [EMITB 0xD3] @ MRM 0x05 (MOD RM) (REG RM)"
| "emit_insn (shrwz_mx RM Dp) =
     [EMITB 0xD3] @ MRM 0x05 (MOD RM) (REG RM) @ AUX (SIB RM) (CMD Dp) EMPTY"
| "emit_insn (shrwz_ri RM Im) =
     [EMITB 0xC1] @ MRM 0x05 (MOD RM) (REG RM)
     @ AUX EMPTY EMPTY [EMITB (VAL Im AND 0x1F)]"
| "emit_insn (shrwz_mi RM Dp Im) =
     [EMITB 0xC1] @ MRM 0x05 (MOD RM) (REG RM)
     @ AUX (SIB RM) (CMD Dp) [EMITB (VAL Im AND 0x1F)]"
| "emit_insn (shrwn_rx RM) =
     [EMITB 0xD3] @ MRM 0x07 (MOD RM) (REG RM)"
| "emit_insn (shrwn_mx RM Dp) =
     [EMITB 0xD3] @ MRM 0x07 (MOD RM) (REG RM) @ AUX (SIB RM) (CMD Dp) EMPTY"
| "emit_insn (shrwn_ri RM Im) =
     [EMITB 0xC1] @ MRM 0x07 (MOD RM) (REG RM)
     @ AUX EMPTY EMPTY [EMITB (VAL Im AND 0x1F)]"
| "emit_insn (shrwn_mi RM Dp Im) =
     [EMITB 0xC1] @ MRM 0x07 (MOD RM) (REG RM)
     @ AUX (SIB RM) (CMD Dp) [EMITB (VAL Im AND 0x1F)]"
| "emit_insn (mulwx_ri RM Im) =
     [EMITB (0x69 OR TYP Im)] @ MRM (REG RM) (MOD RM) (REG RM) @ AUX EMPTY EMPTY (CMD Im)"
| "emit_insn (mulwx_rr RG RM) =
     [EMITB 0x0F] @ [EMITB 0xAF] @ MRM (REG RG) (MOD RM) (REG RM)"
| "emit_insn (mulwx_ld RG RM Dp) =
     [EMITB 0x0F] @ [EMITB 0xAF] @ MRM (REG RG) (MOD RM) (REG RM)
     @ AUX (SIB RM) (CMD Dp) EMPTY"
| "emit_insn (divwx_xr RM) =
     [EMITB 0xF7] @ MRM 0x06 (MOD RM) (REG RM) @ AUX EMPTY EMPTY EMPTY"
| "emit_insn (divwx_xm RM Dp) =
     [EMITB 0xF7] @ MRM 0x06 (MOD RM) (REG RM) @ AUX (SIB RM) (CMD Dp) EMPTY"
| "emit_insn (divwn_xr RM) =
     [EMITB 0xF7] @ MRM 0x07 (MOD RM) (REG RM) @ AUX EMPTY EMPTY EMPTY"
| "emit_insn (divwn_xm RM Dp) =
     [EMITB 0xF7] @ MRM 0x07 (MOD RM) (REG RM) @ AUX (SIB RM) (CMD Dp) EMPTY"
| "emit_insn (stack_st RM) =
     [EMITB 0xFF] @ MRM 0x06 (MOD RM) (REG RM)"
| "emit_insn (stack_ld RM) =
     [EMITB 0x8F] @ MRM 0x00 (MOD RM) (REG RM)"

text \<open>A macro built from other macros expands to their expansions in order.\<close>

definition emits :: "insn list \<Rightarrow> code" where
  "emits prog = concat (map emit_insn prog)"

subsection \<open>Macros that expand to several instructions\<close>

text \<open>
  The prepare macros of the header are \<^verbatim>\<open>prewx_xx\<close> and \<^verbatim>\<open>prewn_xx\<close>.
  The bodies of the \<^verbatim>\<open>div\<close> and \<^verbatim>\<open>rem\<close> macros call \<^verbatim>\<open>prewx_rr()\<close>
  and \<^verbatim>\<open>prewn_rr()\<close>, which no file of the sources defines: the prepare step is
  a parameter of those macros here.  \<^verbatim>\<open>inf_SCR01(0)\<close>, the scratch slot of the
  info block (declared in rtarch.h), is a parameter as well.
\<close>

definition prewx_xx :: "insn list" where
  "prewx_xx = [movwx_ri Redx (IC 0)]"

definition prewn_xx :: "insn list" where
  "prewn_xx = [movwx_rr Redx Reax, shrwn_ri Redx (IC 31)]"

definition shlwz_rr :: "operand \<Rightarrow> operand \<Rightarrow> insn list" where
  "shlwz_rr RG RM = [stack_st Recx, movwx_rr Recx RM, shlwz_rx RG, stack_ld Recx]"

definition shlwz_ld :: "operand \<Rightarrow> operand \<Rightarrow> vtc \<Rightarrow> insn list" where
  "shlwz_ld RG RM Dp = [stack_st Recx, movwx_ld Recx RM Dp, shlwz_rx RG, stack_ld Recx]"

definition shlwz_st :: "operand \<Rightarrow> operand \<Rightarrow> vtc \<Rightarrow> insn list" where
  "shlwz_st RG RM Dp = [stack_st Recx, movwx_rr Recx RG, shlwz_mx RM Dp, stack_ld Recx]"

definition shrwz_rr :: "operand \<Rightarrow> operand \<Rightarrow> insn list" where
  "shrwz_rr RG RM = [stack_st Recx, movwx_rr Recx RM, shrwz_rx RG, stack_ld Recx]"

definition shrwz_ld :: "operand \<Rightarrow> operand \<Rightarrow> vtc \<Rightarrow> insn list" where
  "shrwz_ld RG RM Dp = [stack_st Recx, movwx_ld Recx RM Dp, shrwz_rx RG, stack_ld Recx]"

definition shrwz_st :: "operand \<Rightarrow> operand \<Rightarrow> vtc \<Rightarrow> insn list" where
  "shrwz_st RG RM Dp = [stack_st Recx, movwx_rr Recx RG, shrwz_mx RM Dp, stack_ld Recx]"

definition shrwn_rr :: "operand \<Rightarrow> operand \<Rightarrow> insn list" where
  "shrwn_rr RG RM = [stack_st Recx, movwx_rr Recx RM, shrwn_rx RG, stack_ld Recx]"

definition shrwn_ld :: "operand \<Rightarrow> operand \<Rightarrow> vtc \<Rightarrow> insn list" where
  "shrwn_ld RG RM Dp = [stack_st Recx, movwx_ld Recx RM Dp, shrwn_rx RG, stack_ld Recx]"

definition shrwn_st :: "operand \<Rightarrow> operand \<Rightarrow> vtc \<Rightarrow> insn list" where
  "shrwn_st RG RM Dp = [stack_st Recx, movwx_rr Recx RG, shrwn_mx RM Dp, stack_ld Recx]"

definition divwx_ri :: "insn list \<Rightarrow> vtc \<Rightarrow> operand \<Rightarrow> vtc \<Rightarrow> insn list" where
  "divwx_ri prewx_rr inf_SCR01_0 RM Im =
     [stack_st Reax, stack_st Redx, movwx_mi Mebp inf_SCR01_0 Im, movwx_rr Reax RM]
     @ prewx_rr
     @ [divwx_xm Mebp inf_SCR01_0, stack_ld Redx, movwx_rr RM Reax, stack_ld Reax]"

definition divwx_rr :: "insn list \<Rightarrow> operand \<Rightarrow> operand \<Rightarrow> insn list" where
  "divwx_rr prewx_rr RG RM =
     [stack_st Reax, stack_st Redx, movwx_rr Reax RG]
     @ prewx_rr
     @ [divwx_xr RM, stack_ld Redx, movwx_rr RG Reax, stack_ld Reax]"

definition divwx_ld :: "insn list \<Rightarrow> operand \<Rightarrow> operand \<Rightarrow> vtc \<Rightarrow> insn list" where
  "divwx_ld prewx_rr RG RM Dp =
     [stack_st Reax, stack_st Redx, movwx_rr Reax RG]
     @ prewx_rr
     @ [divwx_xm RM Dp, stack_ld Redx, movwx_rr RG Reax, stack_ld Reax]"

definition divwn_ri :: "insn list \<Rightarrow> vtc \<Rightarrow> operand \<Rightarrow> vtc \<Rightarrow> insn list" where
  "divwn_ri prewn_rr inf_SCR01_0 RM Im =
     [stack_st Reax, stack_st Redx, movwx_mi Mebp inf_SCR01_0 Im, movwx_rr Reax RM]
     @ prewn_rr
     @ [divwn_xm Mebp inf_SCR01_0, stack_ld Redx, movwx_rr RM Reax, stack_ld Reax]"

definition divwn_rr :: "insn list \<Rightarrow> operand \<Rightarrow> operand \<Rightarrow> insn list" where
  "divwn_rr prewn_rr RG RM =
     [stack_st Reax, stack_st Redx, movwx_rr Reax RG]
     @ prewn_rr
     @ [divwn_xr RM, stack_ld Redx, movwx_rr RG Reax, stack_ld Reax]"

definition divwn_ld :: "insn list \<Rightarrow> operand \<Rightarrow> operand \<Rightarrow> vtc \<Rightarrow> insn list" where
  "divwn_ld prewn_rr RG RM Dp =
     [stack_st Reax, stack_st Redx, movwx_rr Reax RG]
     @ prewn_rr
     @ [divwn_xm RM Dp, stack_ld Redx, movwx_rr RG Reax, stack_ld Reax]"

definition remwx_ri :: "insn list \<Rightarrow> vtc \<Rightarrow> operand \<Rightarrow> vtc \<Rightarrow> insn list" where
  "remwx_ri prewx_rr inf_SCR01_0 RM Im =
     [stack_st Redx, stack_st Reax, movwx_mi Mebp inf_SCR01_0 Im, movwx_rr Reax RM]
     @ prewx_rr
     @ [divwx_xm Mebp inf_SCR01_0, stack_ld Reax, movwx_rr RM Redx, stack_ld Redx]"

definition remwx_rr :: "insn list \<Rightarrow> operand \<Rightarrow> operand \<Rightarrow> insn list" where
  "remwx_rr prewx_rr RG RM =
     [stack_st Redx, stack_st Reax, movwx_rr Reax RG]
     @ prewx_rr
     @ [divwx_xr RM, stack_ld Reax, movwx_rr RG Redx, stack_ld Redx]"

definition remwx_ld :: "insn list \<Rightarrow> operand \<Rightarrow> operand \<Rightarrow> vtc \<Rightarrow> insn list" where
  "remwx_ld prewx_rr RG RM Dp =
     [stack_st Redx, stack_st Reax, movwx_rr Reax RG]
     @ prewx_rr
     @ [divwx_xm RM Dp, stack_ld Reax, movwx_rr RG Redx, stack_ld Redx]"

definition remwn_ri :: "insn list \<Rightarrow> vtc \<Rightarrow> operand \<Rightarrow> vtc \<Rightarrow> insn list" where
  "remwn_ri prewn_rr inf_SCR01_0 RM Im =
     [stack_st Redx, stack_st Reax, movwx_mi Mebp inf_SCR01_0 Im, movwx_rr Reax RM]
     @ prewn_rr
     @ [divwn_xm Mebp inf_SCR01_0, stack_ld Reax, movwx_rr RM Redx, stack_ld Redx]"

definition remwn_rr :: "insn list \<Rightarrow> operand \<Rightarrow> operand \<Rightarrow> insn list" where
  "remwn_rr prewn_rr RG RM =
     [stack_st Redx, stack_st Reax, movwx_rr Reax RG]
     @ prewn_rr
     @ [divwn_xr RM, stack_ld Reax, movwx_rr RG Redx, stack_ld Redx]"

definition remwn_ld :: "insn list \<Rightarrow> operand \<Rightarrow> operand \<Rightarrow> vtc \<Rightarrow> insn list" where
  "remwn_ld prewn_rr RG RM Dp =
     [stack_st Redx, stack_st Reax, movwx_rr Reax RG]
     @ prewn_rr
     @ [divwn_xm RM Dp, stack_ld Reax, movwx_rr RG Redx, stack_ld Redx]"

subsection \<open>Compare and jump\<close>

text \<open>
  The jump macros hand a mnemonic and a label to the assembler
  (\<^verbatim>\<open>ASM_BEG ASM_OP1(jb, lb) ASM_END\<close>); \<^verbatim>\<open>ASM_BEG\<close> and \<^verbatim>\<open>ASM_END\<close>
  only open and close the assembler statement.  The condition names \<^verbatim>\<open>EQ_x\<close> ...
  \<^verbatim>\<open>GE_n\<close> are macros standing for the jump macros, and \<^verbatim>\<open>CMJ(cc, lb)\<close> applies
  the one it is given.
\<close>

definition jmpxx_lb :: "string \<Rightarrow> code" where "jmpxx_lb lb = [ASM_OP1 ''jmp'' lb]"
definition jezxx_lb :: "string \<Rightarrow> code" where "jezxx_lb lb = [ASM_OP1 ''jz'' lb]"
definition jnzxx_lb :: "string \<Rightarrow> code" where "jnzxx_lb lb = [ASM_OP1 ''jnz'' lb]"
definition jeqxx_lb :: "string \<Rightarrow> code" where "jeqxx_lb lb = [ASM_OP1 ''je'' lb]"
definition jnexx_lb :: "string \<Rightarrow> code" where "jnexx_lb lb = [ASM_OP1 ''jne'' lb]"
definition jltxx_lb :: "string \<Rightarrow> code" where "jltxx_lb lb = [ASM_OP1 ''jb'' lb]"
definition jlexx_lb :: "string \<Rightarrow> code" where "jlexx_lb lb = [ASM_OP1 ''jbe'' lb]"
definition jgtxx_lb :: "string \<Rightarrow> code" where "jgtxx_lb lb = [ASM_OP1 ''ja'' lb]"
definition jgexx_lb :: "string \<Rightarrow> code" where "jgexx_lb lb = [ASM_OP1 ''jae'' lb]"
definition jltxn_lb :: "string \<Rightarrow> code" where "jltxn_lb lb = [ASM_OP1 ''jl'' lb]"
definition jlexn_lb :: "string \<Rightarrow> code" where "jlexn_lb lb = [ASM_OP1 ''jle'' lb]"
definition jgtxn_lb :: "string \<Rightarrow> code" where "jgtxn_lb lb = [ASM_OP1 ''jg'' lb]"
definition jgexn_lb :: "string \<Rightarrow> code" where "jgexn_lb lb = [ASM_OP1 ''jge'' lb]"

datatype cond = EQ_x | NE_x | LT_x | LE_x | GT_x | GE_x | LT_n | LE_n | GT_n | GE_n

fun CMJ :: "cond \<Rightarrow> string \<Rightarrow> code" where
  "CMJ EQ_x lb = jeqxx_lb lb"
| "CMJ NE_x lb = jnexx_lb lb"
| "CMJ LT_x lb = jltxx_lb lb"
| "CMJ LE_x lb = jlexx_lb lb"
| "CMJ GT_x lb = jgtxx_lb lb"
| "CMJ GE_x lb = jgexx_lb lb"
| "CMJ LT_n lb = jltxn_lb lb"
| "CMJ LE_n lb = jlexn_lb lb"
| "CMJ GT_n lb = jgtxn_lb lb"
| "CMJ GE_n lb = jgexn_lb lb"

text \<open>The mnemonic a stream item hands to the assembler, if it is one.\<close>

fun mnemonic :: "emit \<Rightarrow> string option" where
  "mnemonic (ASM_OP1 m lb) = Some m"
| "mnemonic (ASM_OP0 m) = Some m"
| "mnemonic (EMITB b) = None"
| "mnemonic (EMITW w) = None"

text \<open>
  The ordered conditions in their two variants, unsigned first: the pairs the compare
  and jump macros must tell apart.
\<close>

definition ordered_pairs :: "(cond \<times> cond) list" where
  "ordered_pairs = [(LT_x, LT_n), (LE_x, LE_n), (GT_x, GT_n), (GE_x, GE_n)]"

section \<open>A machine model for the x86 BASE subset\<close>

text \<open>
  What the emitted instructions do when the processor runs them, as far as the
  properties of the synthesized sequences need it: the eight 32-bit registers, indexed
  by their number in the \<^verbatim>\<open>REG\<close> field (4 is the stack pointer, which no operand of
  the header names), the stack that \<^verbatim>\<open>stack_st\<close> pushes to and \<^verbatim>\<open>stack_ld\<close>
  pops from, and data memory as a map from the address of a 32-bit cell to its
  content.  The stack is kept apart from data memory: a data access never reaches a
  slot that a push of the same sequence wrote.  The condition flags are not modelled.
  An instruction that raises the divide error has no successor state.
\<close>

record x86_state =
  regs :: "int \<Rightarrow> 32 word"
  stack :: "32 word list"
  mem :: "32 word \<Rightarrow> 32 word"

text \<open>The displacement and the immediate the processor reads back from the stream.\<close>

definition disp_of :: "vtc \<Rightarrow> 32 word" where
  "disp_of Dp = (case CMD Dp of [EMITW d] \<Rightarrow> word_of_int d | _ \<Rightarrow> 0)"

definition imm_of :: "code \<Rightarrow> 32 word" where
  "imm_of c = (case c of
                 [EMITB b] \<Rightarrow> word_of_int (signed_take_bit 7 b)
               | [EMITW w] \<Rightarrow> word_of_int w
               | _ \<Rightarrow> 0)"

text \<open>
  The effective address of a memory operand: \<^verbatim>\<open>MOD\<close> 0 is register indirect,
  \<^verbatim>\<open>MOD\<close> 2 adds the 32-bit displacement, and an operand with a SIB byte adds the
  scaled index register to the base register.
\<close>

definition ea :: "x86_state \<Rightarrow> operand \<Rightarrow> vtc \<Rightarrow> 32 word" where
  "ea s RM Dp =
     (if MOD RM = 0 then regs s (REG RM)
      else case SIB RM of
             [EMITB sib] \<Rightarrow>
               regs s (sib AND 7)
               + push_bit (nat (drop_bit 6 sib AND 3)) (regs s (drop_bit 3 sib AND 7))
               + disp_of Dp
           | _ \<Rightarrow> regs s (REG RM) + disp_of Dp)"

definition rm_val :: "x86_state \<Rightarrow> operand \<Rightarrow> vtc \<Rightarrow> 32 word" where
  "rm_val s RM Dp = (if MOD RM = 3 then regs s (REG RM) else mem s (ea s RM Dp))"

definition rm_upd :: "x86_state \<Rightarrow> operand \<Rightarrow> vtc \<Rightarrow> 32 word \<Rightarrow> x86_state" where
  "rm_upd s RM Dp v =
     (if MOD RM = 3 then s\<lparr>regs := (regs s)(REG RM := v)\<rparr>
      else s\<lparr>mem := (mem s)(ea s RM Dp := v)\<rparr>)"

definition reg_upd :: "x86_state \<Rightarrow> operand \<Rightarrow> 32 word \<Rightarrow> x86_state" where
  "reg_upd s RG v = s\<lparr>regs := (regs s)(REG RG := v)\<rparr>"

text \<open>Shifts by the count in \<^verbatim>\<open>cl\<close> or in an immediate: the processor uses its low 5 bits.\<close>

definition shl32 :: "32 word \<Rightarrow> 32 word \<Rightarrow> 32 word" where
  "shl32 v c = push_bit (unat (c AND 0x1F)) v"

definition shr32 :: "32 word \<Rightarrow> 32 word \<Rightarrow> 32 word" where
  "shr32 v c = drop_bit (unat (c AND 0x1F)) v"

definition sar32 :: "32 word \<Rightarrow> 32 word \<Rightarrow> 32 word" where
  "sar32 v c = signed_drop_bit (unat (c AND 0x1F)) v"

text \<open>
  \<^verbatim>\<open>div\<close> and \<^verbatim>\<open>idiv\<close> divide \<^verbatim>\<open>edx:eax\<close> by the operand, leave the quotient
  in \<^verbatim>\<open>eax\<close> and the remainder in \<^verbatim>\<open>edx\<close>, and raise the divide error on a zero
  divisor or a quotient that does not fit 32 bits.
\<close>

definition div_u :: "x86_state \<Rightarrow> 32 word \<Rightarrow> x86_state option" where
  "div_u s d =
     (let n = uint (regs s 2) * 2 ^ 32 + uint (regs s 0) in
      if d = 0 \<or> 2 ^ 32 \<le> n div uint d then None
      else Some (s\<lparr>regs := (regs s)(0 := word_of_int (n div uint d),
                                     2 := word_of_int (n mod uint d))\<rparr>))"

definition div_n :: "x86_state \<Rightarrow> 32 word \<Rightarrow> x86_state option" where
  "div_n s d =
     (let n = sint (regs s 2) * 2 ^ 32 + uint (regs s 0) in
      if d = 0 \<or> n sdiv sint d < - (2 ^ 31) \<or> 2 ^ 31 \<le> n sdiv sint d then None
      else Some (s\<lparr>regs := (regs s)(0 := word_of_int (n sdiv sint d),
                                     2 := word_of_int (n smod sint d))\<rparr>))"

fun exec :: "insn \<Rightarrow> x86_state \<Rightarrow> x86_state option" where
  "exec (movwx_ri RM Im) s =
     Some (rm_upd s RM PLAIN (word_of_int (VAL Im AND (push_bit 6 (TYP Im) - 1))))"
| "exec (movwx_mi RM Dp Im) s =
     Some (rm_upd s RM Dp (word_of_int (VAL Im AND (push_bit 6 (TYP Im) - 1))))"
| "exec (movwx_rr RG RM) s = Some (reg_upd s RG (rm_val s RM PLAIN))"
| "exec (movwx_ld RG RM Dp) s = Some (reg_upd s RG (rm_val s RM Dp))"
| "exec (movwx_st RG RM Dp) s = Some (rm_upd s RM Dp (regs s (REG RG)))"
| "exec (addwz_ri RM Im) s = Some (rm_upd s RM PLAIN (rm_val s RM PLAIN + imm_of (CMD Im)))"
| "exec (addwz_mi RM Dp Im) s = Some (rm_upd s RM Dp (rm_val s RM Dp + imm_of (CMD Im)))"
| "exec (addwz_rr RG RM) s = Some (reg_upd s RG (regs s (REG RG) + rm_val s RM PLAIN))"
| "exec (addwz_ld RG RM Dp) s = Some (reg_upd s RG (regs s (REG RG) + rm_val s RM Dp))"
| "exec (addwz_st RG RM Dp) s = Some (rm_upd s RM Dp (rm_val s RM Dp + regs s (REG RG)))"
| "exec (subwz_ri RM Im) s = Some (rm_upd s RM PLAIN (rm_val s RM PLAIN - imm_of (CMD Im)))"
| "exec (subwz_mi RM Dp Im) s = Some (rm_upd s RM Dp (rm_val s RM Dp - imm_of (CMD Im)))"
| "exec (subwz_rr RG RM) s = Some (reg_upd s RG (regs s (REG RG) - rm_val s RM PLAIN))"
| "exec (subwz_ld RG RM Dp) s = Some (reg_upd s RG (regs s (REG RG) - rm_val s RM Dp))"
| "exec (subwz_st RG RM Dp) s = Some (rm_upd s RM Dp (rm_val s RM Dp - regs s (REG RG)))"
| "exec (shlwz_rx RM) s = Some (rm_upd s RM PLAIN (shl32 (rm_val s RM PLAIN) (regs s 1)))"
| "exec (shlwz_mx RM Dp) s = Some (rm_upd s RM Dp (shl32 (rm_val s RM Dp) (regs s 1)))"
| "exec (shlwz_ri RM Im) s =
     Some (rm_upd s RM PLAIN (shl32 (rm_val s RM PLAIN) (word_of_int (VAL Im AND 0x1F))))"
| "exec (shlwz_mi RM Dp Im) s =
     Some (rm_upd s RM Dp (shl32 (rm_val s RM Dp) (word_of_int (VAL Im AND 0x1F))))"
| "exec (shrwz_rx RM) s = Some (rm_upd s RM PLAIN (shr32 (rm_val s RM PLAIN) (regs s 1)))"
| "exec (shrwz_mx RM Dp) s = Some (rm_upd s RM Dp (shr32 (rm_val s RM Dp) (regs s 1)))"
| "exec (shrwz_ri RM Im) s =
     Some (rm_upd s RM PLAIN (shr32 (rm_val s RM PLAIN) (word_of_int (VAL Im AND 0x1F))))"
| "exec (shrwz_mi RM Dp Im) s =
     Some (rm_upd s RM Dp (shr32 (rm_val s RM Dp) (word_of_int (VAL Im AND 0x1F))))"
| "exec (shrwn_rx RM) s = Some (rm_upd s RM PLAIN (sar32 (rm_val s RM PLAIN) (regs s 1)))"
| "exec (shrwn_mx RM Dp) s = Some (rm_upd s RM Dp (sar32 (rm_val s RM Dp) (regs s 1)))"
| "exec (shrwn_ri RM Im) s =
     Some (rm_upd s RM PLAIN (sar32 (rm_val s RM PLAIN) (word_of_int (VAL Im AND 0x1F))))"
| "exec (shrwn_mi RM Dp Im) s =
     Some (rm_upd s RM Dp (sar32 (rm_val s RM Dp) (word_of_int (VAL Im AND 0x1F))))"
| "exec (mulwx_ri RM Im) s = Some (reg_upd s RM (rm_val s RM PLAIN * imm_of (CMD Im)))"
| "exec (mulwx_rr RG RM) s = Some (reg_upd s RG (regs s (REG RG) * rm_val s RM PLAIN))"
| "exec (mulwx_ld RG RM Dp) s = Some (reg_upd s RG (regs s (REG RG) * rm_val s RM Dp))"
| "exec (divwx_xr RM) s = div_u s (rm_val s RM PLAIN)"
| "exec (divwx_xm RM Dp) s = div_u s (rm_val s RM Dp)"
| "exec (divwn_xr RM) s = div_n s (rm_val s RM PLAIN)"
| "exec (divwn_xm RM Dp) s = div_n s (rm_val s RM Dp)"
| "exec (stack_st RM) s =
     Some (s\<lparr>regs := (regs s)(4 := regs s 4 - 4), stack := rm_val s RM PLAIN # stack s\<rparr>)"
| "exec (stack_ld RM) s =
     (case stack s of
        [] \<Rightarrow> None
      | v # st \<Rightarrow> Some (rm_upd (s\<lparr>regs := (regs s)(4 := regs s 4 + 4), stack := st\<rparr>) RM PLAIN v))"

fun run :: "insn list \<Rightarrow> x86_state \<Rightarrow> x86_state option" where
  "run [] s = Some s"
| "run (i # prog) s = (case exec i s of None \<Rightarrow> None | Some s' \<Rightarrow> run prog s')"

section \<open>ARMv7 NEON, 128-bit (rtarch\_arm\_128.h)\<close>

definition MXM :: "int \<Rightarrow> int \<Rightarrow> int \<Rightarrow> int" where
  "MXM reg ren rem =
     (push_bit 0 (rem AND 0x0F) OR push_bit 1 (rem AND 0x10) OR
      push_bit 16 (ren AND 0x0F) OR push_bit 3 (ren AND 0x10) OR
      push_bit 12 (reg AND 0x0F) OR push_bit 18 (reg AND 0x10))"

definition Tmm0 :: int where "Tmm0 = 0x00"
definition TmmM :: int where "TmmM = 0x10"
definition TmmC :: int where "TmmC = 0x12"
definition TmmD :: int where "TmmD = 0x14"
definition TmmE :: int where "TmmE = 0x16"
definition TmmF :: int where "TmmF = 0x18"

definition Xmm0 :: operand where "Xmm0 = \<lparr>REG = 0x00, MOD = 0x00, SIB = EMPTY\<rparr>"
definition Xmm1 :: operand where "Xmm1 = \<lparr>REG = 0x02, MOD = 0x00, SIB = EMPTY\<rparr>"
definition Xmm2 :: operand where "Xmm2 = \<lparr>REG = 0x04, MOD = 0x00, SIB = EMPTY\<rparr>"
definition Xmm3 :: operand where "Xmm3 = \<lparr>REG = 0x06, MOD = 0x00, SIB = EMPTY\<rparr>"
definition Xmm4 :: operand where "Xmm4 = \<lparr>REG = 0x08, MOD = 0x00, SIB = EMPTY\<rparr>"
definition Xmm5 :: operand where "Xmm5 = \<lparr>REG = 0x0A, MOD = 0x00, SIB = EMPTY\<rparr>"
definition Xmm6 :: operand where "Xmm6 = \<lparr>REG = 0x0C, MOD = 0x00, SIB = EMPTY\<rparr>"
definition Xmm7 :: operand where "Xmm7 = \<lparr>REG = 0x0E, MOD = 0x00, SIB = EMPTY\<rparr>"

definition simd_regs :: "operand list" where
  "simd_regs = [Xmm0, Xmm1, Xmm2, Xmm3, Xmm4, Xmm5, Xmm6, Xmm7]"

text \<open>
  \<^verbatim>\<open>divos_rr\<close> is chosen by the preprocessor from \<^verbatim>\<open>RT_SIMD_COMPAT_DIV\<close> and
  \<^verbatim>\<open>RT_128\<close>; the two build settings are the first two arguments.
\<close>

definition divos_rr :: "int \<Rightarrow> int \<Rightarrow> operand \<Rightarrow> operand \<Rightarrow> code" where
  "divos_rr RT_SIMD_COMPAT_DIV RT_128 XG XS =
    (if RT_SIMD_COMPAT_DIV = 1 then
       [EMITW (0xEE800A00 OR MXM (REG XG + 0) (REG XG + 0) (REG XS + 0)),
        EMITW (0xEEC00AA0 OR MXM (REG XG + 0) (REG XG + 0) (REG XS + 0)),
        EMITW (0xEE800A00 OR MXM (REG XG + 1) (REG XG + 1) (REG XS + 1)),
        EMITW (0xEEC00AA0 OR MXM (REG XG + 1) (REG XG + 1) (REG XS + 1))]
     else if RT_128 < 2 then
       [EMITW (0xF3BB0540 OR MXM TmmM 0x00 (REG XS)),
        EMITW (0xF2000F50 OR MXM TmmC TmmM (REG XS)),
        EMITW (0xF3000D50 OR MXM TmmM TmmM TmmC),
        EMITW (0xF2000F50 OR MXM TmmC TmmM (REG XS)),
        EMITW (0xF3000D50 OR MXM TmmM TmmM TmmC),
        EMITW (0xF2000F50 OR MXM TmmC TmmM (REG XS)),
        EMITW (0xF3000D50 OR MXM TmmM TmmM TmmC),
        EMITW (0xF3000D50 OR MXM TmmC (REG XG) TmmM),
        EMITW (0xF2200D50 OR MXM (REG XG) (REG XS) TmmC),
        EMITW (0xF2000D50 OR MXM TmmC (REG XG) TmmM),
        EMITW (0xF2200150 OR MXM (REG XG) TmmC TmmC)]
     else
       [EMITW (0xF3BB0540 OR MXM TmmM 0x00 (REG XS)),
        EMITW (0xF2000F50 OR MXM TmmC TmmM (REG XS)),
        EMITW (0xF3000D50 OR MXM TmmM TmmM TmmC),
        EMITW (0xF3000D50 OR MXM TmmC (REG XG) TmmM),
        EMITW (0xF2200C50 OR MXM (REG XG) (REG XS) TmmC),
        EMITW (0xF2000C50 OR MXM TmmC (REG XG) TmmM),
        EMITW (0xF2200150 OR MXM (REG XG) TmmC TmmC)])"

text \<open>
  Reading the emitted words back as AArch32 instructions.  The three register fields
  are the places \<^verbatim>\<open>MXM\<close> writes to: \<open>Vd\<close> with its high bit \<open>D\<close>, \<open>Vn\<close>
  with \<open>N\<close>, \<open>Vm\<close> with \<open>M\<close>.
\<close>

datatype neon =
    VRECPE int int
  | VRECPS int int int
  | VMUL int int int
  | VMLA int int int
  | VMLS int int int
  | VFMA int int int
  | VFMS int int int
  | VORR int int int
  | VDIV int int int
  | OTHER int

definition fld_d :: "int \<Rightarrow> int" where
  "fld_d w = (drop_bit 12 w AND 0x0F) OR (drop_bit 18 w AND 0x10)"
definition fld_n :: "int \<Rightarrow> int" where
  "fld_n w = (drop_bit 16 w AND 0x0F) OR (drop_bit 3 w AND 0x10)"
definition fld_m :: "int \<Rightarrow> int" where
  "fld_m w = (w AND 0x0F) OR (drop_bit 1 w AND 0x10)"

definition decode :: "emit \<Rightarrow> neon" where
  "decode e = (case e of
     EMITW w \<Rightarrow>
       (if w AND 0xFFBF0FD0 = 0xF3BB0540 then VRECPE (fld_d w) (fld_m w)
        else if w AND 0xFFB00F50 = 0xF2000F50 then VRECPS (fld_d w) (fld_n w) (fld_m w)
        else if w AND 0xFFB00F50 = 0xF3000D50 then VMUL (fld_d w) (fld_n w) (fld_m w)
        else if w AND 0xFFB00F50 = 0xF2000D50 then VMLA (fld_d w) (fld_n w) (fld_m w)
        else if w AND 0xFFB00F50 = 0xF2200D50 then VMLS (fld_d w) (fld_n w) (fld_m w)
        else if w AND 0xFFB00F50 = 0xF2000C50 then VFMA (fld_d w) (fld_n w) (fld_m w)
        else if w AND 0xFFB00F50 = 0xF2200C50 then VFMS (fld_d w) (fld_n w) (fld_m w)
        else if w AND 0xFFB00F50 = 0xF2200150 then VORR (fld_d w) (fld_n w) (fld_m w)
        else if w AND 0xFFB00F50 = 0xEE800A00 then VDIV (fld_d w) (fld_n w) (fld_m w)
        else OTHER w)
   | _ \<Rightarrow> OTHER 0)"

text \<open>The refinement sequence in the spec's words: one Newton-Raphson step is a
  correction followed by a post-multiply.\<close>

definition nr_step :: "int \<Rightarrow> neon list" where
  "nr_step xs = [VRECPS TmmC TmmM xs, VMUL TmmM TmmM TmmC]"

definition div_refine :: "nat \<Rightarrow> bool \<Rightarrow> int \<Rightarrow> int \<Rightarrow> neon list" where
  "div_refine steps fused xg xs =
     [VRECPE TmmM xs] @ concat (replicate steps (nr_step xs))
     @ [VMUL TmmC xg TmmM,
        (if fused then VFMS xg xs TmmC else VMLS xg xs TmmC),
        (if fused then VFMA TmmC xg TmmM else VMLA TmmC xg TmmM),
        VORR xg TmmC TmmC]"

text \<open>A register number that fits the five bits of a field.\<close>

definition rv :: "int \<Rightarrow> bool" where
  "rv r \<longleftrightarrow> 0 \<le> r \<and> r < 32"

subsection \<open>What the NEON macros do\<close>

text \<open>
  The state the SIMD macros of this header work on: the quad registers, indexed by the
  number in their \<^verbatim>\<open>REG\<close> field (\<^verbatim>\<open>TmmM\<close> and the other reserved registers are
  numbers of the same space), the core registers, the floating-point status and
  control register, the value a rounding-mode block keeps of it, and memory as a map from the address of a SIMD-aligned 128-bit
  cell to its content.  A macro is the state transformer its header comment states
  (\<^verbatim>\<open>and (G = G & S)\<close>, \<^verbatim>\<open>ann (G = ~G & S)\<close>, ...), with the registers its body
  overwrites on the way.

  rtarch\_arm.h and rtbase.h are not among the sources.  What the macros here take
  from them is gathered in \<open>arm_env\<close>: the numbers of the reserved core registers
  \<^verbatim>\<open>TIxx\<close> and \<^verbatim>\<open>TNxx\<close>, the build settings, the address a memory operand
  \<^verbatim>\<open>MS, Ds\<close> resolves to (computed from the core registers by the \<^verbatim>\<open>AUW\<close> and
  \<^verbatim>\<open>MPM\<close> prefix of every load and store), and the VFP conversion, which reads the
  rounding mode in the control register and may set its cumulative flags.  The prefix
  of a load or store leaves the address in the reserved core register \<^verbatim>\<open>TPxx\<close>,
  which no operand names and nothing below reads; that write is left out of the state.
\<close>

record arm_state =
  qreg :: "int \<Rightarrow> 128 word"
  rreg :: "int \<Rightarrow> 32 word"
  fpscr :: "32 word"
  fsave :: "32 word"
  amem :: "32 word \<Rightarrow> 128 word"

record arm_env =
  TIxx :: int
  TNxx :: int
  RT_SIMD_FAST_FCTRL :: int
  RT_SIMD_FLUSH_ZERO :: int
  adr :: "(int \<Rightarrow> 32 word) \<Rightarrow> operand \<Rightarrow> vtc \<Rightarrow> 32 word"
  fcvt :: "32 word \<Rightarrow> 128 word \<Rightarrow> 128 word \<times> 32 word"

definition seq :: "('s \<Rightarrow> 's) list \<Rightarrow> 's \<Rightarrow> 's" where
  "seq fs s = fold (\<lambda>f. f) fs s"

definition movox_rr :: "operand \<Rightarrow> operand \<Rightarrow> arm_state \<Rightarrow> arm_state" where
  "movox_rr XD XS s = s\<lparr>qreg := (qreg s)(REG XD := qreg s (REG XS))\<rparr>"

definition movox_ld :: "arm_env \<Rightarrow> operand \<Rightarrow> operand \<Rightarrow> vtc \<Rightarrow> arm_state \<Rightarrow> arm_state" where
  "movox_ld env XD MS Ds s = s\<lparr>qreg := (qreg s)(REG XD := amem s (adr env (rreg s) MS Ds))\<rparr>"

definition movox_st :: "arm_env \<Rightarrow> operand \<Rightarrow> operand \<Rightarrow> vtc \<Rightarrow> arm_state \<Rightarrow> arm_state" where
  "movox_st env XS MD Dd s = s\<lparr>amem := (amem s)(adr env (rreg s) MD Dd := qreg s (REG XS))\<rparr>"

definition andox_rr :: "operand \<Rightarrow> operand \<Rightarrow> arm_state \<Rightarrow> arm_state" where
  "andox_rr XG XS s = s\<lparr>qreg := (qreg s)(REG XG := qreg s (REG XG) AND qreg s (REG XS))\<rparr>"

definition annox_rr :: "operand \<Rightarrow> operand \<Rightarrow> arm_state \<Rightarrow> arm_state" where
  "annox_rr XG XS s = s\<lparr>qreg := (qreg s)(REG XG := qreg s (REG XS) AND NOT (qreg s (REG XG)))\<rparr>"

definition annox_ld :: "arm_env \<Rightarrow> operand \<Rightarrow> operand \<Rightarrow> vtc \<Rightarrow> arm_state \<Rightarrow> arm_state" where
  "annox_ld env XG MS Ds s =
     (let q1 = (qreg s)(TmmM := amem s (adr env (rreg s) MS Ds))
      in s\<lparr>qreg := q1(REG XG := q1 TmmM AND NOT (q1 (REG XG)))\<rparr>)"

definition orrox_rr :: "operand \<Rightarrow> operand \<Rightarrow> arm_state \<Rightarrow> arm_state" where
  "orrox_rr XG XS s = s\<lparr>qreg := (qreg s)(REG XG := qreg s (REG XG) OR qreg s (REG XS))\<rparr>"

definition notox_rx :: "operand \<Rightarrow> arm_state \<Rightarrow> arm_state" where
  "notox_rx XG s = s\<lparr>qreg := (qreg s)(REG XG := NOT (qreg s (REG XG)))\<rparr>"

definition mmvox_ld :: "arm_env \<Rightarrow> operand \<Rightarrow> operand \<Rightarrow> vtc \<Rightarrow> arm_state \<Rightarrow> arm_state" where
  "mmvox_ld env XG MS Ds =
     seq [notox_rx Xmm0, andox_rr XG Xmm0, annox_ld env Xmm0 MS Ds, orrox_rr XG Xmm0]"

definition mmvox_st :: "arm_env \<Rightarrow> operand \<Rightarrow> operand \<Rightarrow> vtc \<Rightarrow> arm_state \<Rightarrow> arm_state" where
  "mmvox_st env XS MG Dg =
     seq [andox_rr XS Xmm0, annox_ld env Xmm0 MG Dg, orrox_rr Xmm0 XS, movox_st env Xmm0 MG Dg]"

text \<open>The rounding modes and their control values (the \<^verbatim>\<open>_F\<close> names are the
  flush-to-zero modes).\<close>

datatype rmode = ROUNDN | ROUNDM | ROUNDP | ROUNDZ | ROUNDN_F | ROUNDM_F | ROUNDP_F | ROUNDZ_F

fun RT_SIMD_MODE :: "int \<Rightarrow> rmode \<Rightarrow> int" where
  "RT_SIMD_MODE fz ROUNDN = (if fz = 0 then 0x00 else 0x04)"
| "RT_SIMD_MODE fz ROUNDM = (if fz = 0 then 0x02 else 0x06)"
| "RT_SIMD_MODE fz ROUNDP = (if fz = 0 then 0x01 else 0x05)"
| "RT_SIMD_MODE fz ROUNDZ = (if fz = 0 then 0x03 else 0x07)"
| "RT_SIMD_MODE fz ROUNDN_F = 0x04"
| "RT_SIMD_MODE fz ROUNDM_F = 0x06"
| "RT_SIMD_MODE fz ROUNDP_F = 0x05"
| "RT_SIMD_MODE fz ROUNDZ_F = 0x07"

text \<open>
  \<^verbatim>\<open>FCTRL_SET(mode)\<close>: with \<^verbatim>\<open>RT_SIMD_FAST_FCTRL == 0\<close> the two words are
  \<^verbatim>\<open>mov TIxx, #mode\<close> with the immediate rotated to bits 22 and up (the word
  \<^verbatim>\<open>0xE3A00500 | ... | mode\<close>) and \<^verbatim>\<open>vmsr fpscr, TIxx\<close>; otherwise one
  \<^verbatim>\<open>vmsr\<close> from the core register \<^verbatim>\<open>(mode & 3) * 2 + 8\<close>.
  \<^verbatim>\<open>FCTRL_RESET()\<close> is \<^verbatim>\<open>vmsr fpscr, TNxx\<close> under both settings.
\<close>

definition FCTRL_SET :: "arm_env \<Rightarrow> rmode \<Rightarrow> arm_state \<Rightarrow> arm_state" where
  "FCTRL_SET env md s =
     (if RT_SIMD_FAST_FCTRL env = 0 then
        (let r1 = (rreg s)(TIxx env := push_bit 22 (word_of_int (RT_SIMD_MODE (RT_SIMD_FLUSH_ZERO env) md)))
         in s\<lparr>rreg := r1, fpscr := r1 (TIxx env)\<rparr>)
      else s\<lparr>fpscr := rreg s ((RT_SIMD_MODE (RT_SIMD_FLUSH_ZERO env) md AND 3) * 2 + 8)\<rparr>)"

definition FCTRL_RESET :: "arm_env \<Rightarrow> arm_state \<Rightarrow> arm_state" where
  "FCTRL_RESET env s = s\<lparr>fpscr := rreg s (TNxx env)\<rparr>"

text \<open>
  Modelled from the spec: \<^verbatim>\<open>FCTRL_ENTER\<close> and \<^verbatim>\<open>FCTRL_LEAVE\<close>, the macros that
  open and close a block with another rounding mode, are defined in rtbase.h, which is
  not among the sources.  The specification has the rounding control \<^emph>\<open>temporarily
  reprogrammed around a single conversion\<close> and \<^emph>\<open>restored on every exit path (a
  scoped resource, never left unrestored)\<close>: the block keeps the value the control
  register had when it was entered (in \<open>fsave\<close>, a place of the state that nothing
  else writes), sets the mode with the header's \<^verbatim>\<open>FCTRL_SET\<close>, and puts the kept
  value back when it is left.
\<close>

definition FCTRL_ENTER :: "arm_env \<Rightarrow> rmode \<Rightarrow> arm_state \<Rightarrow> arm_state" where
  "FCTRL_ENTER env md s = FCTRL_SET env md (s\<lparr>fsave := fpscr s\<rparr>)"

definition FCTRL_LEAVE :: "arm_env \<Rightarrow> rmode \<Rightarrow> arm_state \<Rightarrow> arm_state" where
  "FCTRL_LEAVE env md s = s\<lparr>fpscr := fsave s\<rparr>"

definition cvtos_rr :: "arm_env \<Rightarrow> operand \<Rightarrow> operand \<Rightarrow> arm_state \<Rightarrow> arm_state" where
  "cvtos_rr env XD XS s =
     (let (v, f) = fcvt env (fpscr s) (qreg s (REG XS))
      in s\<lparr>qreg := (qreg s)(REG XD := v), fpscr := f\<rparr>)"

definition cvtos_ld :: "arm_env \<Rightarrow> operand \<Rightarrow> operand \<Rightarrow> vtc \<Rightarrow> arm_state \<Rightarrow> arm_state" where
  "cvtos_ld env XD MS Ds s =
     (let (v, f) = fcvt env (fpscr s) (amem s (adr env (rreg s) MS Ds))
      in s\<lparr>qreg := (qreg s)(REG XD := v), fpscr := f\<rparr>)"

text \<open>The synthesized conversions of the \<^verbatim>\<open>RT_128 < 4\<close> branch.\<close>

definition cvpos_rr :: "arm_env \<Rightarrow> operand \<Rightarrow> operand \<Rightarrow> arm_state \<Rightarrow> arm_state" where
  "cvpos_rr env XD XS = seq [FCTRL_ENTER env ROUNDP, cvtos_rr env XD XS, FCTRL_LEAVE env ROUNDP]"

definition cvpos_ld :: "arm_env \<Rightarrow> operand \<Rightarrow> operand \<Rightarrow> vtc \<Rightarrow> arm_state \<Rightarrow> arm_state" where
  "cvpos_ld env XD MS Ds =
     seq [FCTRL_ENTER env ROUNDP, cvtos_ld env XD MS Ds, FCTRL_LEAVE env ROUNDP]"

definition cvmos_rr :: "arm_env \<Rightarrow> operand \<Rightarrow> operand \<Rightarrow> arm_state \<Rightarrow> arm_state" where
  "cvmos_rr env XD XS = seq [FCTRL_ENTER env ROUNDM, cvtos_rr env XD XS, FCTRL_LEAVE env ROUNDM]"

definition cvmos_ld :: "arm_env \<Rightarrow> operand \<Rightarrow> operand \<Rightarrow> vtc \<Rightarrow> arm_state \<Rightarrow> arm_state" where
  "cvmos_ld env XD MS Ds =
     seq [FCTRL_ENTER env ROUNDM, cvtos_ld env XD MS Ds, FCTRL_LEAVE env ROUNDM]"

definition cvros_rr :: "arm_env \<Rightarrow> operand \<Rightarrow> operand \<Rightarrow> rmode \<Rightarrow> arm_state \<Rightarrow> arm_state" where
  "cvros_rr env XD XS md = seq [FCTRL_ENTER env md, cvtos_rr env XD XS, FCTRL_LEAVE env md]"

section \<open>x86-64 AVX-512, 64-bit elements (config/rtarch\_x64\_512x1v8.h)\<close>

text \<open>
  The macros of this header are written with the prefix macros \<^verbatim>\<open>EVW\<close>,
  \<^verbatim>\<open>EKW\<close> and \<^verbatim>\<open>ADR\<close> and call BASE and x87 macros (\<^verbatim>\<open>movzx_ld\<close>,
  \<^verbatim>\<open>mulzx_ld\<close>, \<^verbatim>\<open>stack_st\<close>, \<^verbatim>\<open>fpucw_st\<close>, ...) of headers that are not among
  the sources, so their byte streams cannot be written down here.  They are modelled
  by what the encoded instruction does: each macro is a function on the machine state,
  and a macro built from others runs them in the order of its body.

  The state: the vector registers, indexed by the first component of the operand
  triplet, each a map from the lane number (0 to 7) to a 64-bit element; the mask
  register \<^verbatim>\<open>k1\<close>; the 64-bit BASE registers and the stack; the result of the last
  signed compare; the x87 top of stack, control word and \<^verbatim>\<open>MXCSR\<close>; and memory.
  Memory is a map from an origin and a lane number to a 64-bit cell.  The origins
  are the fields of the info block that the macros reach through
  \<^verbatim>\<open>Mebp, inf_SCR01(nx)\<close>, \<^verbatim>\<open>Mebp, inf_SCR02(nx)\<close> and \<^verbatim>\<open>Mebp, inf_GPC07\<close>
  (rtarch.h lays them out one after the other; each is as wide as a vector), and the
  addresses of all other operands.  A byte offset \<^verbatim>\<open>nx\<close> into a field selects the
  lane \<^verbatim>\<open>nx / 8\<close> and, for the 32-bit and 16-bit accesses, the bits from
  \<^verbatim>\<open>8 * (nx % 8)\<close> up.
\<close>

datatype orig = SCR01 | SCR02 | GPC07 | MEM "64 word"

datatype xdisp = inf_SCR01 int | inf_SCR02 int | inf_GPC07 | Disp vtc

record x64_state =
  zmm :: "int \<Rightarrow> nat \<Rightarrow> 64 word"
  k1 :: "nat \<Rightarrow> bool"
  gpr :: "int \<Rightarrow> 64 word"
  stk :: "64 word list"
  sge :: bool
  st0 :: "80 word"
  fpucw :: "16 word"
  mxcsr :: "32 word"
  xmem :: "orig \<Rightarrow> nat \<Rightarrow> 64 word"

text \<open>
  The build setting \<^verbatim>\<open>RT_512X1\<close>, the operand triplet of the mask register
  \<^verbatim>\<open>Xmm0\<close> (declared in a header that is not among the sources) and the x87
  arithmetic (the integer load, the single-precision add and the double-precision
  store, the last two under the control word) and the packed conversion of a 64-bit
  integer, signed or unsigned, to double precision under \<^verbatim>\<open>MXCSR\<close>, with the
  exception flags it raises: the instruction sets them in the low six bits of
  \<^verbatim>\<open>MXCSR\<close>, the sticky status flags, and writes no other bit of it.
\<close>

record x64_env =
  RT_512X1 :: int
  XMM0 :: operand
  fild64 :: "64 word \<Rightarrow> 80 word"
  fadd32 :: "16 word \<Rightarrow> 80 word \<Rightarrow> 32 word \<Rightarrow> 80 word"
  fst64 :: "16 word \<Rightarrow> 80 word \<Rightarrow> 64 word"
  cvt_q2pd :: "bool \<Rightarrow> 32 word \<Rightarrow> 64 word \<Rightarrow> 64 word"
  cvt_flags :: "bool \<Rightarrow> 32 word \<Rightarrow> (nat \<Rightarrow> 64 word) \<Rightarrow> 32 word"

type_synonym x64_op = "x64_state \<Rightarrow> x64_state option"

definition seqo :: "('s \<Rightarrow> 's option) list \<Rightarrow> 's \<Rightarrow> 's option" where
  "seqo fs s = fold (\<lambda>f r. Option.bind r f) fs (Some s)"

definition xea :: "x64_state \<Rightarrow> operand \<Rightarrow> vtc \<Rightarrow> 64 word" where
  "xea s M d =
     (if MOD M = 0 then gpr s (REG M)
      else case SIB M of
             [EMITB sib] \<Rightarrow>
               gpr s (sib AND 7)
               + push_bit (nat (drop_bit 6 sib AND 3)) (gpr s (drop_bit 3 sib AND 7))
               + scast (disp_of d)
           | _ \<Rightarrow> gpr s (REG M) + scast (disp_of d))"

text \<open>Where an operand lives: the origin, the lane and the first bit in the lane.\<close>

fun place :: "x64_state \<Rightarrow> operand \<Rightarrow> xdisp \<Rightarrow> orig \<times> nat \<times> nat" where
  "place s M (inf_SCR01 nx) = (SCR01, nat (nx div 8), 8 * nat (nx mod 8))"
| "place s M (inf_SCR02 nx) = (SCR02, nat (nx div 8), 8 * nat (nx mod 8))"
| "place s M inf_GPC07 = (GPC07, 0, 0)"
| "place s M (Disp d) = (MEM (xea s M d), 0, 0)"

definition ld512 :: "x64_state \<Rightarrow> operand \<Rightarrow> xdisp \<Rightarrow> nat \<Rightarrow> 64 word" where
  "ld512 s M D = (case place s M D of (og, l, b) \<Rightarrow> (\<lambda>i. xmem s og (l + i)))"

definition st512 :: "x64_state \<Rightarrow> operand \<Rightarrow> xdisp \<Rightarrow> (nat \<Rightarrow> bool) \<Rightarrow> (nat \<Rightarrow> 64 word)
    \<Rightarrow> x64_state" where
  "st512 s M D k v =
     (case place s M D of (og, l, b) \<Rightarrow>
        s\<lparr>xmem := (xmem s)(og := (\<lambda>j. if l \<le> j \<and> j < l + 8 \<and> k (j - l) then v (j - l)
                                        else xmem s og j))\<rparr>)"

definition get_bits :: "nat \<Rightarrow> nat \<Rightarrow> 64 word \<Rightarrow> 64 word" where
  "get_bits b n w = take_bit n (drop_bit b w)"

definition put_bits :: "nat \<Rightarrow> nat \<Rightarrow> 64 word \<Rightarrow> 64 word \<Rightarrow> 64 word" where
  "put_bits b n v w = (w AND NOT (push_bit b (mask n))) OR push_bit b (take_bit n v)"

definition rd :: "nat \<Rightarrow> x64_state \<Rightarrow> operand \<Rightarrow> xdisp \<Rightarrow> 64 word" where
  "rd n s M D = (case place s M D of (og, l, b) \<Rightarrow> get_bits b n (xmem s og l))"

definition wr :: "nat \<Rightarrow> x64_state \<Rightarrow> operand \<Rightarrow> xdisp \<Rightarrow> 64 word \<Rightarrow> x64_state" where
  "wr n s M D v =
     (case place s M D of (og, l, b) \<Rightarrow>
        s\<lparr>xmem := (xmem s)(og := (xmem s og)(l := put_bits b n v (xmem s og l)))\<rparr>)"

subsection \<open>Moves and the mask register\<close>

definition movqx_rr :: "operand \<Rightarrow> operand \<Rightarrow> x64_op" where
  "movqx_rr XD XS s = Some (s\<lparr>zmm := (zmm s)(REG XD := zmm s (REG XS))\<rparr>)"

definition movqx_ld :: "operand \<Rightarrow> operand \<Rightarrow> xdisp \<Rightarrow> x64_op" where
  "movqx_ld XD MS Ds s = Some (s\<lparr>zmm := (zmm s)(REG XD := ld512 s MS Ds)\<rparr>)"

definition movqx_st :: "operand \<Rightarrow> operand \<Rightarrow> xdisp \<Rightarrow> x64_op" where
  "movqx_st XS MD Dd s = Some (st512 s MD Dd (\<lambda>i. True) (zmm s (REG XS)))"

text \<open>
  \<^verbatim>\<open>ck1qx_rm\<close>: for \<^verbatim>\<open>RT_512X1\<close> 1 and 4 the compare-equal of every lane with the
  memory operand into \<^verbatim>\<open>k1\<close> (opcode \<^verbatim>\<open>0x29\<close> in map 2, prefix \<^verbatim>\<open>66\<close>, \<^verbatim>\<open>W1\<close>),
  for 2 and 8 the move of every lane's top bit into \<^verbatim>\<open>k1\<close> (opcode \<^verbatim>\<open>0x39\<close>,
  prefix \<^verbatim>\<open>F3\<close>).
\<close>

definition ck1qx_rm :: "x64_env \<Rightarrow> operand \<Rightarrow> operand \<Rightarrow> xdisp \<Rightarrow> x64_op" where
  "ck1qx_rm env XS MT Dt s =
     (if RT_512X1 env = 1 \<or> RT_512X1 env = 4
      then Some (s\<lparr>k1 := (\<lambda>i. zmm s (REG XS) i = ld512 s MT Dt i)\<rparr>)
      else Some (s\<lparr>k1 := (\<lambda>i. bit (zmm s (REG XS) i) 63)\<rparr>))"

text \<open>
  The second instruction of the \<^verbatim>\<open>mmv\<close> macros is the move under \<^verbatim>\<open>EKW\<close>, the
  prefix that selects \<^verbatim>\<open>k1\<close> with merging: a lane is written where its mask bit is
  set and keeps its value where it is clear.
\<close>

definition mmvqx_rr :: "x64_env \<Rightarrow> operand \<Rightarrow> operand \<Rightarrow> x64_op" where
  "mmvqx_rr env XG XS =
     seqo [ck1qx_rm env (XMM0 env) Mebp inf_GPC07,
           (\<lambda>s. Some (s\<lparr>zmm := (zmm s)(REG XG :=
                   (\<lambda>i. if k1 s i then zmm s (REG XS) i else zmm s (REG XG) i))\<rparr>))]"

definition mmvqx_ld :: "x64_env \<Rightarrow> operand \<Rightarrow> operand \<Rightarrow> xdisp \<Rightarrow> x64_op" where
  "mmvqx_ld env XG MS Ds =
     seqo [ck1qx_rm env (XMM0 env) Mebp inf_GPC07,
           (\<lambda>s. Some (s\<lparr>zmm := (zmm s)(REG XG :=
                   (\<lambda>i. if k1 s i then ld512 s MS Ds i else zmm s (REG XG) i))\<rparr>))]"

definition mmvqx_st :: "x64_env \<Rightarrow> operand \<Rightarrow> operand \<Rightarrow> xdisp \<Rightarrow> x64_op" where
  "mmvqx_st env XS MG Dg =
     seqo [ck1qx_rm env (XMM0 env) Mebp inf_GPC07,
           (\<lambda>s. Some (st512 s MG Dg (k1 s) (zmm s (REG XS))))]"

subsection \<open>The 64-bit multiply\<close>

text \<open>
  Modelled from the spec: the 64-bit BASE macros \<^verbatim>\<open>stack_st\<close>, \<^verbatim>\<open>stack_ld\<close>,
  \<^verbatim>\<open>movzx_ld\<close>, \<^verbatim>\<open>movzx_st\<close> and \<^verbatim>\<open>mulzx_ld\<close> of rtarch\_x64.h, which is
  not among the sources: push and pop of a register, the 64-bit load and store, and the
  scalar multiply of a register by a memory operand (\<^emph>\<open>per-element scalar
  multiplies\<close>), which keeps the low 64 bits of the product.
\<close>

definition stack_st_x64 :: "operand \<Rightarrow> x64_op" where
  "stack_st_x64 RS s =
     Some (s\<lparr>gpr := (gpr s)(4 := gpr s 4 - 8), stk := gpr s (REG RS) # stk s\<rparr>)"

definition stack_ld_x64 :: "operand \<Rightarrow> x64_op" where
  "stack_ld_x64 RD s =
     (case stk s of
        [] \<Rightarrow> None
      | v # st \<Rightarrow> Some (s\<lparr>gpr := (gpr s)(4 := gpr s 4 + 8, REG RD := v), stk := st\<rparr>))"

definition movzx_ld :: "operand \<Rightarrow> operand \<Rightarrow> xdisp \<Rightarrow> x64_op" where
  "movzx_ld RD MS Ds s = Some (s\<lparr>gpr := (gpr s)(REG RD := rd 64 s MS Ds)\<rparr>)"

definition movzx_st :: "operand \<Rightarrow> operand \<Rightarrow> xdisp \<Rightarrow> x64_op" where
  "movzx_st RS MD Dd s = Some (wr 64 s MD Dd (gpr s (REG RS)))"

definition mulzx_ld :: "operand \<Rightarrow> operand \<Rightarrow> xdisp \<Rightarrow> x64_op" where
  "mulzx_ld RG MS Ds s = Some (s\<lparr>gpr := (gpr s)(REG RG := gpr s (REG RG) * rd 64 s MS Ds)\<rparr>)"

definition mulqx_rx :: "operand \<Rightarrow> x64_op" where
  "mulqx_rx XD =
     seqo [stack_st_x64 Recx,
           movzx_ld Recx Mebp (inf_SCR01 0x00),
           mulzx_ld Recx Mebp (inf_SCR02 0x00),
           movzx_st Recx Mebp (inf_SCR01 0x00),
           movzx_ld Recx Mebp (inf_SCR01 0x08),
           mulzx_ld Recx Mebp (inf_SCR02 0x08),
           movzx_st Recx Mebp (inf_SCR01 0x08),
           movzx_ld Recx Mebp (inf_SCR01 0x10),
           mulzx_ld Recx Mebp (inf_SCR02 0x10),
           movzx_st Recx Mebp (inf_SCR01 0x10),
           movzx_ld Recx Mebp (inf_SCR01 0x18),
           mulzx_ld Recx Mebp (inf_SCR02 0x18),
           movzx_st Recx Mebp (inf_SCR01 0x18),
           movzx_ld Recx Mebp (inf_SCR01 0x20),
           mulzx_ld Recx Mebp (inf_SCR02 0x20),
           movzx_st Recx Mebp (inf_SCR01 0x20),
           movzx_ld Recx Mebp (inf_SCR01 0x28),
           mulzx_ld Recx Mebp (inf_SCR02 0x28),
           movzx_st Recx Mebp (inf_SCR01 0x28),
           movzx_ld Recx Mebp (inf_SCR01 0x30),
           mulzx_ld Recx Mebp (inf_SCR02 0x30),
           movzx_st Recx Mebp (inf_SCR01 0x30),
           movzx_ld Recx Mebp (inf_SCR01 0x38),
           mulzx_ld Recx Mebp (inf_SCR02 0x38),
           movzx_st Recx Mebp (inf_SCR01 0x38),
           stack_ld_x64 Recx,
           movqx_ld XD Mebp (inf_SCR01 0)]"

text \<open>
  \<^verbatim>\<open>mulqx3rr\<close> and \<^verbatim>\<open>mulqx3ld\<close>: the scratch round trip for \<^verbatim>\<open>RT_512X1\<close> 1 and 4,
  the single instruction with opcode \<^verbatim>\<open>0x40\<close> in map 2 under \<^verbatim>\<open>W1\<close> (the packed
  multiply that keeps the low 64 bits of every product) for 2 and 8.
\<close>

definition mulqx3rr :: "x64_env \<Rightarrow> operand \<Rightarrow> operand \<Rightarrow> operand \<Rightarrow> x64_op" where
  "mulqx3rr env XD XS XT =
     (if RT_512X1 env = 1 \<or> RT_512X1 env = 4
      then seqo [movqx_st XS Mebp (inf_SCR01 0), movqx_st XT Mebp (inf_SCR02 0), mulqx_rx XD]
      else (\<lambda>s. Some (s\<lparr>zmm := (zmm s)(REG XD := (\<lambda>i. zmm s (REG XS) i * zmm s (REG XT) i))\<rparr>)))"

definition mulqx3ld :: "x64_env \<Rightarrow> operand \<Rightarrow> operand \<Rightarrow> operand \<Rightarrow> xdisp \<Rightarrow> x64_op" where
  "mulqx3ld env XD XS MT Dt =
     (if RT_512X1 env = 1 \<or> RT_512X1 env = 4
      then seqo [movqx_st XS Mebp (inf_SCR01 0), movqx_ld XD MT Dt,
                 movqx_st XD Mebp (inf_SCR02 0), mulqx_rx XD]
      else (\<lambda>s. Some (s\<lparr>zmm := (zmm s)(REG XD := (\<lambda>i. zmm s (REG XS) i * ld512 s MT Dt i))\<rparr>)))"

definition mulqx_rr :: "x64_env \<Rightarrow> operand \<Rightarrow> operand \<Rightarrow> x64_op" where
  "mulqx_rr env XG XS = mulqx3rr env XG XG XS"

definition mulqx_ld :: "x64_env \<Rightarrow> operand \<Rightarrow> operand \<Rightarrow> xdisp \<Rightarrow> x64_op" where
  "mulqx_ld env XG MS Ds = mulqx3ld env XG XG MS Ds"

subsection \<open>Integer to floating-point conversion through the x87 unit\<close>

text \<open>
  Modelled from the spec: the x87 and control macros of the x86 headers that are not
  among the sources.  \<^verbatim>\<open>fpucw_st\<close> and \<^verbatim>\<open>fpucw_ld\<close> store and load the 16-bit
  x87 control word, \<^verbatim>\<open>mxcsr_st\<close> stores the 32-bit \<^verbatim>\<open>MXCSR\<close> (\<^emph>\<open>temporarily
  reprogramming the floating-point rounding control\<close>); \<^verbatim>\<open>fpuzn_ld\<close> loads a 64-bit
  integer to the x87 top of stack, \<^verbatim>\<open>addws_ld\<close> adds a single-precision operand to
  it, \<^verbatim>\<open>fpuzs_st\<close> stores it as double precision; \<^verbatim>\<open>shrwx_mi\<close>, \<^verbatim>\<open>andwx_mi\<close>,
  \<^verbatim>\<open>orrwx_mi\<close>, \<^verbatim>\<open>movwx_mi\<close> and \<^verbatim>\<open>cmpwx_mi\<close> are the 32-bit BASE
  operations on a memory operand, as in rtarch\_x86.h.
\<close>

definition fpucw_st :: "operand \<Rightarrow> xdisp \<Rightarrow> x64_op" where
  "fpucw_st MD Dd s = Some (wr 16 s MD Dd (ucast (fpucw s)))"

definition fpucw_ld :: "operand \<Rightarrow> xdisp \<Rightarrow> x64_op" where
  "fpucw_ld MS Ds s = Some (s\<lparr>fpucw := ucast (rd 16 s MS Ds)\<rparr>)"

definition mxcsr_st :: "operand \<Rightarrow> xdisp \<Rightarrow> x64_op" where
  "mxcsr_st MD Dd s = Some (wr 32 s MD Dd (ucast (mxcsr s)))"

definition shrwx_mi :: "operand \<Rightarrow> xdisp \<Rightarrow> vtc \<Rightarrow> x64_op" where
  "shrwx_mi MG Dg Im s =
     Some (wr 32 s MG Dg (ucast (shr32 (ucast (rd 32 s MG Dg)) (word_of_int (VAL Im AND 0x1F)))))"

definition andwx_mi :: "operand \<Rightarrow> xdisp \<Rightarrow> vtc \<Rightarrow> x64_op" where
  "andwx_mi MG Dg Im s =
     Some (wr 32 s MG Dg (ucast ((ucast (rd 32 s MG Dg) :: 32 word) AND imm_of (CMD Im))))"

definition orrwx_mi :: "operand \<Rightarrow> xdisp \<Rightarrow> vtc \<Rightarrow> x64_op" where
  "orrwx_mi MG Dg Im s =
     Some (wr 32 s MG Dg (ucast ((ucast (rd 32 s MG Dg) :: 32 word) OR imm_of (CMD Im))))"

definition movwx_mi_x64 :: "operand \<Rightarrow> xdisp \<Rightarrow> vtc \<Rightarrow> x64_op" where
  "movwx_mi_x64 MD Dd Im s =
     Some (wr 32 s MD Dd (word_of_int (VAL Im AND (push_bit 6 (TYP Im) - 1))))"

definition cmpwx_mi_x64 :: "operand \<Rightarrow> xdisp \<Rightarrow> vtc \<Rightarrow> x64_op" where
  "cmpwx_mi_x64 MS Ds Im s =
     Some (s\<lparr>sge := (sint (imm_of (CMD Im)) \<le> sint (ucast (rd 32 s MS Ds) :: 32 word))\<rparr>)"

definition fpuzn_ld :: "x64_env \<Rightarrow> operand \<Rightarrow> xdisp \<Rightarrow> x64_op" where
  "fpuzn_ld env MS Ds s = Some (s\<lparr>st0 := fild64 env (rd 64 s MS Ds)\<rparr>)"

definition addws_ld :: "x64_env \<Rightarrow> operand \<Rightarrow> xdisp \<Rightarrow> x64_op" where
  "addws_ld env MS Ds s = Some (s\<lparr>st0 := fadd32 env (fpucw s) (st0 s) (ucast (rd 32 s MS Ds))\<rparr>)"

definition fpuzs_st :: "x64_env \<Rightarrow> operand \<Rightarrow> xdisp \<Rightarrow> x64_op" where
  "fpuzs_st env MD Dd s = Some (wr 64 s MD Dd (fst64 env (fpucw s) (st0 s)))"

text \<open>
  \<^verbatim>\<open>EMITB(0x7D) EMITB(0x07 + x67)\<close> is the short jump on greater-or-equal over
  the bytes of the instruction that follows it in the body.
\<close>

definition jge_over :: "x64_op \<Rightarrow> x64_op" where
  "jge_over f s = (if sge s then Some s else f s)"

definition cvnqn_rr :: "x64_env \<Rightarrow> operand \<Rightarrow> operand \<Rightarrow> x64_op" where
  "cvnqn_rr env XD XS =
     (if RT_512X1 env = 1 \<or> RT_512X1 env = 4 then
        seqo [movqx_st XS Mebp (inf_SCR01 0),
              fpuzn_ld env Mebp (inf_SCR01 0x00),
              fpuzs_st env Mebp (inf_SCR01 0x00),
              fpuzn_ld env Mebp (inf_SCR01 0x08),
              fpuzs_st env Mebp (inf_SCR01 0x08),
              fpuzn_ld env Mebp (inf_SCR01 0x10),
              fpuzs_st env Mebp (inf_SCR01 0x10),
              fpuzn_ld env Mebp (inf_SCR01 0x18),
              fpuzs_st env Mebp (inf_SCR01 0x18),
              fpuzn_ld env Mebp (inf_SCR01 0x20),
              fpuzs_st env Mebp (inf_SCR01 0x20),
              fpuzn_ld env Mebp (inf_SCR01 0x28),
              fpuzs_st env Mebp (inf_SCR01 0x28),
              fpuzn_ld env Mebp (inf_SCR01 0x30),
              fpuzs_st env Mebp (inf_SCR01 0x30),
              fpuzn_ld env Mebp (inf_SCR01 0x38),
              fpuzs_st env Mebp (inf_SCR01 0x38),
              movqx_ld XD Mebp (inf_SCR01 0)]
      else (\<lambda>s. Some (s\<lparr>zmm := (zmm s)(REG XD :=
                   (\<lambda>i. cvt_q2pd env True (mxcsr s) (zmm s (REG XS) i))),
                 mxcsr := mxcsr s OR (cvt_flags env True (mxcsr s) (zmm s (REG XS)) AND 0x3F)\<rparr>)))"

definition cvnqx_rr :: "x64_env \<Rightarrow> operand \<Rightarrow> operand \<Rightarrow> x64_op" where
  "cvnqx_rr env XD XS =
     (if RT_512X1 env = 1 \<or> RT_512X1 env = 4 then
        seqo [movqx_st XS Mebp (inf_SCR01 0),
              movwx_mi_x64 Mebp (inf_SCR02 0x00) (IW 0x5F800000),
              fpuzn_ld env Mebp (inf_SCR01 0x00),
              cmpwx_mi_x64 Mebp (inf_SCR01 0x04) (IC 0),
              jge_over (addws_ld env Mebp (inf_SCR02 0x00)),
              fpuzs_st env Mebp (inf_SCR01 0x00),
              fpuzn_ld env Mebp (inf_SCR01 0x08),
              cmpwx_mi_x64 Mebp (inf_SCR01 0x0C) (IC 0),
              jge_over (addws_ld env Mebp (inf_SCR02 0x00)),
              fpuzs_st env Mebp (inf_SCR01 0x08),
              fpuzn_ld env Mebp (inf_SCR01 0x10),
              cmpwx_mi_x64 Mebp (inf_SCR01 0x14) (IC 0),
              jge_over (addws_ld env Mebp (inf_SCR02 0x00)),
              fpuzs_st env Mebp (inf_SCR01 0x10),
              fpuzn_ld env Mebp (inf_SCR01 0x18),
              cmpwx_mi_x64 Mebp (inf_SCR01 0x1C) (IC 0),
              jge_over (addws_ld env Mebp (inf_SCR02 0x00)),
              fpuzs_st env Mebp (inf_SCR01 0x18),
              fpuzn_ld env Mebp (inf_SCR01 0x20),
              cmpwx_mi_x64 Mebp (inf_SCR01 0x24) (IC 0),
              jge_over (addws_ld env Mebp (inf_SCR02 0x00)),
              fpuzs_st env Mebp (inf_SCR01 0x20),
              fpuzn_ld env Mebp (inf_SCR01 0x28),
              cmpwx_mi_x64 Mebp (inf_SCR01 0x2C) (IC 0),
              jge_over (addws_ld env Mebp (inf_SCR02 0x00)),
              fpuzs_st env Mebp (inf_SCR01 0x28),
              fpuzn_ld env Mebp (inf_SCR01 0x30),
              cmpwx_mi_x64 Mebp (inf_SCR01 0x34) (IC 0),
              jge_over (addws_ld env Mebp (inf_SCR02 0x00)),
              fpuzs_st env Mebp (inf_SCR01 0x30),
              fpuzn_ld env Mebp (inf_SCR01 0x38),
              cmpwx_mi_x64 Mebp (inf_SCR01 0x3C) (IC 0),
              jge_over (addws_ld env Mebp (inf_SCR02 0x00)),
              fpuzs_st env Mebp (inf_SCR01 0x38),
              movqx_ld XD Mebp (inf_SCR01 0)]
      else (\<lambda>s. Some (s\<lparr>zmm := (zmm s)(REG XD :=
                   (\<lambda>i. cvt_q2pd env False (mxcsr s) (zmm s (REG XS) i))),
                 mxcsr := mxcsr s OR (cvt_flags env False (mxcsr s) (zmm s (REG XS)) AND 0x3F)\<rparr>)))"

text \<open>The conversions under the current rounding mode: \<^verbatim>\<open>cvtqn\<close> and \<^verbatim>\<open>cvtqx\<close>.\<close>

definition cvtqn_rr :: "x64_env \<Rightarrow> operand \<Rightarrow> operand \<Rightarrow> x64_op" where
  "cvtqn_rr env XD XS =
     (if RT_512X1 env = 1 \<or> RT_512X1 env = 4 then
        seqo [fpucw_st Mebp (inf_SCR02 4),
              mxcsr_st Mebp (inf_SCR02 0),
              shrwx_mi Mebp (inf_SCR02 0) (IB 3),
              andwx_mi Mebp (inf_SCR02 0) (IH 0x0C00),
              orrwx_mi Mebp (inf_SCR02 0) (IB 0x7F),
              fpucw_ld Mebp (inf_SCR02 0),
              cvnqn_rr env XD XS,
              fpucw_ld Mebp (inf_SCR02 4)]
      else (\<lambda>s. Some (s\<lparr>zmm := (zmm s)(REG XD :=
                   (\<lambda>i. cvt_q2pd env True (mxcsr s) (zmm s (REG XS) i))),
                 mxcsr := mxcsr s OR (cvt_flags env True (mxcsr s) (zmm s (REG XS)) AND 0x3F)\<rparr>)))"

definition cvtqx_rr :: "x64_env \<Rightarrow> operand \<Rightarrow> operand \<Rightarrow> x64_op" where
  "cvtqx_rr env XD XS =
     (if RT_512X1 env = 1 \<or> RT_512X1 env = 4 then
        seqo [fpucw_st Mebp (inf_SCR02 4),
              mxcsr_st Mebp (inf_SCR02 0),
              shrwx_mi Mebp (inf_SCR02 0) (IB 3),
              andwx_mi Mebp (inf_SCR02 0) (IH 0x0C00),
              orrwx_mi Mebp (inf_SCR02 0) (IB 0x7F),
              fpucw_ld Mebp (inf_SCR02 0),
              cvnqx_rr env XD XS,
              fpucw_ld Mebp (inf_SCR02 4)]
      else (\<lambda>s. Some (s\<lparr>zmm := (zmm s)(REG XD :=
                   (\<lambda>i. cvt_q2pd env False (mxcsr s) (zmm s (REG XS) i))),
                 mxcsr := mxcsr s OR (cvt_flags env False (mxcsr s) (zmm s (REG XS)) AND 0x3F)\<rparr>)))"

text \<open>The forms with a memory operand: a load to the destination, then the register
  form on it, and the single instruction for \<^verbatim>\<open>RT_512X1\<close> 2 and 8.\<close>

definition cvtqn_ld :: "x64_env \<Rightarrow> operand \<Rightarrow> operand \<Rightarrow> xdisp \<Rightarrow> x64_op" where
  "cvtqn_ld env XD MS Ds =
     (if RT_512X1 env = 1 \<or> RT_512X1 env = 4 then
        seqo [movqx_ld XD MS Ds, cvtqn_rr env XD XD]
      else (\<lambda>s. Some (s\<lparr>zmm := (zmm s)(REG XD :=
                   (\<lambda>i. cvt_q2pd env True (mxcsr s) (ld512 s MS Ds i))),
                 mxcsr := mxcsr s OR (cvt_flags env True (mxcsr s) (ld512 s MS Ds) AND 0x3F)\<rparr>)))"

definition cvtqx_ld :: "x64_env \<Rightarrow> operand \<Rightarrow> operand \<Rightarrow> xdisp \<Rightarrow> x64_op" where
  "cvtqx_ld env XD MS Ds =
     (if RT_512X1 env = 1 \<or> RT_512X1 env = 4 then
        seqo [movqx_ld XD MS Ds, cvtqx_rr env XD XD]
      else (\<lambda>s. Some (s\<lparr>zmm := (zmm s)(REG XD :=
                   (\<lambda>i. cvt_q2pd env False (mxcsr s) (ld512 s MS Ds i))),
                 mxcsr := mxcsr s OR (cvt_flags env False (mxcsr s) (ld512 s MS Ds) AND 0x3F)\<rparr>)))"

text \<open>
  What the instructions between the save and the reload of the control word leave
  alone: the 16 bits of the scratch field that the control word was saved to, and
  \<^verbatim>\<open>MXCSR\<close>.
\<close>

definition keeps_slot :: "x64_state \<Rightarrow> x64_state \<Rightarrow> bool" where
  "keeps_slot s t \<longleftrightarrow>
     get_bits 32 16 (xmem t SCR02 0) = get_bits 32 16 (xmem s SCR02 0) \<and> mxcsr t = mxcsr s"

section \<open>The properties, in the words of the specification\<close>

subsection \<open>Fields of the stream\<close>

text \<open>An item fits its field: a byte for \<^verbatim>\<open>EMITB\<close>, 32 bits for \<^verbatim>\<open>EMITW\<close>.\<close>

fun fits :: "emit \<Rightarrow> bool" where
  "fits (EMITB b) = (0 \<le> b \<and> b < 2 ^ 8)"
| "fits (EMITW w) = (0 \<le> w \<and> w < 2 ^ 32)"
| "fits (ASM_OP0 m) = True"
| "fits (ASM_OP1 m lb) = True"

subsection \<open>One layout per operand shape\<close>

text \<open>
  The layout the specification describes for operations that differ in a numeric
  opcode field only: for the immediate forms the opcode byte \<^verbatim>\<open>0x81 | TYP(IM)\<close> and
  a ModRM byte whose reg field is the constant of the operation; for the register and
  memory forms one opcode byte that is the constant of the operation, and the ModRM
  byte of the two operands.
\<close>

definition rule_ri :: "int \<Rightarrow> operand \<Rightarrow> vtc \<Rightarrow> code" where
  "rule_ri k RM Im = [EMITB (0x81 OR TYP Im)] @ MRM k (MOD RM) (REG RM) @ CMD Im"

definition rule_mi :: "int \<Rightarrow> operand \<Rightarrow> vtc \<Rightarrow> vtc \<Rightarrow> code" where
  "rule_mi k RM Dp Im =
     [EMITB (0x81 OR TYP Im)] @ MRM k (MOD RM) (REG RM) @ SIB RM @ CMD Dp @ CMD Im"

definition rule_rr :: "int \<Rightarrow> operand \<Rightarrow> operand \<Rightarrow> code" where
  "rule_rr opc RG RM = [EMITB opc] @ MRM (REG RG) (MOD RM) (REG RM)"

definition rule_rm :: "int \<Rightarrow> operand \<Rightarrow> operand \<Rightarrow> vtc \<Rightarrow> code" where
  "rule_rm opc RG RM Dp = [EMITB opc] @ MRM (REG RG) (MOD RM) (REG RM) @ SIB RM @ CMD Dp"

text \<open>
  A stream follows the shared layout of its shape when it is the layout at some
  constant; the constant can only be the one the stream carries in that place (the reg
  field of its ModRM byte, its first byte).
\<close>

definition follows_ri :: "code \<Rightarrow> operand \<Rightarrow> vtc \<Rightarrow> bool" where
  "follows_ri c RM Im =
     (case c of
        b # EMITB m # r \<Rightarrow> c = rule_ri (drop_bit 3 m AND 7) RM Im
      | _ \<Rightarrow> False)"

definition follows_rr :: "code \<Rightarrow> operand \<Rightarrow> operand \<Rightarrow> bool" where
  "follows_rr c RG RM =
     (case c of
        EMITB opc # r \<Rightarrow> c = rule_rr opc RG RM
      | _ \<Rightarrow> False)"

subsection \<open>The merge under a mask\<close>

text \<open>The masked write in the specification's words:
  \<^verbatim>\<open>result = (old & ~maskBits) | (new & maskBits)\<close>.\<close>

definition merge :: "'a::len word \<Rightarrow> 'a word \<Rightarrow> 'a word \<Rightarrow> 'a word" where
  "merge old new m = (old AND NOT m) OR (new AND m)"

subsection \<open>The divide instruction\<close>

fun is_vdiv :: "neon \<Rightarrow> bool" where
  "is_vdiv (VDIV d n m) = True"
| "is_vdiv i = False"

subsection \<open>Registers a sequence borrows\<close>

text \<open>
  The frame of a sequence: every register outside \<open>D\<close> holds its value again, the
  stack pointer among them, and the stack holds what it held.
\<close>

definition frame :: "int set \<Rightarrow> x86_state \<Rightarrow> x86_state \<Rightarrow> bool" where
  "frame D s s' \<longleftrightarrow> (\<forall>r. r \<notin> D \<longrightarrow> regs s' r = regs s r) \<and> stack s' = stack s"

text \<open>The pushes and pops of a sequence, in order.\<close>

fun is_stack_op :: "insn \<Rightarrow> bool" where
  "is_stack_op (stack_st RM) = True"
| "is_stack_op (stack_ld RM) = True"
| "is_stack_op i = False"

definition stack_ops :: "insn list \<Rightarrow> insn list" where
  "stack_ops prog = filter is_stack_op prog"

text \<open>
  A sequence saves the registers \<open>rs\<close>: its stack operations are the pushes of
  \<open>rs\<close> and then their pops in the reverse order, and whenever it runs to its end
  every register outside \<open>D\<close> and the stack are as they were.
\<close>

definition saves :: "operand list \<Rightarrow> int set \<Rightarrow> insn list \<Rightarrow> bool" where
  "saves rs D prog \<longleftrightarrow>
     stack_ops prog = map stack_st rs @ map stack_ld (rev rs)
     \<and> (\<forall>s s'. run prog s = Some s' \<longrightarrow> frame D s s')"

text \<open>
  What a sequence needs from the prepare step it is given: it has no stack operation
  of its own, sets up \<^verbatim>\<open>edx\<close> (register 2) for the division and touches no other
  register.
\<close>

definition prepares :: "insn list \<Rightarrow> bool" where
  "prepares p \<longleftrightarrow>
     stack_ops p = [] \<and> (\<forall>s s'. run p s = Some s' \<longrightarrow> frame {2} s s')"

subsection \<open>Concrete machines\<close>

text \<open>
  States and settings to run the sequences on.  \<open>ex_x86\<close>: \<^verbatim>\<open>eax\<close> = 7,
  \<^verbatim>\<open>ecx\<close> = 5, \<^verbatim>\<open>edx\<close> = 9, \<^verbatim>\<open>ebx\<close> = 84, \<^verbatim>\<open>esp\<close> = 0x1000, an empty
  stack and zeroed memory.
\<close>

definition ex_x86 :: x86_state where
  "ex_x86 = \<lparr>regs = (\<lambda>r. 0)(0 := 7, 1 := 5, 2 := 9, 3 := 84, 4 := 0x1000),
             stack = [], mem = (\<lambda>a. 0)\<rparr>"

text \<open>
  An ARM build with \<^verbatim>\<open>RT_SIMD_FAST_FCTRL == 0\<close>, the scratch register
  \<^verbatim>\<open>TIxx\<close> and the default-mode register \<^verbatim>\<open>TNxx\<close> two different core
  registers, every memory operand at address 0 and, for the conversion, a stand-in
  that returns the control word it ran under and raises a flag (bit 0).  \<open>ex_arm\<close>
  is entered with round-towards-zero in the
  control register (bits 22 and 23) and the default mode, 0, in every core register;
  \<open>ex_arm_ones\<close> holds all-ones in every vector register and \<open>0x1234\<close> in every
  memory cell.
\<close>

definition ex_arm_env :: arm_env where
  "ex_arm_env = \<lparr>TIxx = 0x0A, TNxx = 0x0C, RT_SIMD_FAST_FCTRL = 0, RT_SIMD_FLUSH_ZERO = 0,
                 adr = (\<lambda>rg M D. 0), fcvt = (\<lambda>cw v. (ucast cw, cw OR 1))\<rparr>"

definition ex_arm :: arm_state where
  "ex_arm = \<lparr>qreg = (\<lambda>r. 0), rreg = (\<lambda>r. 0), fpscr = 0x00C00000, fsave = 0,
             amem = (\<lambda>a. 0)\<rparr>"

definition ex_arm_ones :: arm_state where
  "ex_arm_ones = \<lparr>qreg = (\<lambda>r. - 1), rreg = (\<lambda>r. 0), fpscr = 0, fsave = 0,
                  amem = (\<lambda>a. 0x1234)\<rparr>"

definition ex_arm_mix :: arm_state where
  "ex_arm_mix = \<lparr>qreg = (\<lambda>r. 0)(0 := 0xFF00, 2 := 0x1234, 4 := 0xABCD), rreg = (\<lambda>r. 0),
                 fpscr = 0, fsave = 0, amem = (\<lambda>a. 0x5678)\<rparr>"

text \<open>
  The two kinds of AVX-512 build, \<^verbatim>\<open>RT_512X1\<close> 1 and 2, with vector register 0 as
  the mask register, stand-ins for the x87 arithmetic and a conversion that raises
  the inexact flag (bit 5); the operand of vector
  register \<open>r\<close>; and a state whose register 1 holds \<open>3, 4, ...\<close>, register 2 holds
  \<open>2^63\<close> in every lane, the mask register alternates all-ones and zero, and the
  constant \<^verbatim>\<open>GPC07\<close> is all-ones.
\<close>

definition ex_emul :: x64_env where
  "ex_emul = \<lparr>RT_512X1 = 1, XMM0 = \<lparr>REG = 0, MOD = 0x03, SIB = EMPTY\<rparr>,
              fild64 = (\<lambda>w. ucast w), fadd32 = (\<lambda>cw a b. a), fst64 = (\<lambda>cw a. ucast a),
              cvt_q2pd = (\<lambda>sg m w. w), cvt_flags = (\<lambda>sg m v. 0x20)\<rparr>"

definition ex_native :: x64_env where
  "ex_native = ex_emul\<lparr>RT_512X1 := 2\<rparr>"

definition ex_zmm :: "int \<Rightarrow> operand" where
  "ex_zmm r = \<lparr>REG = r, MOD = 0x03, SIB = EMPTY\<rparr>"

definition ex_x64 :: x64_state where
  "ex_x64 = \<lparr>zmm = (\<lambda>r i. 0)(0 := (\<lambda>i. if even i then - 1 else 0), 1 := (\<lambda>i. of_nat i + 3),
                                2 := (\<lambda>i. 2 ^ 63)),
             k1 = (\<lambda>i. False), gpr = (\<lambda>r. 0), stk = [], sge = False, st0 = 0,
             fpucw = 0x037F, mxcsr = 0x1F80, xmem = (\<lambda>og i. if og = GPC07 then - 1 else 0)\<rparr>"

section \<open>Proofs\<close>

subsection \<open>Streams\<close>

lemma and_mask_add: "(x + 2 ^ n * k) AND (mask n :: int) = x AND mask n"
  by (simp add: take_bit_eq_mod flip: take_bit_eq_mask)

lemma and_sub_mask:
  assumes "m AND mask n = (m :: int)"
  shows "(x + 2 ^ n * k) AND m = x AND m"
proof -
  have "(x + 2 ^ n * k) AND m = ((x + 2 ^ n * k) AND mask n) AND m"
    using assms by (metis and.assoc and.commute)
  also have "\<dots> = (x AND mask n) AND m" by (simp only: and_mask_add)
  also have "\<dots> = x AND m" using assms by (metis and.assoc and.commute)
  finally show ?thesis .
qed

lemma and_fits: "0 \<le> m \<Longrightarrow> m < b \<Longrightarrow> 0 \<le> v AND m \<and> v AND m < (b :: int)"
  using AND_upper2 [of m v] by simp

lemma and_in_range: "0 \<le> v \<Longrightarrow> v < 2 ^ n \<Longrightarrow> v AND (2 ^ n - 1) = (v :: int)"
  using take_bit_int_eq_self [of v n] by (simp add: take_bit_eq_mask mask_eq_exp_minus_1)

lemma and_disp_mask:
  assumes "0 \<le> v" and "v < 2 ^ (k + 2)" and "4 dvd v"
  shows "v AND (2 ^ (k + 2) - 4) = (v :: int)"
proof -
  from assms(3) obtain w where v: "v = 4 * w" ..
  from assms(1,2) v have w: "0 \<le> w" "w < 2 ^ k" by simp_all
  have m: "(2 :: int) ^ (k + 2) - 4 = push_bit 2 (mask k)"
    by (simp add: push_bit_eq_mult mask_eq_exp_minus_1 algebra_simps)
  have p: "v = push_bit 2 w" by (simp add: push_bit_eq_mult v)
  have "w AND mask k = w"
    using w take_bit_int_eq_self [of w k] by (simp add: take_bit_eq_mask)
  then have "push_bit 2 w AND push_bit 2 (mask k) = push_bit 2 w"
    by (simp flip: push_bit_and)
  with m p show ?thesis by simp
qed

subsection \<open>The x86 machine\<close>

lemma run_append:
  "run (p @ q) s = (case run p s of None \<Rightarrow> None | Some s' \<Rightarrow> run q s')"
  by (induction p arbitrary: s) (auto split: option.splits)

lemma stack_ops_append: "stack_ops (p @ q) = stack_ops p @ stack_ops q"
  by (simp add: stack_ops_def)

lemma div_u_regs: "div_u s d = Some s' \<Longrightarrow>
   stack s' = stack s \<and> (\<forall>r. r \<noteq> 0 \<and> r \<noteq> 2 \<longrightarrow> regs s' r = regs s r)"
  by (auto simp: div_u_def Let_def split: if_splits)

lemma div_n_regs: "div_n s d = Some s' \<Longrightarrow>
   stack s' = stack s \<and> (\<forall>r. r \<noteq> 0 \<and> r \<noteq> 2 \<longrightarrow> regs s' r = regs s r)"
  by (auto simp: div_n_def Let_def split: if_splits)

lemmas opnd_defs = Reax_def Recx_def Redx_def Mebp_def EMPTY_def
lemmas acc_defs = rm_upd_def reg_upd_def rm_val_def

lemma prepares_prewx_xx: "prepares prewx_xx"
  by (auto simp: prepares_def stack_ops_def prewx_xx_def frame_def rm_upd_def Redx_def)

lemma prepares_prewn_xx: "prepares prewn_xx"
  by (auto simp: prepares_def stack_ops_def prewn_xx_def frame_def acc_defs opnd_defs)

lemma shlwz_rr_saves: "saves [Recx] {REG RG} (shlwz_rr RG RM)"
  by (auto simp: saves_def stack_ops_def shlwz_rr_def frame_def acc_defs opnd_defs
      split: option.splits list.splits if_splits)

lemma shlwz_rr_runs: "\<exists>s'. run (shlwz_rr RG RM) s = Some s'"
  by (simp add: shlwz_rr_def acc_defs opnd_defs)

lemma shlwz_ld_saves: "saves [Recx] {REG RG} (shlwz_ld RG RM Dp)"
  by (auto simp: saves_def stack_ops_def shlwz_ld_def frame_def acc_defs opnd_defs
      split: option.splits list.splits if_splits)

lemma shlwz_ld_runs: "\<exists>s'. run (shlwz_ld RG RM Dp) s = Some s'"
  by (simp add: shlwz_ld_def acc_defs opnd_defs)

lemma shlwz_st_saves: "MOD MS \<noteq> 3 \<Longrightarrow> saves [Recx] {} (shlwz_st RG MS Dp)"
  by (auto simp: saves_def stack_ops_def shlwz_st_def frame_def acc_defs opnd_defs
      split: option.splits list.splits if_splits)

lemma shlwz_st_runs: "\<exists>s'. run (shlwz_st RG MS Dp) s = Some s'"
  by (simp add: shlwz_st_def acc_defs opnd_defs)

lemma shrwz_rr_saves: "saves [Recx] {REG RG} (shrwz_rr RG RM)"
  by (auto simp: saves_def stack_ops_def shrwz_rr_def frame_def acc_defs opnd_defs
      split: option.splits list.splits if_splits)

lemma shrwz_rr_runs: "\<exists>s'. run (shrwz_rr RG RM) s = Some s'"
  by (simp add: shrwz_rr_def acc_defs opnd_defs)

lemma shrwz_ld_saves: "saves [Recx] {REG RG} (shrwz_ld RG RM Dp)"
  by (auto simp: saves_def stack_ops_def shrwz_ld_def frame_def acc_defs opnd_defs
      split: option.splits list.splits if_splits)

lemma shrwz_ld_runs: "\<exists>s'. run (shrwz_ld RG RM Dp) s = Some s'"
  by (simp add: shrwz_ld_def acc_defs opnd_defs)

lemma shrwz_st_saves: "MOD MS \<noteq> 3 \<Longrightarrow> saves [Recx] {} (shrwz_st RG MS Dp)"
  by (auto simp: saves_def stack_ops_def shrwz_st_def frame_def acc_defs opnd_defs
      split: option.splits list.splits if_splits)

lemma shrwz_st_runs: "\<exists>s'. run (shrwz_st RG MS Dp) s = Some s'"
  by (simp add: shrwz_st_def acc_defs opnd_defs)

lemma shrwn_rr_saves: "saves [Recx] {REG RG} (shrwn_rr RG RM)"
  by (auto simp: saves_def stack_ops_def shrwn_rr_def frame_def acc_defs opnd_defs
      split: option.splits list.splits if_splits)

lemma shrwn_rr_runs: "\<exists>s'. run (shrwn_rr RG RM) s = Some s'"
  by (simp add: shrwn_rr_def acc_defs opnd_defs)

lemma shrwn_ld_saves: "saves [Recx] {REG RG} (shrwn_ld RG RM Dp)"
  by (auto simp: saves_def stack_ops_def shrwn_ld_def frame_def acc_defs opnd_defs
      split: option.splits list.splits if_splits)

lemma shrwn_ld_runs: "\<exists>s'. run (shrwn_ld RG RM Dp) s = Some s'"
  by (simp add: shrwn_ld_def acc_defs opnd_defs)

lemma shrwn_st_saves: "MOD MS \<noteq> 3 \<Longrightarrow> saves [Recx] {} (shrwn_st RG MS Dp)"
  by (auto simp: saves_def stack_ops_def shrwn_st_def frame_def acc_defs opnd_defs
      split: option.splits list.splits if_splits)

lemma shrwn_st_runs: "\<exists>s'. run (shrwn_st RG MS Dp) s = Some s'"
  by (simp add: shrwn_st_def acc_defs opnd_defs)

lemma divwx_ri_saves:
  assumes p: "prepares p"
  shows "saves [Reax, Redx] {REG RM} (divwx_ri p scr RM Im)"
proof -
  have "frame {REG RM} s s'" if r: "run (divwx_ri p scr RM Im) s = Some s'" for s s'
  proof -
    from r obtain s1 s2 s3 where s2: "run p s1 = Some s2"
      and s1: "stack s1 = regs s 2 # regs s 0 # stack s" "regs s1 4 = regs s 4 - 4 - 4"
        "\<forall>r. r \<noteq> 0 \<and> r \<noteq> 4 \<longrightarrow> regs s1 r = regs s r"
      and s3: "exec (divwx_xm Mebp scr) s2 = Some s3"
      and s': "run [stack_ld Redx, movwx_rr RM Reax, stack_ld Reax] s3 = Some s'"
      by (auto simp: divwx_ri_def run_append acc_defs opnd_defs split: option.splits)
    from p s2 have f2: "frame {2} s1 s2" by (simp add: prepares_def)
    from s3 have d: "stack s3 = stack s2" "\<forall>r. r \<noteq> 0 \<and> r \<noteq> 2 \<longrightarrow> regs s3 r = regs s2 r"
      by (auto dest: div_u_regs div_n_regs)
    from s' s1 f2 d show ?thesis
      by (auto simp: frame_def acc_defs opnd_defs split: option.splits list.splits if_splits)
  qed
  moreover have "stack_ops (divwx_ri p scr RM Im) = map stack_st [Reax, Redx] @ map stack_ld (rev [Reax, Redx])"
    using p by (simp add: divwx_ri_def stack_ops_append prepares_def) (simp add: stack_ops_def)
  ultimately show ?thesis by (simp add: saves_def)
qed

lemma divwx_rr_saves:
  assumes p: "prepares p"
  shows "saves [Reax, Redx] {REG RG} (divwx_rr p RG RM)"
proof -
  have "frame {REG RG} s s'" if r: "run (divwx_rr p RG RM) s = Some s'" for s s'
  proof -
    from r obtain s1 s2 s3 where s2: "run p s1 = Some s2"
      and s1: "stack s1 = regs s 2 # regs s 0 # stack s" "regs s1 4 = regs s 4 - 4 - 4"
        "\<forall>r. r \<noteq> 0 \<and> r \<noteq> 4 \<longrightarrow> regs s1 r = regs s r"
      and s3: "exec (divwx_xr RM) s2 = Some s3"
      and s': "run [stack_ld Redx, movwx_rr RG Reax, stack_ld Reax] s3 = Some s'"
      by (auto simp: divwx_rr_def run_append acc_defs opnd_defs split: option.splits)
    from p s2 have f2: "frame {2} s1 s2" by (simp add: prepares_def)
    from s3 have d: "stack s3 = stack s2" "\<forall>r. r \<noteq> 0 \<and> r \<noteq> 2 \<longrightarrow> regs s3 r = regs s2 r"
      by (auto dest: div_u_regs div_n_regs)
    from s' s1 f2 d show ?thesis
      by (auto simp: frame_def acc_defs opnd_defs split: option.splits list.splits if_splits)
  qed
  moreover have "stack_ops (divwx_rr p RG RM) = map stack_st [Reax, Redx] @ map stack_ld (rev [Reax, Redx])"
    using p by (simp add: divwx_rr_def stack_ops_append prepares_def) (simp add: stack_ops_def)
  ultimately show ?thesis by (simp add: saves_def)
qed

lemma divwx_ld_saves:
  assumes p: "prepares p"
  shows "saves [Reax, Redx] {REG RG} (divwx_ld p RG RM Dp)"
proof -
  have "frame {REG RG} s s'" if r: "run (divwx_ld p RG RM Dp) s = Some s'" for s s'
  proof -
    from r obtain s1 s2 s3 where s2: "run p s1 = Some s2"
      and s1: "stack s1 = regs s 2 # regs s 0 # stack s" "regs s1 4 = regs s 4 - 4 - 4"
        "\<forall>r. r \<noteq> 0 \<and> r \<noteq> 4 \<longrightarrow> regs s1 r = regs s r"
      and s3: "exec (divwx_xm RM Dp) s2 = Some s3"
      and s': "run [stack_ld Redx, movwx_rr RG Reax, stack_ld Reax] s3 = Some s'"
      by (auto simp: divwx_ld_def run_append acc_defs opnd_defs split: option.splits)
    from p s2 have f2: "frame {2} s1 s2" by (simp add: prepares_def)
    from s3 have d: "stack s3 = stack s2" "\<forall>r. r \<noteq> 0 \<and> r \<noteq> 2 \<longrightarrow> regs s3 r = regs s2 r"
      by (auto dest: div_u_regs div_n_regs)
    from s' s1 f2 d show ?thesis
      by (auto simp: frame_def acc_defs opnd_defs split: option.splits list.splits if_splits)
  qed
  moreover have "stack_ops (divwx_ld p RG RM Dp) = map stack_st [Reax, Redx] @ map stack_ld (rev [Reax, Redx])"
    using p by (simp add: divwx_ld_def stack_ops_append prepares_def) (simp add: stack_ops_def)
  ultimately show ?thesis by (simp add: saves_def)
qed

lemma divwn_ri_saves:
  assumes p: "prepares p"
  shows "saves [Reax, Redx] {REG RM} (divwn_ri p scr RM Im)"
proof -
  have "frame {REG RM} s s'" if r: "run (divwn_ri p scr RM Im) s = Some s'" for s s'
  proof -
    from r obtain s1 s2 s3 where s2: "run p s1 = Some s2"
      and s1: "stack s1 = regs s 2 # regs s 0 # stack s" "regs s1 4 = regs s 4 - 4 - 4"
        "\<forall>r. r \<noteq> 0 \<and> r \<noteq> 4 \<longrightarrow> regs s1 r = regs s r"
      and s3: "exec (divwn_xm Mebp scr) s2 = Some s3"
      and s': "run [stack_ld Redx, movwx_rr RM Reax, stack_ld Reax] s3 = Some s'"
      by (auto simp: divwn_ri_def run_append acc_defs opnd_defs split: option.splits)
    from p s2 have f2: "frame {2} s1 s2" by (simp add: prepares_def)
    from s3 have d: "stack s3 = stack s2" "\<forall>r. r \<noteq> 0 \<and> r \<noteq> 2 \<longrightarrow> regs s3 r = regs s2 r"
      by (auto dest: div_u_regs div_n_regs)
    from s' s1 f2 d show ?thesis
      by (auto simp: frame_def acc_defs opnd_defs split: option.splits list.splits if_splits)
  qed
  moreover have "stack_ops (divwn_ri p scr RM Im) = map stack_st [Reax, Redx] @ map stack_ld (rev [Reax, Redx])"
    using p by (simp add: divwn_ri_def stack_ops_append prepares_def) (simp add: stack_ops_def)
  ultimately show ?thesis by (simp add: saves_def)
qed

lemma divwn_rr_saves:
  assumes p: "prepares p"
  shows "saves [Reax, Redx] {REG RG} (divwn_rr p RG RM)"
proof -
  have "frame {REG RG} s s'" if r: "run (divwn_rr p RG RM) s = Some s'" for s s'
  proof -
    from r obtain s1 s2 s3 where s2: "run p s1 = Some s2"
      and s1: "stack s1 = regs s 2 # regs s 0 # stack s" "regs s1 4 = regs s 4 - 4 - 4"
        "\<forall>r. r \<noteq> 0 \<and> r \<noteq> 4 \<longrightarrow> regs s1 r = regs s r"
      and s3: "exec (divwn_xr RM) s2 = Some s3"
      and s': "run [stack_ld Redx, movwx_rr RG Reax, stack_ld Reax] s3 = Some s'"
      by (auto simp: divwn_rr_def run_append acc_defs opnd_defs split: option.splits)
    from p s2 have f2: "frame {2} s1 s2" by (simp add: prepares_def)
    from s3 have d: "stack s3 = stack s2" "\<forall>r. r \<noteq> 0 \<and> r \<noteq> 2 \<longrightarrow> regs s3 r = regs s2 r"
      by (auto dest: div_u_regs div_n_regs)
    from s' s1 f2 d show ?thesis
      by (auto simp: frame_def acc_defs opnd_defs split: option.splits list.splits if_splits)
  qed
  moreover have "stack_ops (divwn_rr p RG RM) = map stack_st [Reax, Redx] @ map stack_ld (rev [Reax, Redx])"
    using p by (simp add: divwn_rr_def stack_ops_append prepares_def) (simp add: stack_ops_def)
  ultimately show ?thesis by (simp add: saves_def)
qed

lemma divwn_ld_saves:
  assumes p: "prepares p"
  shows "saves [Reax, Redx] {REG RG} (divwn_ld p RG RM Dp)"
proof -
  have "frame {REG RG} s s'" if r: "run (divwn_ld p RG RM Dp) s = Some s'" for s s'
  proof -
    from r obtain s1 s2 s3 where s2: "run p s1 = Some s2"
      and s1: "stack s1 = regs s 2 # regs s 0 # stack s" "regs s1 4 = regs s 4 - 4 - 4"
        "\<forall>r. r \<noteq> 0 \<and> r \<noteq> 4 \<longrightarrow> regs s1 r = regs s r"
      and s3: "exec (divwn_xm RM Dp) s2 = Some s3"
      and s': "run [stack_ld Redx, movwx_rr RG Reax, stack_ld Reax] s3 = Some s'"
      by (auto simp: divwn_ld_def run_append acc_defs opnd_defs split: option.splits)
    from p s2 have f2: "frame {2} s1 s2" by (simp add: prepares_def)
    from s3 have d: "stack s3 = stack s2" "\<forall>r. r \<noteq> 0 \<and> r \<noteq> 2 \<longrightarrow> regs s3 r = regs s2 r"
      by (auto dest: div_u_regs div_n_regs)
    from s' s1 f2 d show ?thesis
      by (auto simp: frame_def acc_defs opnd_defs split: option.splits list.splits if_splits)
  qed
  moreover have "stack_ops (divwn_ld p RG RM Dp) = map stack_st [Reax, Redx] @ map stack_ld (rev [Reax, Redx])"
    using p by (simp add: divwn_ld_def stack_ops_append prepares_def) (simp add: stack_ops_def)
  ultimately show ?thesis by (simp add: saves_def)
qed

lemma remwx_ri_saves:
  assumes p: "prepares p"
  shows "saves [Redx, Reax] {REG RM} (remwx_ri p scr RM Im)"
proof -
  have "frame {REG RM} s s'" if r: "run (remwx_ri p scr RM Im) s = Some s'" for s s'
  proof -
    from r obtain s1 s2 s3 where s2: "run p s1 = Some s2"
      and s1: "stack s1 = regs s 0 # regs s 2 # stack s" "regs s1 4 = regs s 4 - 4 - 4"
        "\<forall>r. r \<noteq> 0 \<and> r \<noteq> 4 \<longrightarrow> regs s1 r = regs s r"
      and s3: "exec (divwx_xm Mebp scr) s2 = Some s3"
      and s': "run [stack_ld Reax, movwx_rr RM Redx, stack_ld Redx] s3 = Some s'"
      by (auto simp: remwx_ri_def run_append acc_defs opnd_defs split: option.splits)
    from p s2 have f2: "frame {2} s1 s2" by (simp add: prepares_def)
    from s3 have d: "stack s3 = stack s2" "\<forall>r. r \<noteq> 0 \<and> r \<noteq> 2 \<longrightarrow> regs s3 r = regs s2 r"
      by (auto dest: div_u_regs div_n_regs)
    from s' s1 f2 d show ?thesis
      by (auto simp: frame_def acc_defs opnd_defs split: option.splits list.splits if_splits)
  qed
  moreover have "stack_ops (remwx_ri p scr RM Im) = map stack_st [Redx, Reax] @ map stack_ld (rev [Redx, Reax])"
    using p by (simp add: remwx_ri_def stack_ops_append prepares_def) (simp add: stack_ops_def)
  ultimately show ?thesis by (simp add: saves_def)
qed

lemma remwx_rr_saves:
  assumes p: "prepares p"
  shows "saves [Redx, Reax] {REG RG} (remwx_rr p RG RM)"
proof -
  have "frame {REG RG} s s'" if r: "run (remwx_rr p RG RM) s = Some s'" for s s'
  proof -
    from r obtain s1 s2 s3 where s2: "run p s1 = Some s2"
      and s1: "stack s1 = regs s 0 # regs s 2 # stack s" "regs s1 4 = regs s 4 - 4 - 4"
        "\<forall>r. r \<noteq> 0 \<and> r \<noteq> 4 \<longrightarrow> regs s1 r = regs s r"
      and s3: "exec (divwx_xr RM) s2 = Some s3"
      and s': "run [stack_ld Reax, movwx_rr RG Redx, stack_ld Redx] s3 = Some s'"
      by (auto simp: remwx_rr_def run_append acc_defs opnd_defs split: option.splits)
    from p s2 have f2: "frame {2} s1 s2" by (simp add: prepares_def)
    from s3 have d: "stack s3 = stack s2" "\<forall>r. r \<noteq> 0 \<and> r \<noteq> 2 \<longrightarrow> regs s3 r = regs s2 r"
      by (auto dest: div_u_regs div_n_regs)
    from s' s1 f2 d show ?thesis
      by (auto simp: frame_def acc_defs opnd_defs split: option.splits list.splits if_splits)
  qed
  moreover have "stack_ops (remwx_rr p RG RM) = map stack_st [Redx, Reax] @ map stack_ld (rev [Redx, Reax])"
    using p by (simp add: remwx_rr_def stack_ops_append prepares_def) (simp add: stack_ops_def)
  ultimately show ?thesis by (simp add: saves_def)
qed

lemma remwx_ld_saves:
  assumes p: "prepares p"
  shows "saves [Redx, Reax] {REG RG} (remwx_ld p RG RM Dp)"
proof -
  have "frame {REG RG} s s'" if r: "run (remwx_ld p RG RM Dp) s = Some s'" for s s'
  proof -
    from r obtain s1 s2 s3 where s2: "run p s1 = Some s2"
      and s1: "stack s1 = regs s 0 # regs s 2 # stack s" "regs s1 4 = regs s 4 - 4 - 4"
        "\<forall>r. r \<noteq> 0 \<and> r \<noteq> 4 \<longrightarrow> regs s1 r = regs s r"
      and s3: "exec (divwx_xm RM Dp) s2 = Some s3"
      and s': "run [stack_ld Reax, movwx_rr RG Redx, stack_ld Redx] s3 = Some s'"
      by (auto simp: remwx_ld_def run_append acc_defs opnd_defs split: option.splits)
    from p s2 have f2: "frame {2} s1 s2" by (simp add: prepares_def)
    from s3 have d: "stack s3 = stack s2" "\<forall>r. r \<noteq> 0 \<and> r \<noteq> 2 \<longrightarrow> regs s3 r = regs s2 r"
      by (auto dest: div_u_regs div_n_regs)
    from s' s1 f2 d show ?thesis
      by (auto simp: frame_def acc_defs opnd_defs split: option.splits list.splits if_splits)
  qed
  moreover have "stack_ops (remwx_ld p RG RM Dp) = map stack_st [Redx, Reax] @ map stack_ld (rev [Redx, Reax])"
    using p by (simp add: remwx_ld_def stack_ops_append prepares_def) (simp add: stack_ops_def)
  ultimately show ?thesis by (simp add: saves_def)
qed

lemma remwn_ri_saves:
  assumes p: "prepares p"
  shows "saves [Redx, Reax] {REG RM} (remwn_ri p scr RM Im)"
proof -
  have "frame {REG RM} s s'" if r: "run (remwn_ri p scr RM Im) s = Some s'" for s s'
  proof -
    from r obtain s1 s2 s3 where s2: "run p s1 = Some s2"
      and s1: "stack s1 = regs s 0 # regs s 2 # stack s" "regs s1 4 = regs s 4 - 4 - 4"
        "\<forall>r. r \<noteq> 0 \<and> r \<noteq> 4 \<longrightarrow> regs s1 r = regs s r"
      and s3: "exec (divwn_xm Mebp scr) s2 = Some s3"
      and s': "run [stack_ld Reax, movwx_rr RM Redx, stack_ld Redx] s3 = Some s'"
      by (auto simp: remwn_ri_def run_append acc_defs opnd_defs split: option.splits)
    from p s2 have f2: "frame {2} s1 s2" by (simp add: prepares_def)
    from s3 have d: "stack s3 = stack s2" "\<forall>r. r \<noteq> 0 \<and> r \<noteq> 2 \<longrightarrow> regs s3 r = regs s2 r"
      by (auto dest: div_u_regs div_n_regs)
    from s' s1 f2 d show ?thesis
      by (auto simp: frame_def acc_defs opnd_defs split: option.splits list.splits if_splits)
  qed
  moreover have "stack_ops (remwn_ri p scr RM Im) = map stack_st [Redx, Reax] @ map stack_ld (rev [Redx, Reax])"
    using p by (simp add: remwn_ri_def stack_ops_append prepares_def) (simp add: stack_ops_def)
  ultimately show ?thesis by (simp add: saves_def)
qed

lemma remwn_rr_saves:
  assumes p: "prepares p"
  shows "saves [Redx, Reax] {REG RG} (remwn_rr p RG RM)"
proof -
  have "frame {REG RG} s s'" if r: "run (remwn_rr p RG RM) s = Some s'" for s s'
  proof -
    from r obtain s1 s2 s3 where s2: "run p s1 = Some s2"
      and s1: "stack s1 = regs s 0 # regs s 2 # stack s" "regs s1 4 = regs s 4 - 4 - 4"
        "\<forall>r. r \<noteq> 0 \<and> r \<noteq> 4 \<longrightarrow> regs s1 r = regs s r"
      and s3: "exec (divwn_xr RM) s2 = Some s3"
      and s': "run [stack_ld Reax, movwx_rr RG Redx, stack_ld Redx] s3 = Some s'"
      by (auto simp: remwn_rr_def run_append acc_defs opnd_defs split: option.splits)
    from p s2 have f2: "frame {2} s1 s2" by (simp add: prepares_def)
    from s3 have d: "stack s3 = stack s2" "\<forall>r. r \<noteq> 0 \<and> r \<noteq> 2 \<longrightarrow> regs s3 r = regs s2 r"
      by (auto dest: div_u_regs div_n_regs)
    from s' s1 f2 d show ?thesis
      by (auto simp: frame_def acc_defs opnd_defs split: option.splits list.splits if_splits)
  qed
  moreover have "stack_ops (remwn_rr p RG RM) = map stack_st [Redx, Reax] @ map stack_ld (rev [Redx, Reax])"
    using p by (simp add: remwn_rr_def stack_ops_append prepares_def) (simp add: stack_ops_def)
  ultimately show ?thesis by (simp add: saves_def)
qed

lemma remwn_ld_saves:
  assumes p: "prepares p"
  shows "saves [Redx, Reax] {REG RG} (remwn_ld p RG RM Dp)"
proof -
  have "frame {REG RG} s s'" if r: "run (remwn_ld p RG RM Dp) s = Some s'" for s s'
  proof -
    from r obtain s1 s2 s3 where s2: "run p s1 = Some s2"
      and s1: "stack s1 = regs s 0 # regs s 2 # stack s" "regs s1 4 = regs s 4 - 4 - 4"
        "\<forall>r. r \<noteq> 0 \<and> r \<noteq> 4 \<longrightarrow> regs s1 r = regs s r"
      and s3: "exec (divwn_xm RM Dp) s2 = Some s3"
      and s': "run [stack_ld Reax, movwx_rr RG Redx, stack_ld Redx] s3 = Some s'"
      by (auto simp: remwn_ld_def run_append acc_defs opnd_defs split: option.splits)
    from p s2 have f2: "frame {2} s1 s2" by (simp add: prepares_def)
    from s3 have d: "stack s3 = stack s2" "\<forall>r. r \<noteq> 0 \<and> r \<noteq> 2 \<longrightarrow> regs s3 r = regs s2 r"
      by (auto dest: div_u_regs div_n_regs)
    from s' s1 f2 d show ?thesis
      by (auto simp: frame_def acc_defs opnd_defs split: option.splits list.splits if_splits)
  qed
  moreover have "stack_ops (remwn_ld p RG RM Dp) = map stack_st [Redx, Reax] @ map stack_ld (rev [Redx, Reax])"
    using p by (simp add: remwn_ld_def stack_ops_append prepares_def) (simp add: stack_ops_def)
  ultimately show ?thesis by (simp add: saves_def)
qed

subsection \<open>The NEON words\<close>

lemma MXM_split: "MXM d n m = MXM d 0 0 OR MXM 0 n 0 OR MXM 0 0 m"
  by (simp add: MXM_def ac_simps)

lemma reg32: "0 \<le> r \<Longrightarrow> r < 32 \<Longrightarrow> (r::int) \<in> {0, 1, 2, 3, 4, 5, 6, 7, 8, 9, 10, 11, 12, 13, 14, 15, 16, 17, 18, 19, 20, 21, 22, 23, 24, 25, 26, 27, 28, 29, 30, 31}"
  by (simp only: insert_iff empty_iff) presburger


lemma MXM_d:
  assumes "0 \<le> d" "d < 32"
  shows "fld_d (MXM d 0 0) = d \<and> fld_n (MXM d 0 0) = 0 \<and> fld_m (MXM d 0 0) = 0
       \<and> MXM d 0 0 AND 0xFFB00F50 = 0 \<and> MXM d 0 0 AND 0xFFBF0FD0 = 0"
proof -
  from reg32[OF assms] show ?thesis
    by (elim insertE emptyE; simp add: MXM_def fld_d_def fld_n_def fld_m_def)
qed

lemma MXM_n:
  assumes "0 \<le> n" "n < 32"
  shows "fld_d (MXM 0 n 0) = 0 \<and> fld_n (MXM 0 n 0) = n \<and> fld_m (MXM 0 n 0) = 0
       \<and> MXM 0 n 0 AND 0xFFB00F50 = 0"
proof -
  from reg32[OF assms] show ?thesis
    by (elim insertE emptyE; simp add: MXM_def fld_d_def fld_n_def fld_m_def)
qed

lemma MXM_m:
  assumes "0 \<le> m" "m < 32"
  shows "fld_d (MXM 0 0 m) = 0 \<and> fld_n (MXM 0 0 m) = 0 \<and> fld_m (MXM 0 0 m) = m
       \<and> MXM 0 0 m AND 0xFFB00F50 = 0 \<and> MXM 0 0 m AND 0xFFBF0FD0 = 0"
proof -
  from reg32[OF assms] show ?thesis
    by (elim insertE emptyE; simp add: MXM_def fld_d_def fld_n_def fld_m_def)
qed

lemma fld_or: "fld_d (a OR b) = fld_d a OR fld_d b" "fld_n (a OR b) = fld_n a OR fld_n b"
  "fld_m (a OR b) = fld_m a OR fld_m b"
  by (simp_all only: fld_d_def fld_n_def fld_m_def drop_bit_or bit.conj_disj_distrib2
      or.assoc or.left_commute or.commute)

lemma fields3:
  assumes "rv d" "rv n" "rv m"
  shows "fld_d (c OR MXM d n m) = fld_d c OR d" "fld_n (c OR MXM d n m) = fld_n c OR n"
    "fld_m (c OR MXM d n m) = fld_m c OR m"
    "(c OR MXM d n m) AND 0xFFB00F50 = c AND 0xFFB00F50"
  using MXM_d[of d] MXM_n[of n] MXM_m[of m] assms
  by (simp_all add: rv_def MXM_split[of d n m] fld_or bit.conj_disj_distrib2)

lemma fields2:
  assumes "rv d" "rv m"
  shows "(c OR MXM d 0 m) AND 0xFFBF0FD0 = c AND 0xFFBF0FD0"
  using MXM_d[of d] MXM_m[of m] assms
  by (simp add: rv_def MXM_split[of d 0 m] bit.conj_disj_distrib2 MXM_def[of 0 0 0])

lemma not_recpe: "w AND 0xFFB00F50 \<noteq> 0xF3B00540 \<Longrightarrow> w AND 0xFFBF0FD0 \<noteq> (0xF3BB0540::int)"
proof
  assume a: "w AND 0xFFB00F50 \<noteq> 0xF3B00540" and b: "w AND 0xFFBF0FD0 = (0xF3BB0540::int)"
  have "w AND 0xFFB00F50 = (w AND 0xFFBF0FD0) AND 0xFFB00F50"
    by (simp add: and.assoc)
  with b have "w AND 0xFFB00F50 = 0xF3B00540" by simp
  with a show False by simp
qed

lemma simd_rv: "X \<in> set simd_regs \<Longrightarrow> rv (REG X) \<and> rv (REG X + 1)"
  by (auto simp: simd_regs_def rv_def Xmm0_def Xmm1_def Xmm2_def Xmm3_def Xmm4_def Xmm5_def Xmm6_def Xmm7_def)

lemma tmm_rv: "rv TmmM" "rv TmmC" "rv 0"
  by (simp_all add: rv_def TmmM_def TmmC_def)

lemma dec3:
  assumes "rv d" "rv n" "rv m"
  shows "decode (EMITW (0xF2000F50 OR MXM d n m)) = VRECPS d n m"
    "decode (EMITW (0xF3000D50 OR MXM d n m)) = VMUL d n m"
    "decode (EMITW (0xF2000D50 OR MXM d n m)) = VMLA d n m"
    "decode (EMITW (0xF2200D50 OR MXM d n m)) = VMLS d n m"
    "decode (EMITW (0xF2000C50 OR MXM d n m)) = VFMA d n m"
    "decode (EMITW (0xF2200C50 OR MXM d n m)) = VFMS d n m"
    "decode (EMITW (0xF2200150 OR MXM d n m)) = VORR d n m"
    "decode (EMITW (0xEE800A00 OR MXM d n m)) = VDIV d n m"
  using assms
  by (simp_all add: decode_def fields3 not_recpe) (simp_all add: fld_d_def fld_n_def fld_m_def)

lemma dec2:
  assumes "rv d" "rv m"
  shows "decode (EMITW (0xF3BB0540 OR MXM d 0 m)) = VRECPE d m"
  using assms fields3(1,3)[of d 0 m "0xF3BB0540"]
  by (simp add: decode_def fields2 tmm_rv) (simp add: fld_d_def fld_m_def)

lemma divos_rr_v1: "XG \<in> set simd_regs \<Longrightarrow> XS \<in> set simd_regs \<Longrightarrow> c \<noteq> 1 \<Longrightarrow> r < 2 \<Longrightarrow>
  map decode (divos_rr c r XG XS) = div_refine 3 False (REG XG) (REG XS)"
  by (simp add: divos_rr_def div_refine_def nr_step_def dec3 dec2 simd_rv tmm_rv numeral_3_eq_3)

lemma divos_rr_v2: "XG \<in> set simd_regs \<Longrightarrow> XS \<in> set simd_regs \<Longrightarrow> c \<noteq> 1 \<Longrightarrow> 2 \<le> r \<Longrightarrow>
  map decode (divos_rr c r XG XS) = div_refine 1 True (REG XG) (REG XS)"
  by (simp add: divos_rr_def div_refine_def nr_step_def dec3 dec2 simd_rv tmm_rv)

subsection \<open>The NEON macros\<close>

lemma mm_ld_arm: "XG \<in> set simd_regs \<Longrightarrow>
  qreg (mmvox_ld env XG MS Ds s) (REG XG) =
    (qreg s (REG XG) AND NOT (qreg s (REG Xmm0))) OR (amem s (adr env (rreg s) MS Ds) AND qreg s (REG Xmm0))"
  apply (simp add: mmvox_ld_def seq_def notox_rx_def andox_rr_def annox_ld_def orrox_rr_def Let_def TmmM_def)
  apply (auto simp: simd_regs_def Xmm0_def Xmm1_def Xmm2_def Xmm3_def Xmm4_def Xmm5_def Xmm6_def Xmm7_def ac_simps)
  done

lemma mm_st_arm: "XS \<in> set simd_regs \<Longrightarrow> XS \<noteq> Xmm0 \<Longrightarrow>
  amem (mmvox_st env XS MG Dg s) (adr env (rreg s) MG Dg) =
    (amem s (adr env (rreg s) MG Dg) AND NOT (qreg s (REG Xmm0))) OR (qreg s (REG XS) AND qreg s (REG Xmm0))"
  apply (simp add: mmvox_st_def seq_def notox_rx_def andox_rr_def annox_ld_def orrox_rr_def movox_st_def Let_def TmmM_def)
  apply (auto simp: simd_regs_def Xmm0_def Xmm1_def Xmm2_def Xmm3_def Xmm4_def Xmm5_def Xmm6_def Xmm7_def ac_simps)
  done

lemmas fctrl_defs = seq_def FCTRL_ENTER_def FCTRL_LEAVE_def FCTRL_SET_def FCTRL_RESET_def
  cvtos_rr_def cvtos_ld_def Let_def

lemma cv_restores:
  "fpscr (cvpos_rr env XD XS s) = fpscr s"
  "fpscr (cvpos_ld env XD MS Ds s) = fpscr s"
  "fpscr (cvmos_rr env XD XS s) = fpscr s"
  "fpscr (cvmos_ld env XD MS Ds s) = fpscr s"
  "fpscr (cvros_rr env XD XS md s) = fpscr s"
  by (simp_all add: cvpos_rr_def cvpos_ld_def cvmos_rr_def cvmos_ld_def cvros_rr_def fctrl_defs
      split: prod.splits)

lemma cv_mode:
  "qreg (cvpos_rr env XD XS s) (REG XD)
     = fst (fcvt env (fpscr (FCTRL_SET env ROUNDP s)) (qreg s (REG XS)))"
  "qreg (cvmos_rr env XD XS s) (REG XD)
     = fst (fcvt env (fpscr (FCTRL_SET env ROUNDM s)) (qreg s (REG XS)))"
  "qreg (cvros_rr env XD XS md s) (REG XD)
     = fst (fcvt env (fpscr (FCTRL_SET env md s)) (qreg s (REG XS)))"
  by (simp_all add: cvpos_rr_def cvmos_rr_def cvros_rr_def fctrl_defs split: prod.splits)

lemma set_reset_block:
  assumes "RT_SIMD_FAST_FCTRL env = 0 \<longrightarrow> TIxx env \<noteq> TNxx env"
  shows "fpscr (seq [FCTRL_SET env md, cvtos_rr env XD XS, FCTRL_RESET env] s) = rreg s (TNxx env)"
    "fpscr (seq [FCTRL_SET env md, cvtos_ld env XD MS Ds, FCTRL_RESET env] s) = rreg s (TNxx env)"
  using assms by (auto simp: fctrl_defs split: prod.splits)

subsection \<open>The AVX-512 macros\<close>

lemma seqo_Nil [simp]: "seqo [] s = Some s"
  by (simp add: seqo_def)

lemma fold_bind_None [simp]: "fold (\<lambda>f r. Option.bind r f) fs None = None"
  by (induction fs) simp_all

lemma seqo_Cons [simp]: "seqo (f # fs) s = (case f s of None \<Rightarrow> None | Some t \<Rightarrow> seqo fs t)"
  by (cases "f s") (simp_all add: seqo_def)

lemma seqo_append:
  "seqo (fs @ gs) s = (case seqo fs s of None \<Rightarrow> None | Some t \<Rightarrow> seqo gs t)"
  by (induction fs arbitrary: s) (auto split: option.splits)

lemma put64 [simp]: "put_bits 0 64 v w = v"
  unfolding put_bits_def by (rule bit_word_eqI) (simp add: bit_simps)

lemma get64 [simp]: "get_bits 0 64 w = w"
  by (simp add: get_bits_def take_bit_word_eq_self)

lemma xea_upd [simp]:
  "xea (s\<lparr>xmem := m\<rparr>) M d = xea s M d" "xea (s\<lparr>zmm := z\<rparr>) M d = xea s M d"
  "xea (s\<lparr>k1 := k\<rparr>) M d = xea s M d"
  by (simp_all add: xea_def split: list.splits emit.splits)

lemma place_upd [simp]:
  "place (s\<lparr>xmem := m\<rparr>) M D = place s M D" "place (s\<lparr>zmm := z\<rparr>) M D = place s M D"
  "place (s\<lparr>k1 := k\<rparr>) M D = place s M D"
  by (cases D; simp)+

lemma mulqx_rx_lanes:
  "\<exists>s'. mulqx_rx XD s = Some s' \<and> gpr s' = gpr s \<and> stk s' = stk s
     \<and> (\<forall>i<8. zmm s' (REG XD) i = xmem s SCR01 i * xmem s SCR02 i)"
  apply (simp add: mulqx_rx_def stack_st_x64_def stack_ld_x64_def movzx_ld_def mulzx_ld_def
      movzx_st_def movqx_ld_def wr_def ld512_def rd_def Recx_def)
  apply (auto simp: fun_eq_iff less_Suc_eq numeral_eq_Suc)
  done

lemma mulqx3rr_lanes:
  "\<exists>t. mulqx3rr env XD XS XT s = Some t \<and> gpr t = gpr s \<and> stk t = stk s
     \<and> (\<forall>i<8. zmm t (REG XD) i = zmm s (REG XS) i * zmm s (REG XT) i)"
proof (cases "RT_512X1 env = 1 \<or> RT_512X1 env = 4")
  case True
  let ?u = "st512 (st512 s Mebp (inf_SCR01 0) (\<lambda>i. True) (zmm s (REG XS)))
              Mebp (inf_SCR02 0) (\<lambda>i. True) (zmm s (REG XT))"
  from mulqx_rx_lanes [of XD ?u] obtain t where t: "mulqx_rx XD ?u = Some t"
    "gpr t = gpr ?u" "stk t = stk ?u" "\<forall>i<8. zmm t (REG XD) i = xmem ?u SCR01 i * xmem ?u SCR02 i"
    by blast
  from True t show ?thesis
    by (simp add: mulqx3rr_def movqx_st_def st512_def)
next
  case False
  then show ?thesis by (simp add: mulqx3rr_def)
qed

lemma mulqx3ld_lanes:
  "\<exists>t. mulqx3ld env XD XS MT (Disp d) s = Some t \<and> gpr t = gpr s \<and> stk t = stk s
     \<and> (\<forall>i<8. zmm t (REG XD) i = zmm s (REG XS) i * ld512 s MT (Disp d) i)"
proof (cases "RT_512X1 env = 1 \<or> RT_512X1 env = 4")
  case True
  let ?s1 = "st512 s Mebp (inf_SCR01 0) (\<lambda>i. True) (zmm s (REG XS))"
  let ?s2 = "?s1\<lparr>zmm := (zmm ?s1)(REG XD := ld512 ?s1 MT (Disp d))\<rparr>"
  let ?u = "st512 ?s2 Mebp (inf_SCR02 0) (\<lambda>i. True) (zmm ?s2 (REG XD))"
  from mulqx_rx_lanes [of XD ?u] obtain t where t: "mulqx_rx XD ?u = Some t"
    "gpr t = gpr ?u" "stk t = stk ?u" "\<forall>i<8. zmm t (REG XD) i = xmem ?u SCR01 i * xmem ?u SCR02 i"
    by blast
  from True t show ?thesis
    by (simp add: mulqx3ld_def movqx_st_def movqx_ld_def st512_def ld512_def)
next
  case False
  then show ?thesis by (simp add: mulqx3ld_def)
qed

lemma get_put_same: "get_bits 32 16 (put_bits 32 16 v w) = take_bit 16 v"
  unfolding get_bits_def put_bits_def
  by (rule bit_word_eqI) (auto simp: bit_simps)

lemma get_put_low: "get_bits 32 16 (put_bits 0 32 v w) = get_bits 32 16 w"
  unfolding get_bits_def put_bits_def
  by (rule bit_word_eqI) (auto simp: bit_simps)

lemma ucast_slot: "ucast (take_bit 16 (ucast (c :: 16 word) :: 64 word)) = c"
  by (rule bit_word_eqI) (auto simp: bit_simps)

lemma seqo_keeps:
  assumes "\<And>s t. R s s" "\<And>s t u. R s t \<Longrightarrow> R t u \<Longrightarrow> R s u"
    and "\<forall>f\<in>set fs. \<forall>s t. f s = Some t \<longrightarrow> R s t"
    and "seqo fs s = Some t"
  shows "R s t"
  using assms(3,4)
proof (induction fs arbitrary: s)
  case Nil
  then show ?case using assms(1) by simp
next
  case (Cons f fs)
  then obtain u where u: "f s = Some u" and r: "seqo fs u = Some t"
    by (auto split: option.splits)
  from Cons.prems(1) u have "R s u" by simp
  moreover from Cons.IH[OF _ r] Cons.prems(1) have "R u t" by simp
  ultimately show ?case using assms(2) by blast
qed

lemma seqo_total:
  "\<forall>f\<in>set fs. \<forall>s. f s \<noteq> None \<Longrightarrow> seqo fs s \<noteq> None"
  by (induction fs arbitrary: s) (auto split: option.splits)

lemma keeps_slot_refl: "keeps_slot s s"
  by (simp add: keeps_slot_def)

lemma keeps_slot_trans: "keeps_slot s t \<Longrightarrow> keeps_slot t u \<Longrightarrow> keeps_slot s u"
  by (simp add: keeps_slot_def)

lemma prim_keeps:
  "movqx_st XS Mebp (inf_SCR01 0) s = Some t \<Longrightarrow> keeps_slot s t"
  "movqx_ld XD Mebp (inf_SCR01 0) s = Some t \<Longrightarrow> keeps_slot s t"
  "movwx_mi_x64 Mebp (inf_SCR02 0) Im s = Some t \<Longrightarrow> keeps_slot s t"
  "fpuzn_ld env M D s = Some t \<Longrightarrow> keeps_slot s t"
  "cmpwx_mi_x64 M D Im s = Some t \<Longrightarrow> keeps_slot s t"
  "addws_ld env M D s = Some t \<Longrightarrow> keeps_slot s t"
  "jge_over (addws_ld env M D) s = Some t \<Longrightarrow> keeps_slot s t"
  "fpuzs_st env Mebp (inf_SCR01 k) s = Some t \<Longrightarrow> keeps_slot s t"
  "shrwx_mi Mebp (inf_SCR02 0) Im s = Some t \<Longrightarrow> keeps_slot s t"
  "andwx_mi Mebp (inf_SCR02 0) Im s = Some t \<Longrightarrow> keeps_slot s t"
  "orrwx_mi Mebp (inf_SCR02 0) Im s = Some t \<Longrightarrow> keeps_slot s t"
  "mxcsr_st Mebp (inf_SCR02 0) s = Some t \<Longrightarrow> keeps_slot s t"
  "fpucw_ld M D s = Some t \<Longrightarrow> keeps_slot s t"
  by (auto simp: keeps_slot_def movqx_st_def movqx_ld_def movwx_mi_x64_def fpuzn_ld_def
      cmpwx_mi_x64_def addws_ld_def jge_over_def fpuzs_st_def shrwx_mi_def andwx_mi_def
      orrwx_mi_def mxcsr_st_def fpucw_ld_def st512_def wr_def get_put_low split: if_splits)

lemma prim_total:
  "\<exists>y. movqx_st XS M D s = Some y" "\<exists>y. movqx_ld XD M D s = Some y"
  "\<exists>y. movwx_mi_x64 M D Im s = Some y" "\<exists>y. fpuzn_ld env M D s = Some y"
  "\<exists>y. cmpwx_mi_x64 M D Im s = Some y" "\<exists>y. jge_over (addws_ld env M D) s = Some y"
  "\<exists>y. fpuzs_st env M D s = Some y" "\<exists>y. shrwx_mi M D Im s = Some y"
  "\<exists>y. andwx_mi M D Im s = Some y" "\<exists>y. orrwx_mi M D Im s = Some y"
  "\<exists>y. mxcsr_st M D s = Some y" "\<exists>y. fpucw_ld M D s = Some y" "\<exists>y. fpucw_st M D s = Some y"
  by (simp_all add: movqx_st_def movqx_ld_def movwx_mi_x64_def fpuzn_ld_def cmpwx_mi_x64_def
      addws_ld_def jge_over_def fpuzs_st_def shrwx_mi_def andwx_mi_def orrwx_mi_def
      mxcsr_st_def fpucw_ld_def fpucw_st_def)

lemma cvnqx_keeps:
  assumes "RT_512X1 env = 1 \<or> RT_512X1 env = 4" and "cvnqx_rr env XD XS s = Some t"
  shows "keeps_slot s t"
  using assms
  unfolding cvnqx_rr_def
  by (simp only: if_True)
     (rule seqo_keeps[rotated 3, where R = keeps_slot], assumption,
      auto intro: keeps_slot_refl keeps_slot_trans prim_keeps)

lemma cvnqn_keeps:
  assumes "RT_512X1 env = 1 \<or> RT_512X1 env = 4" and "cvnqn_rr env XD XS s = Some t"
  shows "keeps_slot s t"
  using assms
  unfolding cvnqn_rr_def
  by (simp only: if_True)
     (rule seqo_keeps[rotated 3, where R = keeps_slot], assumption,
      auto intro: keeps_slot_refl keeps_slot_trans prim_keeps)

lemma cvnqx_total: "cvnqx_rr env XD XS s \<noteq> None"
  unfolding cvnqx_rr_def
  by (simp only: split: if_split) (intro conjI impI seqo_total, simp_all add: prim_total)

lemma cvnqn_total: "cvnqn_rr env XD XS s \<noteq> None"
  unfolding cvnqn_rr_def
  by (simp only: split: if_split) (intro conjI impI seqo_total, simp_all add: prim_total)

lemma cw_bracket:
  assumes mid: "\<And>s t. conv s = Some t \<Longrightarrow> keeps_slot s t" and tot: "\<And>s. conv s \<noteq> None"
  shows "\<exists>t. seqo [fpucw_st Mebp (inf_SCR02 4),
              mxcsr_st Mebp (inf_SCR02 0),
              shrwx_mi Mebp (inf_SCR02 0) (IB 3),
              andwx_mi Mebp (inf_SCR02 0) (IH 0x0C00),
              orrwx_mi Mebp (inf_SCR02 0) (IB 0x7F),
              fpucw_ld Mebp (inf_SCR02 0),
              conv,
              fpucw_ld Mebp (inf_SCR02 4)] s = Some t \<and> fpucw t = fpucw s \<and> mxcsr t = mxcsr s"
proof -
  let ?mid = "[mxcsr_st Mebp (inf_SCR02 0), shrwx_mi Mebp (inf_SCR02 0) (IB 3),
               andwx_mi Mebp (inf_SCR02 0) (IH 0x0C00), orrwx_mi Mebp (inf_SCR02 0) (IB 0x7F),
               fpucw_ld Mebp (inf_SCR02 0), conv]"
  let ?s1 = "wr 16 s Mebp (inf_SCR02 4) (ucast (fpucw s))"
  have "seqo ?mid ?s1 \<noteq> None"
    using tot by (intro seqo_total) (auto simp: prim_total)
  then obtain u where u: "seqo ?mid ?s1 = Some u" by blast
  have k: "keeps_slot ?s1 u"
    by (rule seqo_keeps[rotated 3, where R = keeps_slot, OF u])
       (auto intro: keeps_slot_refl keeps_slot_trans prim_keeps mid)
  then have slot: "get_bits 32 16 (xmem u SCR02 0) = take_bit 16 (ucast (fpucw s))"
    by (simp add: keeps_slot_def wr_def get_put_same)
  from k have mx: "mxcsr u = mxcsr s"
    by (simp add: keeps_slot_def wr_def)
  have "seqo ([fpucw_st Mebp (inf_SCR02 4)] @ ?mid @ [fpucw_ld Mebp (inf_SCR02 4)]) s
        = Some (u\<lparr>fpucw := ucast (rd 16 u Mebp (inf_SCR02 4))\<rparr>)"
    using u by (simp only: seqo_append) (simp add: fpucw_st_def fpucw_ld_def)
  moreover have "ucast (rd 16 u Mebp (inf_SCR02 4)) = fpucw s"
    using slot by (simp add: rd_def ucast_slot)
  ultimately show ?thesis using mx by simp
qed

lemma rc_kept: "(a OR (f AND 0x3F)) AND 0x6000 = a AND (0x6000 :: 32 word)"
proof -
  have "(f AND 0x3F) AND 0x6000 = f AND (0x3F AND (0x6000 :: 32 word))"
    by (simp only: and.assoc)
  then have "(f AND 0x3F) AND (0x6000 :: 32 word) = 0" by simp
  then show ?thesis by (simp add: bit.conj_disj_distrib2)
qed

lemma cvtqx_restores:
  "\<exists>t. cvtqx_rr env XD XS s = Some t \<and> fpucw t = fpucw s
       \<and> mxcsr t AND 0x6000 = mxcsr s AND 0x6000
       \<and> (RT_512X1 env = 1 \<or> RT_512X1 env = 4 \<longrightarrow> mxcsr t = mxcsr s)"
proof (cases "RT_512X1 env = 1 \<or> RT_512X1 env = 4")
  case True
  have "\<exists>t. cvtqx_rr env XD XS s = Some t \<and> fpucw t = fpucw s \<and> mxcsr t = mxcsr s"
    using True unfolding cvtqx_rr_def
    by (simp only: if_True) (rule cw_bracket, erule cvnqx_keeps [OF True], rule cvnqx_total)
  then show ?thesis by auto
next
  case False
  then show ?thesis by (simp add: cvtqx_rr_def rc_kept)
qed

lemma cvtqn_restores:
  "\<exists>t. cvtqn_rr env XD XS s = Some t \<and> fpucw t = fpucw s
       \<and> mxcsr t AND 0x6000 = mxcsr s AND 0x6000
       \<and> (RT_512X1 env = 1 \<or> RT_512X1 env = 4 \<longrightarrow> mxcsr t = mxcsr s)"
proof (cases "RT_512X1 env = 1 \<or> RT_512X1 env = 4")
  case True
  have "\<exists>t. cvtqn_rr env XD XS s = Some t \<and> fpucw t = fpucw s \<and> mxcsr t = mxcsr s"
    using True unfolding cvtqn_rr_def
    by (simp only: if_True) (rule cw_bracket, erule cvnqn_keeps [OF True], rule cvnqn_total)
  then show ?thesis by auto
next
  case False
  then show ?thesis by (simp add: cvtqn_rr_def rc_kept)
qed

lemma cvtq_ld_restores:
  "\<exists>t. cvtqx_ld env XD MS Ds s = Some t \<and> fpucw t = fpucw s
       \<and> mxcsr t AND 0x6000 = mxcsr s AND 0x6000
       \<and> (RT_512X1 env = 1 \<or> RT_512X1 env = 4 \<longrightarrow> mxcsr t = mxcsr s)"
  "\<exists>t. cvtqn_ld env XD MS Ds s = Some t \<and> fpucw t = fpucw s
       \<and> mxcsr t AND 0x6000 = mxcsr s AND 0x6000
       \<and> (RT_512X1 env = 1 \<or> RT_512X1 env = 4 \<longrightarrow> mxcsr t = mxcsr s)"
  using cvtqx_restores [of env XD XD "s\<lparr>zmm := (zmm s)(REG XD := ld512 s MS Ds)\<rparr>"]
    cvtqn_restores [of env XD XD "s\<lparr>zmm := (zmm s)(REG XD := ld512 s MS Ds)\<rparr>"]
  by (auto simp: cvtqx_ld_def cvtqn_ld_def movqx_ld_def rc_kept)

lemma mm_rr:
  assumes m: "\<forall>i<8. zmm s (REG (XMM0 env)) i = 0 \<or> zmm s (REG (XMM0 env)) i = - 1"
    and g: "\<forall>i<8. xmem s GPC07 i = - 1"
  shows "\<exists>t. mmvqx_rr env XG XS s = Some t \<and>
     (\<forall>i<8. zmm t (REG XG) i =
        (zmm s (REG XG) i AND NOT (zmm s (REG (XMM0 env)) i))
         OR (zmm s (REG XS) i AND zmm s (REG (XMM0 env)) i))"
  using m g
  by (auto simp: mmvqx_rr_def ck1qx_rm_def ld512_def)

lemma mm_ld_x64:
  assumes m: "\<forall>i<8. zmm s (REG (XMM0 env)) i = 0 \<or> zmm s (REG (XMM0 env)) i = - 1"
    and g: "\<forall>i<8. xmem s GPC07 i = - 1"
  shows "\<exists>t. mmvqx_ld env XG MS Ds s = Some t \<and>
     (\<forall>i<8. zmm t (REG XG) i =
        (zmm s (REG XG) i AND NOT (zmm s (REG (XMM0 env)) i))
         OR (ld512 s MS Ds i AND zmm s (REG (XMM0 env)) i))"
  using m g
  by (auto simp: mmvqx_ld_def ck1qx_rm_def ld512_def)

lemma mm_st_x64:
  assumes m: "\<forall>i<8. zmm s (REG (XMM0 env)) i = 0 \<or> zmm s (REG (XMM0 env)) i = - 1"
    and g: "\<forall>i<8. xmem s GPC07 i = - 1"
  shows "\<exists>t. mmvqx_st env XS MG Dg s = Some t \<and>
     (\<forall>i<8. ld512 t MG Dg i =
        (ld512 s MG Dg i AND NOT (zmm s (REG (XMM0 env)) i))
         OR (zmm s (REG XS) i AND zmm s (REG (XMM0 env)) i))"
  using m g
  by (cases "place s MG Dg")
     (auto simp: mmvqx_st_def ck1qx_rm_def ld512_def st512_def)

section \<open>The encoder of the x86 BASE instructions\<close>

subsection \<open>Displacement and immediate classes\<close>

text \<open>
  Two families of instructions do not take their immediate from the class's
  \<^verbatim>\<open>CMD\<close>.  The shifts emit the byte \<^verbatim>\<open>VAL(IM) & 0x1F\<close>:
  \<^verbatim>\<open>shlwz_ri(Reax, IB(0x25))\<close> emits 5, although \<open>0x25\<close> is its own value under
  the mask \<open>0xFF\<close> of \<^verbatim>\<open>IB\<close>.  The moves emit the word
  \<^verbatim>\<open>VAL(IM) & ((TYP(IM) << 6) - 1)\<close>: \<^verbatim>\<open>movwx_ri(Reax, IH(0x12345))\<close> emits
  \<open>0x12345\<close>, not \<open>0x2345\<close>, the value under the mask \<open>0xFFFF\<close> of \<^verbatim>\<open>IH\<close>.
\<close>

theorem mov_and_shift_bypass_class_mask:
  "emit_insn (shlwz_ri Reax (IB 0x25)) = [EMITB 0xC1, EMITB 0xE0, EMITB 5]
 \<and> CMD (IB 0x25) = [EMITW 0x25]
 \<and> last (emit_insn (shlwz_ri Reax (IB 0x25))) \<noteq> last (CMD (IB 0x25))
 \<and> emit_insn (movwx_ri Reax (IH 0x12345)) = [EMITB 0xC7, EMITB 0xC0, EMITW 0x12345]
 \<and> CMD (IH 0x12345) = [EMITW 0x2345]
 \<and> last (emit_insn (movwx_ri Reax (IH 0x12345))) \<noteq> last (CMD (IH 0x12345))"
  by (simp add: Reax_def IB_def IH_def MRM_def AUX_def EMPTY_def)

text \<open>
  C1, amended.  Every displacement class emits its value under the mask of the class,
  scaled by \<open>Q\<close> for \<^verbatim>\<open>DP\<close>, \<^verbatim>\<open>DF\<close>, \<^verbatim>\<open>DG\<close> and \<^verbatim>\<open>DH\<close>, and every
  instruction with a displacement emits that field after its ModRM and SIB bytes.
  Every immediate class holds in its \<^verbatim>\<open>CMD\<close> its value under the fixed mask of the
  class, one byte for \<^verbatim>\<open>IC\<close> and a 32-bit word for the others, and add, sub and mul
  emit that field last.  The moves emit a 32-bit word instead, the value under
  \<open>0x7F\<close> for \<^verbatim>\<open>IC\<close> and the whole value for the other classes, and the shifts
  emit one byte, the value under \<open>0x1F\<close>, whatever the class.  The forms with
  neither a displacement nor an immediate emit their opcode and ModRM bytes only.
\<close>

theorem class_masks:
  "CMD (DP q v) = [EMITW (v AND ((0xFFC * q) OR 0xC))]
 \<and> CMD (DF q v) = [EMITW (v AND ((0x3FFC * q) OR 0xC))]
 \<and> CMD (DG q v) = [EMITW (v AND ((0x7FFC * q) OR 0xC))]
 \<and> CMD (DH q v) = [EMITW (v AND ((0xFFFC * q) OR 0xC))]
 \<and> CMD (DV v) = [EMITW (v AND 0x7FFFFFFC)]
 \<and> CMD (IC im) = [EMITB (im AND 0x7F)]
 \<and> CMD (IB im) = [EMITW (im AND 0xFF)]
 \<and> CMD (IM im) = [EMITW (im AND 0xFFF)]
 \<and> CMD (IG im) = [EMITW (im AND 0x7FFF)]
 \<and> CMD (IH im) = [EMITW (im AND 0xFFFF)]
 \<and> CMD (IV im) = [EMITW (im AND 0x7FFFFFFF)]
 \<and> CMD (IW im) = [EMITW (im AND 0xFFFFFFFF)]
 \<and> VAL (IC im) = im \<and> VAL (IB im) = im \<and> VAL (IM im) = im \<and> VAL (IG im) = im
 \<and> VAL (IH im) = im \<and> VAL (IV im) = im \<and> VAL (IW im) = im
 \<and> TYP (IC im) = 0x02 \<and> TYP (IB im) = 0x00 \<and> TYP (IM im) = 0x00 \<and> TYP (IG im) = 0x00
 \<and> TYP (IH im) = 0x00 \<and> TYP (IV im) = 0x00 \<and> TYP (IW im) = 0x00
 \<and> emit_insn (movwx_ld RG RM Dp)
       = [EMITB 0x8B] @ MRM (REG RG) (MOD RM) (REG RM) @ SIB RM @ CMD Dp
 \<and> emit_insn (movwx_st RG RM Dp)
       = [EMITB 0x89] @ MRM (REG RG) (MOD RM) (REG RM) @ SIB RM @ CMD Dp
 \<and> emit_insn (addwz_ri RM Im)
       = [EMITB (0x81 OR TYP Im)] @ MRM 0x00 (MOD RM) (REG RM) @ CMD Im
 \<and> emit_insn (addwz_mi RM Dp Im)
       = [EMITB (0x81 OR TYP Im)] @ MRM 0x00 (MOD RM) (REG RM) @ SIB RM @ CMD Dp @ CMD Im
 \<and> emit_insn (addwz_ld RG RM Dp)
       = [EMITB 0x03] @ MRM (REG RG) (MOD RM) (REG RM) @ SIB RM @ CMD Dp
 \<and> emit_insn (addwz_st RG RM Dp)
       = [EMITB 0x01] @ MRM (REG RG) (MOD RM) (REG RM) @ SIB RM @ CMD Dp
 \<and> emit_insn (subwz_ri RM Im)
       = [EMITB (0x81 OR TYP Im)] @ MRM 0x05 (MOD RM) (REG RM) @ CMD Im
 \<and> emit_insn (subwz_mi RM Dp Im)
       = [EMITB (0x81 OR TYP Im)] @ MRM 0x05 (MOD RM) (REG RM) @ SIB RM @ CMD Dp @ CMD Im
 \<and> emit_insn (subwz_ld RG RM Dp)
       = [EMITB 0x2B] @ MRM (REG RG) (MOD RM) (REG RM) @ SIB RM @ CMD Dp
 \<and> emit_insn (subwz_st RG RM Dp)
       = [EMITB 0x29] @ MRM (REG RG) (MOD RM) (REG RM) @ SIB RM @ CMD Dp
 \<and> emit_insn (mulwx_ri RM Im)
       = [EMITB (0x69 OR TYP Im)] @ MRM (REG RM) (MOD RM) (REG RM) @ CMD Im
 \<and> emit_insn (mulwx_ld RG RM Dp)
       = [EMITB 0x0F, EMITB 0xAF] @ MRM (REG RG) (MOD RM) (REG RM) @ SIB RM @ CMD Dp
 \<and> emit_insn (divwx_xm RM Dp)
       = [EMITB 0xF7] @ MRM 0x06 (MOD RM) (REG RM) @ SIB RM @ CMD Dp
 \<and> emit_insn (divwn_xm RM Dp)
       = [EMITB 0xF7] @ MRM 0x07 (MOD RM) (REG RM) @ SIB RM @ CMD Dp
 \<and> emit_insn (shlwz_mx RM Dp)
       = [EMITB 0xD3] @ MRM 0x04 (MOD RM) (REG RM) @ SIB RM @ CMD Dp
 \<and> emit_insn (shrwz_mx RM Dp)
       = [EMITB 0xD3] @ MRM 0x05 (MOD RM) (REG RM) @ SIB RM @ CMD Dp
 \<and> emit_insn (shrwn_mx RM Dp)
       = [EMITB 0xD3] @ MRM 0x07 (MOD RM) (REG RM) @ SIB RM @ CMD Dp
 \<and> emit_insn (movwx_ri RM (IC im))
       = [EMITB 0xC7] @ MRM 0x00 (MOD RM) (REG RM) @ [EMITW (im AND 0x7F)]
 \<and> emit_insn (movwx_ri RM (IB im))
       = [EMITB 0xC7] @ MRM 0x00 (MOD RM) (REG RM) @ [EMITW (im)]
 \<and> emit_insn (movwx_ri RM (IM im))
       = [EMITB 0xC7] @ MRM 0x00 (MOD RM) (REG RM) @ [EMITW (im)]
 \<and> emit_insn (movwx_ri RM (IG im))
       = [EMITB 0xC7] @ MRM 0x00 (MOD RM) (REG RM) @ [EMITW (im)]
 \<and> emit_insn (movwx_ri RM (IH im))
       = [EMITB 0xC7] @ MRM 0x00 (MOD RM) (REG RM) @ [EMITW (im)]
 \<and> emit_insn (movwx_ri RM (IV im))
       = [EMITB 0xC7] @ MRM 0x00 (MOD RM) (REG RM) @ [EMITW (im)]
 \<and> emit_insn (movwx_ri RM (IW im))
       = [EMITB 0xC7] @ MRM 0x00 (MOD RM) (REG RM) @ [EMITW (im)]
 \<and> emit_insn (movwx_mi RM Dp (IC im))
       = [EMITB 0xC7] @ MRM 0x00 (MOD RM) (REG RM) @ SIB RM @ CMD Dp @ [EMITW (im AND 0x7F)]
 \<and> emit_insn (movwx_mi RM Dp (IB im))
       = [EMITB 0xC7] @ MRM 0x00 (MOD RM) (REG RM) @ SIB RM @ CMD Dp @ [EMITW (im)]
 \<and> emit_insn (movwx_mi RM Dp (IM im))
       = [EMITB 0xC7] @ MRM 0x00 (MOD RM) (REG RM) @ SIB RM @ CMD Dp @ [EMITW (im)]
 \<and> emit_insn (movwx_mi RM Dp (IG im))
       = [EMITB 0xC7] @ MRM 0x00 (MOD RM) (REG RM) @ SIB RM @ CMD Dp @ [EMITW (im)]
 \<and> emit_insn (movwx_mi RM Dp (IH im))
       = [EMITB 0xC7] @ MRM 0x00 (MOD RM) (REG RM) @ SIB RM @ CMD Dp @ [EMITW (im)]
 \<and> emit_insn (movwx_mi RM Dp (IV im))
       = [EMITB 0xC7] @ MRM 0x00 (MOD RM) (REG RM) @ SIB RM @ CMD Dp @ [EMITW (im)]
 \<and> emit_insn (movwx_mi RM Dp (IW im))
       = [EMITB 0xC7] @ MRM 0x00 (MOD RM) (REG RM) @ SIB RM @ CMD Dp @ [EMITW (im)]
 \<and> emit_insn (shlwz_ri RM Im)
       = [EMITB 0xC1] @ MRM 0x04 (MOD RM) (REG RM) @ [EMITB (VAL Im AND 0x1F)]
 \<and> emit_insn (shlwz_mi RM Dp Im)
       = [EMITB 0xC1] @ MRM 0x04 (MOD RM) (REG RM) @ SIB RM @ CMD Dp @ [EMITB (VAL Im AND 0x1F)]
 \<and> emit_insn (shrwz_ri RM Im)
       = [EMITB 0xC1] @ MRM 0x05 (MOD RM) (REG RM) @ [EMITB (VAL Im AND 0x1F)]
 \<and> emit_insn (shrwz_mi RM Dp Im)
       = [EMITB 0xC1] @ MRM 0x05 (MOD RM) (REG RM) @ SIB RM @ CMD Dp @ [EMITB (VAL Im AND 0x1F)]
 \<and> emit_insn (shrwn_ri RM Im)
       = [EMITB 0xC1] @ MRM 0x07 (MOD RM) (REG RM) @ [EMITB (VAL Im AND 0x1F)]
 \<and> emit_insn (shrwn_mi RM Dp Im)
       = [EMITB 0xC1] @ MRM 0x07 (MOD RM) (REG RM) @ SIB RM @ CMD Dp @ [EMITB (VAL Im AND 0x1F)]
 \<and> emit_insn (movwx_rr RG RM)
       = [EMITB 0x8B] @ MRM (REG RG) (MOD RM) (REG RM)
 \<and> emit_insn (addwz_rr RG RM)
       = [EMITB 0x03] @ MRM (REG RG) (MOD RM) (REG RM)
 \<and> emit_insn (subwz_rr RG RM)
       = [EMITB 0x2B] @ MRM (REG RG) (MOD RM) (REG RM)
 \<and> emit_insn (mulwx_rr RG RM)
       = [EMITB 0x0F, EMITB 0xAF] @ MRM (REG RG) (MOD RM) (REG RM)
 \<and> emit_insn (shlwz_rx RM)
       = [EMITB 0xD3] @ MRM 0x04 (MOD RM) (REG RM)
 \<and> emit_insn (shrwz_rx RM)
       = [EMITB 0xD3] @ MRM 0x05 (MOD RM) (REG RM)
 \<and> emit_insn (shrwn_rx RM)
       = [EMITB 0xD3] @ MRM 0x07 (MOD RM) (REG RM)
 \<and> emit_insn (divwx_xr RM)
       = [EMITB 0xF7] @ MRM 0x06 (MOD RM) (REG RM)
 \<and> emit_insn (divwn_xr RM)
       = [EMITB 0xF7] @ MRM 0x07 (MOD RM) (REG RM)
 \<and> emit_insn (stack_st RM)
       = [EMITB 0xFF] @ MRM 0x06 (MOD RM) (REG RM)
 \<and> emit_insn (stack_ld RM)
       = [EMITB 0x8F] @ MRM 0x00 (MOD RM) (REG RM)"
  by (simp add: DP_def DF_def DG_def DH_def DV_def IC_def IB_def IM_def IG_def IH_def IV_def IW_def
      AUX_def EMPTY_def)

subsection \<open>Values outside the range of their class\<close>

text \<open>
  No macro of the header tests a value.  A shift by 32 is encoded as a shift by 0, the
  \<^verbatim>\<open>IC\<close> immediate \<open>0x80\<close> as 0, the \<^verbatim>\<open>IB\<close> immediate \<open>0x1FF\<close> as \<open>0xFF\<close>
  and, at \<open>Q = 1\<close>, the \<^verbatim>\<open>DP\<close> displacement \<open>0x1004\<close> as 4: each stream is a
  complete instruction and the same as the one of the value in range.
\<close>

theorem out_of_range_is_encoded:
  "emit_insn (shlwz_ri Reax (IB 32)) = [EMITB 0xC1, EMITB 0xE0, EMITB 0]
 \<and> emit_insn (shlwz_ri Reax (IB 32)) = emit_insn (shlwz_ri Reax (IB 0))
 \<and> emit_insn (addwz_ri Reax (IC 0x80)) = [EMITB 0x83, EMITB 0xC0, EMITB 0]
 \<and> emit_insn (addwz_ri Reax (IC 0x80)) = emit_insn (addwz_ri Reax (IC 0))
 \<and> emit_insn (addwz_ri Reax (IB 0x1FF)) = [EMITB 0x81, EMITB 0xC0, EMITW 0xFF]
 \<and> emit_insn (addwz_ri Reax (IB 0x1FF)) = emit_insn (addwz_ri Reax (IB 0xFF))
 \<and> emit_insn (movwx_ld Reax Mebp (DP 1 0x1004)) = [EMITB 0x8B, EMITB 0x85, EMITW 4]
 \<and> emit_insn (movwx_ld Reax Mebp (DP 1 0x1004)) = emit_insn (movwx_ld Reax Mebp (DP 1 4))"
  by (simp add: Reax_def Mebp_def IB_def IC_def DP_def MRM_def AUX_def EMPTY_def)

text \<open>
  C2, amended.  No value is rejected: every class emits a field for every value, the
  value under the mask of the class, and the field fits its byte or word.  So a value
  outside the range of its class is encoded as the value in range with the same masked
  bits.  (For the displacement classes scaled by \<open>Q\<close> the fit and the wrap are
  shown at \<open>Q\<close> 1, 2 or 4, the values the header names.)  A value
  in range is emitted as it is: an immediate that is not negative and below the bound
  of its class, a displacement that is a multiple of 4, not negative and below the
  bound of its class (\<open>0x1000 * Q\<close> for \<^verbatim>\<open>DP\<close>, \<open>0x4000 * Q\<close> for \<^verbatim>\<open>DF\<close>,
  \<open>0x8000 * Q\<close> for \<^verbatim>\<open>DG\<close>, \<open>0x10000 * Q\<close> for \<^verbatim>\<open>DH\<close>, \<open>2^31\<close> for
  \<^verbatim>\<open>DV\<close>).  A shift emits its count under \<open>0x1F\<close>, whatever the class, so a count
  below 32 as it is and a larger one reduced.  A move emits its immediate under
  \<open>0x7F\<close> for \<^verbatim>\<open>IC\<close> and whole, not reduced by the mask of the class, for the other
  classes.
\<close>

theorem out_of_range_is_masked:
  "CMD (IC v) = [EMITB (v AND 0x7F)]
 \<and> CMD (IB v) = [EMITW (v AND 0xFF)]
 \<and> CMD (IM v) = [EMITW (v AND 0xFFF)]
 \<and> CMD (IG v) = [EMITW (v AND 0x7FFF)]
 \<and> CMD (IH v) = [EMITW (v AND 0xFFFF)]
 \<and> CMD (IV v) = [EMITW (v AND 0x7FFFFFFF)]
 \<and> CMD (IW v) = [EMITW (v AND 0xFFFFFFFF)]
 \<and> CMD (DV v) = [EMITW (v AND 0x7FFFFFFC)]
 \<and> CMD (DP q v) = [EMITW (v AND ((0xFFC * q) OR 0xC))]
 \<and> CMD (DF q v) = [EMITW (v AND ((0x3FFC * q) OR 0xC))]
 \<and> CMD (DG q v) = [EMITW (v AND ((0x7FFC * q) OR 0xC))]
 \<and> CMD (DH q v) = [EMITW (v AND ((0xFFFC * q) OR 0xC))]
 \<and> CMD (IC (v + 2 ^ 7 * k)) = CMD (IC v)
 \<and> CMD (IB (v + 2 ^ 8 * k)) = CMD (IB v)
 \<and> CMD (IM (v + 2 ^ 12 * k)) = CMD (IM v)
 \<and> CMD (IG (v + 2 ^ 15 * k)) = CMD (IG v)
 \<and> CMD (IH (v + 2 ^ 16 * k)) = CMD (IH v)
 \<and> CMD (IV (v + 2 ^ 31 * k)) = CMD (IV v)
 \<and> CMD (IW (v + 2 ^ 32 * k)) = CMD (IW v)
 \<and> CMD (DV (v + 2 ^ 31 * k)) = CMD (DV v)
 \<and> list_all fits (CMD (IC v))
 \<and> list_all fits (CMD (IB v))
 \<and> list_all fits (CMD (IM v))
 \<and> list_all fits (CMD (IG v))
 \<and> list_all fits (CMD (IH v))
 \<and> list_all fits (CMD (IV v))
 \<and> list_all fits (CMD (IW v))
 \<and> list_all fits (CMD (DV v))
 \<and> (0 \<le> v \<and> v < 2 ^ 7 \<longrightarrow> CMD (IC v) = [EMITB v])
 \<and> (0 \<le> v \<and> v < 2 ^ 8 \<longrightarrow> CMD (IB v) = [EMITW v])
 \<and> (0 \<le> v \<and> v < 2 ^ 12 \<longrightarrow> CMD (IM v) = [EMITW v])
 \<and> (0 \<le> v \<and> v < 2 ^ 15 \<longrightarrow> CMD (IG v) = [EMITW v])
 \<and> (0 \<le> v \<and> v < 2 ^ 16 \<longrightarrow> CMD (IH v) = [EMITW v])
 \<and> (0 \<le> v \<and> v < 2 ^ 31 \<longrightarrow> CMD (IV v) = [EMITW v])
 \<and> (0 \<le> v \<and> v < 2 ^ 32 \<longrightarrow> CMD (IW v) = [EMITW v])
 \<and> (0 \<le> v \<and> v < 2 ^ 31 \<and> 4 dvd v \<longrightarrow> CMD (DV v) = [EMITW v])
 \<and> (q = 1 \<or> q = 2 \<or> q = 4 \<longrightarrow>
      CMD (DP q (v + 2 ^ 14 * k)) = CMD (DP q v)
    \<and> CMD (DF q (v + 2 ^ 16 * k)) = CMD (DF q v)
    \<and> CMD (DG q (v + 2 ^ 17 * k)) = CMD (DG q v)
    \<and> CMD (DH q (v + 2 ^ 18 * k)) = CMD (DH q v)
    \<and> list_all fits (CMD (DP q v))
    \<and> list_all fits (CMD (DF q v))
    \<and> list_all fits (CMD (DG q v))
    \<and> list_all fits (CMD (DH q v))
    \<and> (0 \<le> v \<and> v < 0x1000 * q \<and> 4 dvd v \<longrightarrow> CMD (DP q v) = [EMITW v])
    \<and> (0 \<le> v \<and> v < 0x4000 * q \<and> 4 dvd v \<longrightarrow> CMD (DF q v) = [EMITW v])
    \<and> (0 \<le> v \<and> v < 0x8000 * q \<and> 4 dvd v \<longrightarrow> CMD (DG q v) = [EMITW v])
    \<and> (0 \<le> v \<and> v < 0x10000 * q \<and> 4 dvd v \<longrightarrow> CMD (DH q v) = [EMITW v]))
 \<and> emit_insn (shlwz_ri RM Im) = [EMITB 0xC1] @ MRM 0x04 (MOD RM) (REG RM) @ [EMITB (VAL Im AND 0x1F)]
 \<and> emit_insn (shlwz_mi RM Dp Im)
     = [EMITB 0xC1] @ MRM 0x04 (MOD RM) (REG RM) @ SIB RM @ CMD Dp @ [EMITB (VAL Im AND 0x1F)]
 \<and> emit_insn (shrwz_ri RM Im) = [EMITB 0xC1] @ MRM 0x05 (MOD RM) (REG RM) @ [EMITB (VAL Im AND 0x1F)]
 \<and> emit_insn (shrwz_mi RM Dp Im)
     = [EMITB 0xC1] @ MRM 0x05 (MOD RM) (REG RM) @ SIB RM @ CMD Dp @ [EMITB (VAL Im AND 0x1F)]
 \<and> emit_insn (shrwn_ri RM Im) = [EMITB 0xC1] @ MRM 0x07 (MOD RM) (REG RM) @ [EMITB (VAL Im AND 0x1F)]
 \<and> emit_insn (shrwn_mi RM Dp Im)
     = [EMITB 0xC1] @ MRM 0x07 (MOD RM) (REG RM) @ SIB RM @ CMD Dp @ [EMITB (VAL Im AND 0x1F)]
 \<and> emit_insn (shlwz_ri RM (IB (v + 2 ^ 5 * k))) = emit_insn (shlwz_ri RM (IB v))
 \<and> emit_insn (shrwz_ri RM (IB (v + 2 ^ 5 * k))) = emit_insn (shrwz_ri RM (IB v))
 \<and> emit_insn (shrwn_ri RM (IB (v + 2 ^ 5 * k))) = emit_insn (shrwn_ri RM (IB v))
 \<and> (0 \<le> v \<and> v < 2 ^ 5 \<longrightarrow>
      emit_insn (shlwz_ri RM (IB v)) = [EMITB 0xC1] @ MRM 0x04 (MOD RM) (REG RM) @ [EMITB v])
 \<and> (0 \<le> v \<and> v < 2 ^ 5 \<longrightarrow>
      emit_insn (shrwz_ri RM (IB v)) = [EMITB 0xC1] @ MRM 0x05 (MOD RM) (REG RM) @ [EMITB v])
 \<and> (0 \<le> v \<and> v < 2 ^ 5 \<longrightarrow>
      emit_insn (shrwn_ri RM (IB v)) = [EMITB 0xC1] @ MRM 0x07 (MOD RM) (REG RM) @ [EMITB v])
 \<and> emit_insn (movwx_ri RM (IC v)) = [EMITB 0xC7] @ MRM 0x00 (MOD RM) (REG RM) @ [EMITW (v AND 0x7F)]
 \<and> emit_insn (movwx_ri RM (IB v)) = [EMITB 0xC7] @ MRM 0x00 (MOD RM) (REG RM) @ [EMITW v]
 \<and> emit_insn (movwx_ri RM (IM v)) = [EMITB 0xC7] @ MRM 0x00 (MOD RM) (REG RM) @ [EMITW v]
 \<and> emit_insn (movwx_ri RM (IG v)) = [EMITB 0xC7] @ MRM 0x00 (MOD RM) (REG RM) @ [EMITW v]
 \<and> emit_insn (movwx_ri RM (IH v)) = [EMITB 0xC7] @ MRM 0x00 (MOD RM) (REG RM) @ [EMITW v]
 \<and> emit_insn (movwx_ri RM (IV v)) = [EMITB 0xC7] @ MRM 0x00 (MOD RM) (REG RM) @ [EMITW v]
 \<and> emit_insn (movwx_ri RM (IW v)) = [EMITB 0xC7] @ MRM 0x00 (MOD RM) (REG RM) @ [EMITW v]
 \<and> emit_insn (movwx_mi RM Dp (IC v))
     = [EMITB 0xC7] @ MRM 0x00 (MOD RM) (REG RM) @ SIB RM @ CMD Dp @ [EMITW (v AND 0x7F)]
 \<and> emit_insn (movwx_mi RM Dp (IB v))
     = [EMITB 0xC7] @ MRM 0x00 (MOD RM) (REG RM) @ SIB RM @ CMD Dp @ [EMITW v]
 \<and> emit_insn (movwx_mi RM Dp (IM v))
     = [EMITB 0xC7] @ MRM 0x00 (MOD RM) (REG RM) @ SIB RM @ CMD Dp @ [EMITW v]
 \<and> emit_insn (movwx_mi RM Dp (IG v))
     = [EMITB 0xC7] @ MRM 0x00 (MOD RM) (REG RM) @ SIB RM @ CMD Dp @ [EMITW v]
 \<and> emit_insn (movwx_mi RM Dp (IH v))
     = [EMITB 0xC7] @ MRM 0x00 (MOD RM) (REG RM) @ SIB RM @ CMD Dp @ [EMITW v]
 \<and> emit_insn (movwx_mi RM Dp (IV v))
     = [EMITB 0xC7] @ MRM 0x00 (MOD RM) (REG RM) @ SIB RM @ CMD Dp @ [EMITW v]
 \<and> emit_insn (movwx_mi RM Dp (IW v))
     = [EMITB 0xC7] @ MRM 0x00 (MOD RM) (REG RM) @ SIB RM @ CMD Dp @ [EMITW v]"
proof -
  have cls: "CMD (IC v) = [EMITB (v AND 0x7F)]" "CMD (IB v) = [EMITW (v AND 0xFF)]"
    "CMD (IM v) = [EMITW (v AND 0xFFF)]" "CMD (IG v) = [EMITW (v AND 0x7FFF)]"
    "CMD (IH v) = [EMITW (v AND 0xFFFF)]" "CMD (IV v) = [EMITW (v AND 0x7FFFFFFF)]"
    "CMD (IW v) = [EMITW (v AND 0xFFFFFFFF)]" "CMD (DV v) = [EMITW (v AND 0x7FFFFFFC)]"
    "CMD (DP q v) = [EMITW (v AND ((0xFFC * q) OR 0xC))]"
    "CMD (DF q v) = [EMITW (v AND ((0x3FFC * q) OR 0xC))]"
    "CMD (DG q v) = [EMITW (v AND ((0x7FFC * q) OR 0xC))]"
    "CMD (DH q v) = [EMITW (v AND ((0xFFFC * q) OR 0xC))]"
    by (simp_all add: IC_def IB_def IM_def IG_def IH_def IV_def IW_def DV_def DP_def DF_def
        DG_def DH_def)
  have imm: "CMD (IC (v + 2 ^ 7 * k)) = CMD (IC v)" "CMD (IB (v + 2 ^ 8 * k)) = CMD (IB v)"
    "CMD (IM (v + 2 ^ 12 * k)) = CMD (IM v)" "CMD (IG (v + 2 ^ 15 * k)) = CMD (IG v)"
    "CMD (IH (v + 2 ^ 16 * k)) = CMD (IH v)" "CMD (IV (v + 2 ^ 31 * k)) = CMD (IV v)"
    "CMD (IW (v + 2 ^ 32 * k)) = CMD (IW v)"
    using and_mask_add [of v 7 k] and_mask_add [of v 8 k] and_mask_add [of v 12 k]
      and_mask_add [of v 15 k] and_mask_add [of v 16 k] and_mask_add [of v 31 k]
      and_mask_add [of v 32 k]
    by (simp_all add: IC_def IB_def IM_def IG_def IH_def IV_def IW_def mask_eq_exp_minus_1)
  have dv: "CMD (DV (v + 2 ^ 31 * k)) = CMD (DV v)"
    using and_sub_mask [of "0x7FFFFFFC" 31 v k] by (simp add: DV_def mask_eq_exp_minus_1)
  have fi: "list_all fits (CMD (IC v))" "list_all fits (CMD (IB v))" "list_all fits (CMD (IM v))"
    "list_all fits (CMD (IG v))" "list_all fits (CMD (IH v))" "list_all fits (CMD (IV v))"
    "list_all fits (CMD (IW v))" "list_all fits (CMD (DV v))"
    using and_fits [of "0x7F" "2 ^ 8" v] and_fits [of "0xFF" "2 ^ 32" v]
      and_fits [of "0xFFF" "2 ^ 32" v] and_fits [of "0x7FFF" "2 ^ 32" v]
      and_fits [of "0xFFFF" "2 ^ 32" v] and_fits [of "0x7FFFFFFF" "2 ^ 32" v]
      and_fits [of "0xFFFFFFFF" "2 ^ 32" v] and_fits [of "0x7FFFFFFC" "2 ^ 32" v]
    by (simp_all add: IC_def IB_def IM_def IG_def IH_def IV_def IW_def DV_def)
  have inr: "0 \<le> v \<and> v < 2 ^ 7 \<longrightarrow> CMD (IC v) = [EMITB v]"
    "0 \<le> v \<and> v < 2 ^ 8 \<longrightarrow> CMD (IB v) = [EMITW v]"
    "0 \<le> v \<and> v < 2 ^ 12 \<longrightarrow> CMD (IM v) = [EMITW v]"
    "0 \<le> v \<and> v < 2 ^ 15 \<longrightarrow> CMD (IG v) = [EMITW v]"
    "0 \<le> v \<and> v < 2 ^ 16 \<longrightarrow> CMD (IH v) = [EMITW v]"
    "0 \<le> v \<and> v < 2 ^ 31 \<longrightarrow> CMD (IV v) = [EMITW v]"
    "0 \<le> v \<and> v < 2 ^ 32 \<longrightarrow> CMD (IW v) = [EMITW v]"
    using and_in_range [of v 7] and_in_range [of v 8] and_in_range [of v 12]
      and_in_range [of v 15] and_in_range [of v 16] and_in_range [of v 31] and_in_range [of v 32]
    by (simp_all add: IC_def IB_def IM_def IG_def IH_def IV_def IW_def)
  have inv: "0 \<le> v \<and> v < 2 ^ 31 \<and> 4 dvd v \<longrightarrow> CMD (DV v) = [EMITW v]"
    using and_disp_mask [of v 29] by (simp add: DV_def)
  have dq: "CMD (DP q (v + 2 ^ 14 * k)) = CMD (DP q v) \<and> CMD (DF q (v + 2 ^ 16 * k)) = CMD (DF q v)
    \<and> CMD (DG q (v + 2 ^ 17 * k)) = CMD (DG q v) \<and> CMD (DH q (v + 2 ^ 18 * k)) = CMD (DH q v)"
    if "q = 1 \<or> q = 2 \<or> q = 4"
    using that
      and_sub_mask [of "0xFFC" 14 v k] and_sub_mask [of "0x1FFC" 14 v k] and_sub_mask [of "0x3FFC" 14 v k]
      and_sub_mask [of "0x3FFC" 16 v k] and_sub_mask [of "0x7FFC" 16 v k] and_sub_mask [of "0xFFFC" 16 v k]
      and_sub_mask [of "0x7FFC" 17 v k] and_sub_mask [of "0xFFFC" 17 v k] and_sub_mask [of "0x1FFFC" 17 v k]
      and_sub_mask [of "0xFFFC" 18 v k] and_sub_mask [of "0x1FFFC" 18 v k] and_sub_mask [of "0x3FFFC" 18 v k]
    by (auto simp: DP_def DF_def DG_def DH_def mask_eq_exp_minus_1)
  have fq: "list_all fits (CMD (DP q v)) \<and> list_all fits (CMD (DF q v))
    \<and> list_all fits (CMD (DG q v)) \<and> list_all fits (CMD (DH q v))"
    if "q = 1 \<or> q = 2 \<or> q = 4"
    using that
      and_fits [of "0xFFC" "2 ^ 32" v] and_fits [of "0x1FFC" "2 ^ 32" v] and_fits [of "0x3FFC" "2 ^ 32" v]
      and_fits [of "0x7FFC" "2 ^ 32" v] and_fits [of "0xFFFC" "2 ^ 32" v]
      and_fits [of "0x1FFFC" "2 ^ 32" v] and_fits [of "0x3FFFC" "2 ^ 32" v]
    by (auto simp: DP_def DF_def DG_def DH_def)
  have rq: "(0 \<le> v \<and> v < 0x1000 * q \<and> 4 dvd v \<longrightarrow> CMD (DP q v) = [EMITW v])
    \<and> (0 \<le> v \<and> v < 0x4000 * q \<and> 4 dvd v \<longrightarrow> CMD (DF q v) = [EMITW v])
    \<and> (0 \<le> v \<and> v < 0x8000 * q \<and> 4 dvd v \<longrightarrow> CMD (DG q v) = [EMITW v])
    \<and> (0 \<le> v \<and> v < 0x10000 * q \<and> 4 dvd v \<longrightarrow> CMD (DH q v) = [EMITW v])"
    if "q = 1 \<or> q = 2 \<or> q = 4"
    using that and_disp_mask [of v 10] and_disp_mask [of v 11] and_disp_mask [of v 12]
      and_disp_mask [of v 13] and_disp_mask [of v 14] and_disp_mask [of v 15]
      and_disp_mask [of v 16]
    by (auto simp: DP_def DF_def DG_def DH_def)
  have sh: "emit_insn (shlwz_ri RM (IB (v + 2 ^ 5 * k))) = emit_insn (shlwz_ri RM (IB v))"
    "emit_insn (shrwz_ri RM (IB (v + 2 ^ 5 * k))) = emit_insn (shrwz_ri RM (IB v))"
    "emit_insn (shrwn_ri RM (IB (v + 2 ^ 5 * k))) = emit_insn (shrwn_ri RM (IB v))"
    using and_mask_add [of v 5 k] by (simp_all add: IB_def mask_eq_exp_minus_1)
  have sx: "emit_insn (shlwz_ri RM Im) = [EMITB 0xC1] @ MRM 0x04 (MOD RM) (REG RM) @ [EMITB (VAL Im AND 0x1F)]"
    "emit_insn (shlwz_mi RM Dp Im)
     = [EMITB 0xC1] @ MRM 0x04 (MOD RM) (REG RM) @ SIB RM @ CMD Dp @ [EMITB (VAL Im AND 0x1F)]"
    "emit_insn (shrwz_ri RM Im) = [EMITB 0xC1] @ MRM 0x05 (MOD RM) (REG RM) @ [EMITB (VAL Im AND 0x1F)]"
    "emit_insn (shrwz_mi RM Dp Im)
     = [EMITB 0xC1] @ MRM 0x05 (MOD RM) (REG RM) @ SIB RM @ CMD Dp @ [EMITB (VAL Im AND 0x1F)]"
    "emit_insn (shrwn_ri RM Im) = [EMITB 0xC1] @ MRM 0x07 (MOD RM) (REG RM) @ [EMITB (VAL Im AND 0x1F)]"
    "emit_insn (shrwn_mi RM Dp Im)
     = [EMITB 0xC1] @ MRM 0x07 (MOD RM) (REG RM) @ SIB RM @ CMD Dp @ [EMITB (VAL Im AND 0x1F)]"
    by (simp_all add: AUX_def EMPTY_def)
  have sr: "0 \<le> v \<and> v < 2 ^ 5 \<longrightarrow>
      emit_insn (shlwz_ri RM (IB v)) = [EMITB 0xC1] @ MRM 0x04 (MOD RM) (REG RM) @ [EMITB v]"
    "0 \<le> v \<and> v < 2 ^ 5 \<longrightarrow>
      emit_insn (shrwz_ri RM (IB v)) = [EMITB 0xC1] @ MRM 0x05 (MOD RM) (REG RM) @ [EMITB v]"
    "0 \<le> v \<and> v < 2 ^ 5 \<longrightarrow>
      emit_insn (shrwn_ri RM (IB v)) = [EMITB 0xC1] @ MRM 0x07 (MOD RM) (REG RM) @ [EMITB v]"
    using and_in_range [of v 5] by (simp_all add: IB_def AUX_def EMPTY_def)
  have mv: "emit_insn (movwx_ri RM (IC v)) = [EMITB 0xC7] @ MRM 0x00 (MOD RM) (REG RM) @ [EMITW (v AND 0x7F)]"
    "emit_insn (movwx_ri RM (IB v)) = [EMITB 0xC7] @ MRM 0x00 (MOD RM) (REG RM) @ [EMITW v]"
    "emit_insn (movwx_ri RM (IM v)) = [EMITB 0xC7] @ MRM 0x00 (MOD RM) (REG RM) @ [EMITW v]"
    "emit_insn (movwx_ri RM (IG v)) = [EMITB 0xC7] @ MRM 0x00 (MOD RM) (REG RM) @ [EMITW v]"
    "emit_insn (movwx_ri RM (IH v)) = [EMITB 0xC7] @ MRM 0x00 (MOD RM) (REG RM) @ [EMITW v]"
    "emit_insn (movwx_ri RM (IV v)) = [EMITB 0xC7] @ MRM 0x00 (MOD RM) (REG RM) @ [EMITW v]"
    "emit_insn (movwx_ri RM (IW v)) = [EMITB 0xC7] @ MRM 0x00 (MOD RM) (REG RM) @ [EMITW v]"
    "emit_insn (movwx_mi RM Dp (IC v))
     = [EMITB 0xC7] @ MRM 0x00 (MOD RM) (REG RM) @ SIB RM @ CMD Dp @ [EMITW (v AND 0x7F)]"
    "emit_insn (movwx_mi RM Dp (IB v))
     = [EMITB 0xC7] @ MRM 0x00 (MOD RM) (REG RM) @ SIB RM @ CMD Dp @ [EMITW v]"
    "emit_insn (movwx_mi RM Dp (IM v))
     = [EMITB 0xC7] @ MRM 0x00 (MOD RM) (REG RM) @ SIB RM @ CMD Dp @ [EMITW v]"
    "emit_insn (movwx_mi RM Dp (IG v))
     = [EMITB 0xC7] @ MRM 0x00 (MOD RM) (REG RM) @ SIB RM @ CMD Dp @ [EMITW v]"
    "emit_insn (movwx_mi RM Dp (IH v))
     = [EMITB 0xC7] @ MRM 0x00 (MOD RM) (REG RM) @ SIB RM @ CMD Dp @ [EMITW v]"
    "emit_insn (movwx_mi RM Dp (IV v))
     = [EMITB 0xC7] @ MRM 0x00 (MOD RM) (REG RM) @ SIB RM @ CMD Dp @ [EMITW v]"
    "emit_insn (movwx_mi RM Dp (IW v))
     = [EMITB 0xC7] @ MRM 0x00 (MOD RM) (REG RM) @ SIB RM @ CMD Dp @ [EMITW v]"
    by (simp_all add: IC_def IB_def IM_def IG_def IH_def IV_def IW_def AUX_def EMPTY_def)
  from dq fq rq have q: "q = 1 \<or> q = 2 \<or> q = 4 \<longrightarrow>
      CMD (DP q (v + 2 ^ 14 * k)) = CMD (DP q v)
    \<and> CMD (DF q (v + 2 ^ 16 * k)) = CMD (DF q v)
    \<and> CMD (DG q (v + 2 ^ 17 * k)) = CMD (DG q v)
    \<and> CMD (DH q (v + 2 ^ 18 * k)) = CMD (DH q v)
    \<and> list_all fits (CMD (DP q v))
    \<and> list_all fits (CMD (DF q v))
    \<and> list_all fits (CMD (DG q v))
    \<and> list_all fits (CMD (DH q v))
    \<and> (0 \<le> v \<and> v < 0x1000 * q \<and> 4 dvd v \<longrightarrow> CMD (DP q v) = [EMITW v])
    \<and> (0 \<le> v \<and> v < 0x4000 * q \<and> 4 dvd v \<longrightarrow> CMD (DF q v) = [EMITW v])
    \<and> (0 \<le> v \<and> v < 0x8000 * q \<and> 4 dvd v \<longrightarrow> CMD (DG q v) = [EMITW v])
    \<and> (0 \<le> v \<and> v < 0x10000 * q \<and> 4 dvd v \<longrightarrow> CMD (DH q v) = [EMITW v])"
    by blast
  show ?thesis
    by (intro conjI cls imm dv fi inr inv q sx sh sr mv)
qed

text \<open>
  At 8 with \<open>Q\<close> = 4 and a wrap of one period: 8 is in the range of every class, and
  so is emitted as it is by every class, as a shift count and by the moves.
\<close>

theorem out_of_range_is_masked_witness:
  "CMD (IC (8 + 2 ^ 7 * 1)) = CMD (IC 8) \<and> CMD (IC 8) = [EMITB 8] \<and> CMD (IM 8) = [EMITW 8]
 \<and> CMD (DV 8) = [EMITW 8]
 \<and> CMD (DP 4 (8 + 2 ^ 14 * 1)) = CMD (DP 4 8) \<and> CMD (DP 4 8) = [EMITW 8]
 \<and> CMD (DH 4 8) = [EMITW 8] \<and> list_all fits (CMD (DP 4 8))
 \<and> emit_insn (shlwz_ri Recx (IB (8 + 2 ^ 5 * 1))) = emit_insn (shlwz_ri Recx (IB 8))
 \<and> emit_insn (shlwz_ri Recx (IB 8)) = [EMITB 0xC1, EMITB 0xE1, EMITB 8]
 \<and> emit_insn (movwx_ri Recx (IB 8)) = [EMITB 0xC7, EMITB 0xC1, EMITW 8]"
  using out_of_range_is_masked [where v = 8 and q = 4 and k = 1 and RM = Recx and Im = "IB 8"
      and Dp = PLAIN]
  by (simp add: Recx_def MRM_def PLAIN_def IB_def AUX_def EMPTY_def)

subsection \<open>Signed and unsigned branches\<close>

text \<open>
  C7.  The unsigned ordered conditions branch on the carry-based tests and the signed
  ones on the sign-based tests: \<^verbatim>\<open>LT_x\<close> emits \<^verbatim>\<open>jb\<close> and \<^verbatim>\<open>LT_n\<close> emits
  \<^verbatim>\<open>jl\<close>, and likewise \<^verbatim>\<open>jbe\<close> and \<^verbatim>\<open>jle\<close>, \<^verbatim>\<open>ja\<close> and \<^verbatim>\<open>jg\<close>,
  \<^verbatim>\<open>jae\<close> and \<^verbatim>\<open>jge\<close>.  The eight ordered conditions emit eight different
  mnemonics, so no signed one shares its branch with an unsigned one.
\<close>

theorem signed_unsigned_branches:
  "CMJ LT_x lb = [ASM_OP1 ''jb'' lb] \<and> CMJ LT_n lb = [ASM_OP1 ''jl'' lb]
 \<and> CMJ LE_x lb = [ASM_OP1 ''jbe'' lb] \<and> CMJ LE_n lb = [ASM_OP1 ''jle'' lb]
 \<and> CMJ GT_x lb = [ASM_OP1 ''ja'' lb] \<and> CMJ GT_n lb = [ASM_OP1 ''jg'' lb]
 \<and> CMJ GE_x lb = [ASM_OP1 ''jae'' lb] \<and> CMJ GE_n lb = [ASM_OP1 ''jge'' lb]
 \<and> jltxx_lb lb = [ASM_OP1 ''jb'' lb] \<and> jltxn_lb lb = [ASM_OP1 ''jl'' lb]
 \<and> distinct (map (\<lambda>c. map mnemonic (CMJ c lb)) [LT_x, LE_x, GT_x, GE_x, LT_n, LE_n, GT_n, GE_n])
 \<and> list_all (\<lambda>(u, n). map mnemonic (CMJ u lb) \<noteq> map mnemonic (CMJ n lb')) ordered_pairs"
  by (simp add: ordered_pairs_def jltxx_lb_def jltxn_lb_def jlexx_lb_def jlexn_lb_def
      jgtxx_lb_def jgtxn_lb_def jgexx_lb_def jgexn_lb_def)

subsection \<open>One layout for add, sub, mul and div\<close>

text \<open>
  The multiply and the divide do not follow the layout add and sub share.
  \<^verbatim>\<open>mulwx_ri\<close> opens with \<open>0x69\<close> and carries the operand register, not a
  constant, in the reg field; \<^verbatim>\<open>mulwx_rr\<close> has a second opcode byte;
  \<^verbatim>\<open>divwx_rr\<close> is a sequence of eight and more instructions, 17 stream items with
  the prepare step \<^verbatim>\<open>prewx_xx\<close>.
\<close>

theorem mul_div_have_own_layout:
  "follows_ri (emit_insn (addwz_ri Recx (IB 5))) Recx (IB 5)
 \<and> follows_ri (emit_insn (subwz_ri Recx (IB 5))) Recx (IB 5)
 \<and> \<not> follows_ri (emit_insn (mulwx_ri Recx (IB 5))) Recx (IB 5)
 \<and> emit_insn (mulwx_ri Recx (IB 5)) = [EMITB 0x69, EMITB 0xC9, EMITW 5]
 \<and> follows_rr (emit_insn (addwz_rr Rebx Recx)) Rebx Recx
 \<and> follows_rr (emit_insn (subwz_rr Rebx Recx)) Rebx Recx
 \<and> \<not> follows_rr (emit_insn (mulwx_rr Rebx Recx)) Rebx Recx
 \<and> emit_insn (mulwx_rr Rebx Recx) = [EMITB 0x0F, EMITB 0xAF, EMITB 0xD9]
 \<and> \<not> follows_rr (emits (divwx_rr prewx_xx Rebx Recx)) Rebx Recx
 \<and> length (emits (divwx_rr prewx_xx Rebx Recx)) = 17"
  by (simp add: follows_ri_def follows_rr_def rule_ri_def rule_rr_def emits_def divwx_rr_def
      prewx_xx_def Reax_def Recx_def Redx_def Rebx_def IB_def IC_def MRM_def AUX_def EMPTY_def)

text \<open>
  C8, amended.  Add and sub share one layout for each operand shape and differ in a
  constant only: the reg field \<open>0x00\<close> and \<open>0x05\<close> after the opcode byte
  \<^verbatim>\<open>0x81 | TYP(IM)\<close> in the immediate forms, the opcode byte \<open>0x03\<close> and
  \<open>0x2B\<close> in the register and load forms, \<open>0x01\<close> and \<open>0x29\<close> in the store
  form.  The multiply has a layout of its own (opcode \<^verbatim>\<open>0x69 | TYP(IM)\<close> with the
  operand register in the reg field; the prefix byte \<open>0x0F\<close> before opcode
  \<open>0xAF\<close>), and the divide is a sequence of instructions around the one-operand
  divide \<open>0xF7 /6\<close>.
\<close>

theorem add_sub_share_layout:
  "emit_insn (addwz_ri RM Im) = rule_ri 0x00 RM Im
 \<and> emit_insn (subwz_ri RM Im) = rule_ri 0x05 RM Im
 \<and> emit_insn (addwz_mi RM Dp Im) = rule_mi 0x00 RM Dp Im
 \<and> emit_insn (subwz_mi RM Dp Im) = rule_mi 0x05 RM Dp Im
 \<and> emit_insn (addwz_rr RG RM) = rule_rr 0x03 RG RM
 \<and> emit_insn (subwz_rr RG RM) = rule_rr 0x2B RG RM
 \<and> emit_insn (addwz_ld RG RM Dp) = rule_rm 0x03 RG RM Dp
 \<and> emit_insn (subwz_ld RG RM Dp) = rule_rm 0x2B RG RM Dp
 \<and> emit_insn (addwz_st RG RM Dp) = rule_rm 0x01 RG RM Dp
 \<and> emit_insn (subwz_st RG RM Dp) = rule_rm 0x29 RG RM Dp
 \<and> emit_insn (mulwx_ri RM Im) = [EMITB (0x69 OR TYP Im)] @ MRM (REG RM) (MOD RM) (REG RM) @ CMD Im
 \<and> emit_insn (mulwx_rr RG RM) = [EMITB 0x0F] @ rule_rr 0xAF RG RM
 \<and> emit_insn (mulwx_ld RG RM Dp) = [EMITB 0x0F] @ rule_rm 0xAF RG RM Dp
 \<and> emit_insn (divwx_xr RM) = [EMITB 0xF7] @ MRM 0x06 (MOD RM) (REG RM)
 \<and> divwx_rr p RG RM =
      [stack_st Reax, stack_st Redx, movwx_rr Reax RG] @ p
      @ [divwx_xr RM, stack_ld Redx, movwx_rr RG Reax, stack_ld Reax]"
  by (simp add: rule_ri_def rule_mi_def rule_rr_def rule_rm_def divwx_rr_def AUX_def EMPTY_def)

subsection \<open>Registers the composite sequences borrow\<close>

text \<open>
  C10.  The shifts by a register count (\<^verbatim>\<open>shl\<close>, \<^verbatim>\<open>shr\<close>, \<^verbatim>\<open>shrn\<close> in their
  \<^verbatim>\<open>_rr\<close>, \<^verbatim>\<open>_ld\<close> and \<^verbatim>\<open>_st\<close> forms) push \<^verbatim>\<open>Recx\<close> and pop it at their end;
  the divisions push \<^verbatim>\<open>Reax\<close> and \<^verbatim>\<open>Redx\<close> and the remainders \<^verbatim>\<open>Redx\<close> and
  \<^verbatim>\<open>Reax\<close>, and pop them in the reverse order.  These are the only stack operations
  of the sequence, so pushes and pops balance, and when the sequence has run every
  register other than the destination, the stack pointer among them, holds the value
  it had before, and so does the stack.  The store forms of the shifts have a memory
  destination and change no register.  The prepare step, which the header calls under
  a name it does not define, is any step that sets up \<^verbatim>\<open>edx\<close> and touches nothing
  else, as the header's \<^verbatim>\<open>prewx_xx\<close> and \<^verbatim>\<open>prewn_xx\<close> do.
\<close>

theorem borrowed_registers_restored:
  assumes "prepares px" and "prepares pn" and "MOD MS \<noteq> 3"
  shows "saves [Recx] {REG RG} (shlwz_rr RG RM) \<and> saves [Recx] {REG RG} (shlwz_ld RG RM Dp)
    \<and> saves [Recx] {} (shlwz_st RG MS Dp)
    \<and> saves [Recx] {REG RG} (shrwz_rr RG RM) \<and> saves [Recx] {REG RG} (shrwz_ld RG RM Dp)
    \<and> saves [Recx] {} (shrwz_st RG MS Dp)
    \<and> saves [Recx] {REG RG} (shrwn_rr RG RM) \<and> saves [Recx] {REG RG} (shrwn_ld RG RM Dp)
    \<and> saves [Recx] {} (shrwn_st RG MS Dp)
    \<and> saves [Reax, Redx] {REG RG} (divwx_ri px scr RG Im)
    \<and> saves [Reax, Redx] {REG RG} (divwx_rr px RG RM)
    \<and> saves [Reax, Redx] {REG RG} (divwx_ld px RG RM Dp)
    \<and> saves [Reax, Redx] {REG RG} (divwn_ri pn scr RG Im)
    \<and> saves [Reax, Redx] {REG RG} (divwn_rr pn RG RM)
    \<and> saves [Reax, Redx] {REG RG} (divwn_ld pn RG RM Dp)
    \<and> saves [Redx, Reax] {REG RG} (remwx_ri px scr RG Im)
    \<and> saves [Redx, Reax] {REG RG} (remwx_rr px RG RM)
    \<and> saves [Redx, Reax] {REG RG} (remwx_ld px RG RM Dp)
    \<and> saves [Redx, Reax] {REG RG} (remwn_ri pn scr RG Im)
    \<and> saves [Redx, Reax] {REG RG} (remwn_rr pn RG RM)
    \<and> saves [Redx, Reax] {REG RG} (remwn_ld pn RG RM Dp)
    \<and> (\<exists>s'. run (shlwz_rr RG RM) s = Some s') \<and> (\<exists>s'. run (shlwz_ld RG RM Dp) s = Some s')
    \<and> (\<exists>s'. run (shlwz_st RG MS Dp) s = Some s')
    \<and> (\<exists>s'. run (shrwz_rr RG RM) s = Some s') \<and> (\<exists>s'. run (shrwz_ld RG RM Dp) s = Some s')
    \<and> (\<exists>s'. run (shrwz_st RG MS Dp) s = Some s')
    \<and> (\<exists>s'. run (shrwn_rr RG RM) s = Some s') \<and> (\<exists>s'. run (shrwn_ld RG RM Dp) s = Some s')
    \<and> (\<exists>s'. run (shrwn_st RG MS Dp) s = Some s')"
  using assms
  by (intro conjI shlwz_rr_saves shlwz_ld_saves shlwz_st_saves shrwz_rr_saves shrwz_ld_saves
      shrwz_st_saves shrwn_rr_saves shrwn_ld_saves shrwn_st_saves divwx_ri_saves divwx_rr_saves
      divwx_ld_saves divwn_ri_saves divwn_rr_saves divwn_ld_saves remwx_ri_saves remwx_rr_saves
      remwx_ld_saves remwn_ri_saves remwn_rr_saves remwn_ld_saves shlwz_rr_runs shlwz_ld_runs
      shlwz_st_runs shrwz_rr_runs shrwz_ld_runs shrwz_st_runs shrwn_rr_runs shrwn_ld_runs
      shrwn_st_runs)

text \<open>
  On \<open>ex_x86\<close>: \<^verbatim>\<open>divwx_rr(Rebx, Recx)\<close> with the header's \<^verbatim>\<open>prewx_xx\<close> leaves
  84 div 5 = 16 in \<^verbatim>\<open>ebx\<close> and everything else as it was, and
  \<^verbatim>\<open>shlwz_rr(Rebx, Recx)\<close> leaves 84 * 32 = 2688 there.
\<close>

theorem borrowed_registers_restored_witness:
  "(\<exists>t. run (divwx_rr prewx_xx Rebx Recx) ex_x86 = Some t \<and> regs t 3 = 16
        \<and> regs t 0 = 7 \<and> regs t 1 = 5 \<and> regs t 2 = 9 \<and> regs t 4 = 0x1000 \<and> stack t = []
        \<and> frame {3} ex_x86 t)
 \<and> (\<exists>t. run (shlwz_rr Rebx Recx) ex_x86 = Some t \<and> regs t 3 = 2688 \<and> regs t 1 = 5
        \<and> frame {3} ex_x86 t)
 \<and> stack_ops (divwx_rr prewx_xx Rebx Recx)
      = [stack_st Reax, stack_st Redx, stack_ld Redx, stack_ld Reax]"
proof -
  note b = borrowed_registers_restored [OF prepares_prewx_xx prepares_prewn_xx,
      of Mebp Rebx Recx]
  have d: "saves [Reax, Redx] {3} (divwx_rr prewx_xx Rebx Recx)"
    and s: "saves [Recx] {3} (shlwz_rr Rebx Recx)"
    using b by (simp_all add: Mebp_def Rebx_def)
  obtain t where t: "run (divwx_rr prewx_xx Rebx Recx) ex_x86 = Some t" "regs t 3 = 16"
    "regs t 0 = 7" "regs t 1 = 5" "regs t 2 = 9" "regs t 4 = 0x1000" "stack t = []"
    by (simp add: divwx_rr_def prewx_xx_def ex_x86_def div_u_def Let_def acc_defs opnd_defs
        Rebx_def IC_def imm_of_def)
  obtain u where u: "run (shlwz_rr Rebx Recx) ex_x86 = Some u" "regs u 3 = 2688" "regs u 1 = 5"
    by (simp add: shlwz_rr_def ex_x86_def shl32_def acc_defs opnd_defs Rebx_def)
  from d t(1) have "frame {3} ex_x86 t" by (simp add: saves_def)
  moreover from s u(1) have "frame {3} ex_x86 u" by (simp add: saves_def)
  moreover from d have "stack_ops (divwx_rr prewx_xx Rebx Recx)
      = [stack_st Reax, stack_st Redx, stack_ld Redx, stack_ld Reax]"
    by (simp add: saves_def)
  ultimately show ?thesis using t u by blast
qed

section \<open>The NEON divide\<close>

text \<open>
  C4.  With \<^verbatim>\<open>RT_SIMD_COMPAT_DIV\<close> other than 1, \<^verbatim>\<open>divos_rr\<close> on two SIMD
  registers is the refinement sequence of its configuration, read back from the
  emitted words: for \<^verbatim>\<open>RT_128 < 2\<close> the reciprocal estimate, three Newton-Raphson
  steps (a correction, then the multiply) and the residual tail with multiply-accumulate
  and multiply-subtract, 11 words; for \<^verbatim>\<open>RT_128 >= 2\<close> the estimate, one step and
  the tail with the fused forms, 7 words.  No word is a divide.  The sequence is a
  function of the two settings and the operands alone.
\<close>

theorem divos_rr_is_refinement:
  assumes "XG \<in> set simd_regs" and "XS \<in> set simd_regs" and "c \<noteq> 1"
  shows "(r < 2 \<longrightarrow> map decode (divos_rr c r XG XS) = div_refine 3 False (REG XG) (REG XS)
                    \<and> length (divos_rr c r XG XS) = 11)
       \<and> (2 \<le> r \<longrightarrow> map decode (divos_rr c r XG XS) = div_refine 1 True (REG XG) (REG XS)
                    \<and> length (divos_rr c r XG XS) = 7)
       \<and> \<not> list_ex is_vdiv (map decode (divos_rr c r XG XS))"
proof -
  have a: "map decode (divos_rr c r XG XS) = div_refine 3 False (REG XG) (REG XS)" if "r < 2"
    using assms that by (rule divos_rr_v1)
  have b: "map decode (divos_rr c r XG XS) = div_refine 1 True (REG XG) (REG XS)" if "2 \<le> r"
    using assms that by (rule divos_rr_v2)
  have l: "r < 2 \<longrightarrow> length (divos_rr c r XG XS) = 11" "2 \<le> r \<longrightarrow> length (divos_rr c r XG XS) = 7"
    using assms by (simp_all add: divos_rr_def)
  have n: "\<not> list_ex is_vdiv (div_refine 3 False (REG XG) (REG XS))"
    "\<not> list_ex is_vdiv (div_refine 1 True (REG XG) (REG XS))"
    by (simp_all add: div_refine_def nr_step_def numeral_3_eq_3)
  show ?thesis
  proof (cases "r < 2")
    case True
    with a l n show ?thesis by simp
  next
    case False
    with b l n show ?thesis by simp
  qed
qed

text \<open>\<^verbatim>\<open>divos_rr(Xmm2, Xmm5)\<close> in the two emulating configurations.\<close>

theorem divos_rr_is_refinement_witness:
  "map decode (divos_rr 0 1 Xmm2 Xmm5) =
     [VRECPE 16 10, VRECPS 18 16 10, VMUL 16 16 18, VRECPS 18 16 10, VMUL 16 16 18,
      VRECPS 18 16 10, VMUL 16 16 18, VMUL 18 4 16, VMLS 4 10 18, VMLA 18 4 16, VORR 4 18 18]
 \<and> map decode (divos_rr 0 2 Xmm2 Xmm5) =
     [VRECPE 16 10, VRECPS 18 16 10, VMUL 16 16 18, VMUL 18 4 16, VFMS 4 10 18, VFMA 18 4 16,
      VORR 4 18 18]
 \<and> length (divos_rr 0 1 Xmm2 Xmm5) = 11 \<and> length (divos_rr 0 2 Xmm2 Xmm5) = 7"
  using divos_rr_is_refinement [of Xmm2 Xmm5 0 1] divos_rr_is_refinement [of Xmm2 Xmm5 0 2]
  by (simp add: simd_regs_def div_refine_def nr_step_def numeral_3_eq_3 Xmm2_def Xmm5_def
      TmmM_def TmmC_def)

section \<open>The AVX-512 macros on 64-bit elements\<close>

subsection \<open>The emulated multiply\<close>

text \<open>
  C5.  For \<^verbatim>\<open>RT_512X1\<close> 1 or 4 the packed 64-bit multiply stores its two operands
  to the scratch fields, multiplies the eight elements one by one in \<^verbatim>\<open>Recx\<close> and
  reloads the result: every lane of the destination is the product of the two source
  lanes modulo \<open>2^64\<close>, which is what the single instruction emitted for
  \<^verbatim>\<open>RT_512X1\<close> 2 or 8 leaves there.  \<^verbatim>\<open>Recx\<close>, the other BASE registers and the
  stack are as before.  The same holds for the form with a memory operand.
\<close>

theorem mulqx_emulated_is_native:
  assumes "RT_512X1 e = 1 \<or> RT_512X1 e = 4" and "RT_512X1 n = 2 \<or> RT_512X1 n = 8"
  shows "(\<exists>t u. mulqx3rr e XD XS XT s = Some t \<and> mulqx3rr n XD XS XT s = Some u
            \<and> (\<forall>i<8. zmm t (REG XD) i = zmm s (REG XS) i * zmm s (REG XT) i
                     \<and> unat (zmm t (REG XD) i)
                         = unat (zmm s (REG XS) i) * unat (zmm s (REG XT) i) mod 2 ^ 64
                     \<and> zmm u (REG XD) i = zmm t (REG XD) i)
            \<and> gpr t = gpr s \<and> stk t = stk s)
       \<and> (\<exists>t u. mulqx3ld e XD XS MT (Disp d) s = Some t \<and> mulqx3ld n XD XS MT (Disp d) s = Some u
            \<and> (\<forall>i<8. zmm t (REG XD) i = zmm s (REG XS) i * ld512 s MT (Disp d) i
                     \<and> zmm u (REG XD) i = zmm t (REG XD) i)
            \<and> gpr t = gpr s \<and> stk t = stk s)
       \<and> mulqx_rr e XD XS = mulqx3rr e XD XD XS \<and> mulqx_ld e XD MT (Disp d) = mulqx3ld e XD XD MT (Disp d)"
proof -
  from mulqx3rr_lanes [of e XD XS XT s] obtain t where t: "mulqx3rr e XD XS XT s = Some t"
    "gpr t = gpr s" "stk t = stk s" "\<forall>i<8. zmm t (REG XD) i = zmm s (REG XS) i * zmm s (REG XT) i"
    by blast
  from mulqx3rr_lanes [of n XD XS XT s] obtain u where u: "mulqx3rr n XD XS XT s = Some u"
    "\<forall>i<8. zmm u (REG XD) i = zmm s (REG XS) i * zmm s (REG XT) i"
    by blast
  from mulqx3ld_lanes [of e XD XS MT d s] obtain t' where t': "mulqx3ld e XD XS MT (Disp d) s = Some t'"
    "gpr t' = gpr s" "stk t' = stk s"
    "\<forall>i<8. zmm t' (REG XD) i = zmm s (REG XS) i * ld512 s MT (Disp d) i"
    by blast
  from mulqx3ld_lanes [of n XD XS MT d s] obtain u' where u': "mulqx3ld n XD XS MT (Disp d) s = Some u'"
    "\<forall>i<8. zmm u' (REG XD) i = zmm s (REG XS) i * ld512 s MT (Disp d) i"
    by blast
  have m: "unat (a * b) = unat a * unat b mod 2 ^ 64" for a b :: "64 word"
    by (simp add: unat_word_ariths)
  from t u m have "\<exists>t u. mulqx3rr e XD XS XT s = Some t \<and> mulqx3rr n XD XS XT s = Some u
            \<and> (\<forall>i<8. zmm t (REG XD) i = zmm s (REG XS) i * zmm s (REG XT) i
                     \<and> unat (zmm t (REG XD) i)
                         = unat (zmm s (REG XS) i) * unat (zmm s (REG XT) i) mod 2 ^ 64
                     \<and> zmm u (REG XD) i = zmm t (REG XD) i)
            \<and> gpr t = gpr s \<and> stk t = stk s"
    by simp
  moreover from t' u' have "\<exists>t u. mulqx3ld e XD XS MT (Disp d) s = Some t
            \<and> mulqx3ld n XD XS MT (Disp d) s = Some u
            \<and> (\<forall>i<8. zmm t (REG XD) i = zmm s (REG XS) i * ld512 s MT (Disp d) i
                     \<and> zmm u (REG XD) i = zmm t (REG XD) i)
            \<and> gpr t = gpr s \<and> stk t = stk s"
    by simp
  ultimately show ?thesis by (simp add: mulqx_rr_def mulqx_ld_def)
qed

text \<open>
  On \<open>ex_x64\<close>: register 1 holds \<open>3, 4, 5, ...\<close> and register 2 holds \<open>2^63\<close> in
  every lane, so the products are \<open>2^63\<close> in the lanes with an odd factor and 0, by
  the reduction modulo \<open>2^64\<close>, in the others.
\<close>

theorem mulqx_emulated_is_native_witness:
  "\<exists>t u. mulqx3rr ex_emul (ex_zmm 3) (ex_zmm 1) (ex_zmm 2) ex_x64 = Some t
       \<and> mulqx3rr ex_native (ex_zmm 3) (ex_zmm 1) (ex_zmm 2) ex_x64 = Some u
       \<and> map (zmm t 3) [0, 1, 2, 3, 4, 5, 6, 7] = [2 ^ 63, 0, 2 ^ 63, 0, 2 ^ 63, 0, 2 ^ 63, 0]
       \<and> map (zmm u 3) [0, 1, 2, 3, 4, 5, 6, 7] = map (zmm t 3) [0, 1, 2, 3, 4, 5, 6, 7]
       \<and> gpr t = gpr ex_x64 \<and> stk t = stk ex_x64"
proof -
  have e: "RT_512X1 ex_emul = 1 \<or> RT_512X1 ex_emul = 4"
    and n: "RT_512X1 ex_native = 2 \<or> RT_512X1 ex_native = 8"
    by (simp_all add: ex_emul_def ex_native_def)
  from mulqx_emulated_is_native [OF e n, of "ex_zmm 3" "ex_zmm 1" "ex_zmm 2" ex_x64, THEN conjunct1]
  obtain t u where tu: "mulqx3rr ex_emul (ex_zmm 3) (ex_zmm 1) (ex_zmm 2) ex_x64 = Some t"
    "mulqx3rr ex_native (ex_zmm 3) (ex_zmm 1) (ex_zmm 2) ex_x64 = Some u"
    "\<forall>i<8. zmm t (REG (ex_zmm 3)) i = zmm ex_x64 (REG (ex_zmm 1)) i * zmm ex_x64 (REG (ex_zmm 2)) i
           \<and> zmm u (REG (ex_zmm 3)) i = zmm t (REG (ex_zmm 3)) i"
    "gpr t = gpr ex_x64" "stk t = stk ex_x64"
    by blast
  from tu(3) have m: "map (zmm t 3) [0, 1, 2, 3, 4, 5, 6, 7] = [2 ^ 63, 0, 2 ^ 63, 0, 2 ^ 63, 0, 2 ^ 63, 0]"
    "map (zmm u 3) [0, 1, 2, 3, 4, 5, 6, 7] = map (zmm t 3) [0, 1, 2, 3, 4, 5, 6, 7]"
    by (simp_all add: ex_x64_def ex_zmm_def)
  show ?thesis
    by (intro exI [of _ t] exI [of _ u] conjI tu(1,2,4,5) m)
qed

section \<open>The masked merge\<close>

text \<open>
  \<^verbatim>\<open>mmvox_st\<close> with the mask register as its source, on \<open>ex_arm_ones\<close>: the mask
  is all-ones and memory holds \<open>0x1234\<close>, so the cell should become the source,
  all-ones.  The macro builds the result in \<^verbatim>\<open>Xmm0\<close>, after the mask there has been
  overwritten with the masked old content, and stores 0.
\<close>

theorem mmvox_st_of_mask_register:
  "qreg ex_arm_ones (REG Xmm0) = - 1
 \<and> adr ex_arm_env (rreg ex_arm_ones) Mebp PLAIN = 0
 \<and> amem ex_arm_ones 0 = 0x1234
 \<and> amem (mmvox_st ex_arm_env Xmm0 Mebp PLAIN ex_arm_ones) 0 = 0
 \<and> amem (mmvox_st ex_arm_env Xmm0 Mebp PLAIN ex_arm_ones) 0 \<noteq> qreg ex_arm_ones (REG Xmm0)"
  by (simp add: mmvox_st_def seq_def andox_rr_def annox_ld_def orrox_rr_def movox_st_def Let_def
      ex_arm_ones_def ex_arm_env_def Xmm0_def TmmM_def)

text \<open>
  C3, amended.  \<^verbatim>\<open>mmv\<close> leaves in its destination the merge of the old content
  and the source under the mask in \<^verbatim>\<open>Xmm0\<close>: all-ones overwrites, all-zeros
  changes nothing.  On ARM the merge is bit by bit, the load form for each of the
  eight SIMD registers and the store form for each of them but \<^verbatim>\<open>Xmm0\<close>, the mask
  register itself.  On AVX-512 the three forms merge lane by lane when every lane of
  the mask is all-ones or all-zeros and the constant \<^verbatim>\<open>GPC07\<close>, which the mask is
  compared with, is all-ones.
\<close>

theorem mmv_is_merge:
  assumes "XG \<in> set simd_regs" and "XS \<in> set simd_regs" and "XS \<noteq> Xmm0"
    and "\<forall>i<8. zmm x (REG (XMM0 xe)) i = 0 \<or> zmm x (REG (XMM0 xe)) i = - 1"
    and "\<forall>i<8. xmem x GPC07 i = - 1"
  shows "qreg (mmvox_ld env XG MS Ds s) (REG XG)
           = merge (qreg s (REG XG)) (amem s (adr env (rreg s) MS Ds)) (qreg s (REG Xmm0))
       \<and> amem (mmvox_st env XS MG Dg s) (adr env (rreg s) MG Dg)
           = merge (amem s (adr env (rreg s) MG Dg)) (qreg s (REG XS)) (qreg s (REG Xmm0))
       \<and> (\<exists>t. mmvqx_rr xe YG YS x = Some t
              \<and> (\<forall>i<8. zmm t (REG YG) i
                         = merge (zmm x (REG YG) i) (zmm x (REG YS) i) (zmm x (REG (XMM0 xe)) i)))
       \<and> (\<exists>t. mmvqx_ld xe YG MT Dt x = Some t
              \<and> (\<forall>i<8. zmm t (REG YG) i
                         = merge (zmm x (REG YG) i) (ld512 x MT Dt i) (zmm x (REG (XMM0 xe)) i)))
       \<and> (\<exists>t. mmvqx_st xe YS MT Dt x = Some t
              \<and> (\<forall>i<8. ld512 t MT Dt i
                         = merge (ld512 x MT Dt i) (zmm x (REG YS) i) (zmm x (REG (XMM0 xe)) i)))
       \<and> merge a b (- 1) = b \<and> merge a b 0 = a"
  using mm_ld_arm [OF assms(1), of env MS Ds s] mm_st_arm [OF assms(2,3), of env MG Dg s]
    mm_rr [OF assms(4,5), of YG YS] mm_ld_x64 [OF assms(4,5), of YG MT Dt]
    mm_st_x64 [OF assms(4,5), of YS MT Dt]
  by (simp add: merge_def)

text \<open>
  On \<open>ex_arm_mix\<close> the mask is \<open>0xFF00\<close>: the second byte comes from the source,
  the rest stays.  On \<open>ex_x64\<close> the even lanes of the mask are all-ones: they take
  the lanes \<open>3, 5, 7, 9\<close> of register 1, and the odd lanes keep \<open>2^63\<close>.
\<close>

theorem mmv_is_merge_witness:
  "qreg (mmvox_ld ex_arm_env Xmm1 Mebp PLAIN ex_arm_mix) (REG Xmm1) = 0x5634
 \<and> amem (mmvox_st ex_arm_env Xmm2 Mebp PLAIN ex_arm_mix) 0 = 0xAB78
 \<and> (\<exists>t. mmvqx_rr ex_emul (ex_zmm 2) (ex_zmm 1) ex_x64 = Some t
        \<and> map (zmm t 2) [0, 1, 2, 3, 4, 5, 6, 7] = [3, 2 ^ 63, 5, 2 ^ 63, 7, 2 ^ 63, 9, 2 ^ 63])"
proof -
  have r: "Xmm1 \<in> set simd_regs" "Xmm2 \<in> set simd_regs" "Xmm2 \<noteq> Xmm0"
    by (simp_all add: simd_regs_def Xmm0_def Xmm2_def)
  have m: "\<forall>i<8. zmm ex_x64 (REG (XMM0 ex_emul)) i = 0 \<or> zmm ex_x64 (REG (XMM0 ex_emul)) i = - 1"
    and g: "\<forall>i<8. xmem ex_x64 GPC07 i = - 1"
    by (simp_all add: ex_x64_def ex_emul_def)
  note w = mmv_is_merge [OF r m g, of ex_arm_env Mebp PLAIN ex_arm_mix Mebp PLAIN
      "ex_zmm 2" "ex_zmm 1"]
  from w have a: "qreg (mmvox_ld ex_arm_env Xmm1 Mebp PLAIN ex_arm_mix) (REG Xmm1) = 0x5634"
    by (simp add: merge_def ex_arm_mix_def ex_arm_env_def Xmm0_def Xmm1_def)
  from w have b: "amem (mmvox_st ex_arm_env Xmm2 Mebp PLAIN ex_arm_mix) 0 = 0xAB78"
    by (simp add: merge_def ex_arm_mix_def ex_arm_env_def Xmm0_def Xmm2_def)
  from w obtain t where t: "mmvqx_rr ex_emul (ex_zmm 2) (ex_zmm 1) ex_x64 = Some t"
    "\<forall>i<8. zmm t (REG (ex_zmm 2)) i
        = merge (zmm ex_x64 (REG (ex_zmm 2)) i) (zmm ex_x64 (REG (ex_zmm 1)) i)
            (zmm ex_x64 (REG (XMM0 ex_emul)) i)"
    by blast
  from t(2) have c: "map (zmm t 2) [0, 1, 2, 3, 4, 5, 6, 7] = [3, 2 ^ 63, 5, 2 ^ 63, 7, 2 ^ 63, 9, 2 ^ 63]"
    by (simp add: merge_def ex_x64_def ex_emul_def ex_zmm_def)
  show ?thesis
    by (intro conjI exI [of _ t] a b t(1) c)
qed

section \<open>The rounding control around a conversion\<close>

text \<open>
  C6.  The conversions that reprogram the rounding control leave it as they found it.
  On x86-64, \<^verbatim>\<open>cvtqx\<close> and \<^verbatim>\<open>cvtqn\<close>, in the register and the memory form, run
  to their end and the x87 control word, saved before it is reprogrammed and reloaded
  last, holds the value it had before; the rounding-control field of \<^verbatim>\<open>MXCSR\<close>
  (bits 13 and 14) is as before, and for \<^verbatim>\<open>RT_512X1\<close> 1 and 4, where the sequence
  is synthesized, \<^verbatim>\<open>MXCSR\<close> is not written at all.  On ARM, \<^verbatim>\<open>cvpos\<close>,
  \<^verbatim>\<open>cvmos\<close> and \<^verbatim>\<open>cvros\<close> run the conversion under the mode of their block and
  leave in the control register the value it had before.  The block written with the
  header's own \<^verbatim>\<open>FCTRL_SET\<close> and \<^verbatim>\<open>FCTRL_RESET\<close> ends with the default mode kept
  in \<^verbatim>\<open>TNxx\<close>, which is the value before when the block is entered in the default
  mode (\<^verbatim>\<open>TIxx\<close>, which \<^verbatim>\<open>FCTRL_SET\<close> overwrites when \<^verbatim>\<open>RT_SIMD_FAST_FCTRL\<close>
  is 0, being another register than \<^verbatim>\<open>TNxx\<close>).
\<close>

theorem rounding_control_after_conversion:
  assumes "RT_SIMD_FAST_FCTRL env = 0 \<longrightarrow> TIxx env \<noteq> TNxx env"
    and "fpscr d = rreg d (TNxx env)"
  shows "(\<exists>t. cvtqx_rr xe YD YS x = Some t \<and> fpucw t = fpucw x
              \<and> mxcsr t AND 0x6000 = mxcsr x AND 0x6000
              \<and> (RT_512X1 xe = 1 \<or> RT_512X1 xe = 4 \<longrightarrow> mxcsr t = mxcsr x))
       \<and> (\<exists>t. cvtqn_rr xe YD YS x = Some t \<and> fpucw t = fpucw x
              \<and> mxcsr t AND 0x6000 = mxcsr x AND 0x6000
              \<and> (RT_512X1 xe = 1 \<or> RT_512X1 xe = 4 \<longrightarrow> mxcsr t = mxcsr x))
       \<and> (\<exists>t. cvtqx_ld xe YD MT Dt x = Some t \<and> fpucw t = fpucw x
              \<and> mxcsr t AND 0x6000 = mxcsr x AND 0x6000
              \<and> (RT_512X1 xe = 1 \<or> RT_512X1 xe = 4 \<longrightarrow> mxcsr t = mxcsr x))
       \<and> (\<exists>t. cvtqn_ld xe YD MT Dt x = Some t \<and> fpucw t = fpucw x
              \<and> mxcsr t AND 0x6000 = mxcsr x AND 0x6000
              \<and> (RT_512X1 xe = 1 \<or> RT_512X1 xe = 4 \<longrightarrow> mxcsr t = mxcsr x))
       \<and> fpscr (cvpos_rr env XD XS s) = fpscr s
       \<and> fpscr (cvpos_ld env XD MS Ds s) = fpscr s
       \<and> fpscr (cvmos_rr env XD XS s) = fpscr s
       \<and> fpscr (cvmos_ld env XD MS Ds s) = fpscr s
       \<and> fpscr (cvros_rr env XD XS md s) = fpscr s
       \<and> qreg (cvpos_rr env XD XS s) (REG XD)
           = fst (fcvt env (fpscr (FCTRL_SET env ROUNDP s)) (qreg s (REG XS)))
       \<and> qreg (cvmos_rr env XD XS s) (REG XD)
           = fst (fcvt env (fpscr (FCTRL_SET env ROUNDM s)) (qreg s (REG XS)))
       \<and> qreg (cvros_rr env XD XS md s) (REG XD)
           = fst (fcvt env (fpscr (FCTRL_SET env md s)) (qreg s (REG XS)))
       \<and> fpscr (seq [FCTRL_SET env md, cvtos_rr env XD XS, FCTRL_RESET env] d) = fpscr d
       \<and> fpscr (seq [FCTRL_SET env md, cvtos_ld env XD MS Ds, FCTRL_RESET env] d) = fpscr d"
  using cvtqx_restores [of xe YD YS x] cvtqn_restores [of xe YD YS x]
    cvtq_ld_restores [of xe YD MT Dt x]
    set_reset_block(1) [OF assms(1), where md = md and XD = XD and XS = XS and s = d]
    set_reset_block(2) [OF assms(1), where md = md and XD = XD and MS = MS and Ds = Ds and s = d]
    assms(2)
  by (simp add: cv_restores cv_mode)

text \<open>
  \<open>ex_arm\<close> is entered with round-towards-zero: \<^verbatim>\<open>cvpos_rr\<close> converts under
  round-towards-plus (\<open>0x00400000\<close>), \<^verbatim>\<open>cvmos_rr\<close> under round-towards-minus
  (\<open>0x00800000\<close>), and both leave round-towards-zero behind.  The block of
  \<^verbatim>\<open>FCTRL_SET\<close> and \<^verbatim>\<open>FCTRL_RESET\<close> is entered in the default mode.  On
  \<open>ex_x64\<close> the control word is \<open>0x037F\<close> and \<^verbatim>\<open>MXCSR\<close> is \<open>0x1F80\<close>, for the
  synthesized sequence and for the single instruction.
\<close>

theorem rounding_control_after_conversion_witness:
  "fpscr ex_arm = 0x00C00000
 \<and> fpscr (cvpos_rr ex_arm_env Xmm1 Xmm2 ex_arm) = 0x00C00000
 \<and> fpscr (cvmos_ld ex_arm_env Xmm1 Mebp PLAIN ex_arm) = 0x00C00000
 \<and> qreg (cvpos_rr ex_arm_env Xmm1 Xmm2 ex_arm) (REG Xmm1) = 0x00400000
 \<and> qreg (cvmos_rr ex_arm_env Xmm1 Xmm2 ex_arm) (REG Xmm1) = 0x00800000
 \<and> fpscr (seq [FCTRL_SET ex_arm_env ROUNDP, cvtos_rr ex_arm_env Xmm1 Xmm2, FCTRL_RESET ex_arm_env]
           (ex_arm\<lparr>fpscr := 0\<rparr>)) = 0
 \<and> (\<exists>t. cvtqx_rr ex_emul (ex_zmm 3) (ex_zmm 1) ex_x64 = Some t \<and> fpucw t = 0x037F
        \<and> mxcsr t = 0x1F80)
 \<and> (\<exists>t. cvtqx_rr ex_native (ex_zmm 3) (ex_zmm 1) ex_x64 = Some t \<and> fpucw t = 0x037F
        \<and> mxcsr t AND 0x6000 = 0)"
proof -
  have h: "RT_SIMD_FAST_FCTRL ex_arm_env = 0 \<longrightarrow> TIxx ex_arm_env \<noteq> TNxx ex_arm_env"
    and e: "fpscr (ex_arm\<lparr>fpscr := 0\<rparr>) = rreg (ex_arm\<lparr>fpscr := 0\<rparr>) (TNxx ex_arm_env)"
    by (simp_all add: ex_arm_env_def ex_arm_def)
  note a = rounding_control_after_conversion [OF h e, where xe = ex_emul and YD = "ex_zmm 3"
      and YS = "ex_zmm 1" and x = ex_x64 and XD = Xmm1 and XS = Xmm2 and s = ex_arm
      and MS = Mebp and Ds = PLAIN and md = ROUNDP and MT = Mebp and Dt = "Disp PLAIN"]
  note b = rounding_control_after_conversion [OF h e, where xe = ex_native and YD = "ex_zmm 3"
      and YS = "ex_zmm 1" and x = ex_x64 and XD = Xmm1 and XS = Xmm2 and s = ex_arm
      and MS = Mebp and Ds = PLAIN and md = ROUNDP and MT = Mebp and Dt = "Disp PLAIN"]
  have m: "fpscr (FCTRL_SET ex_arm_env ROUNDP ex_arm) = 0x00400000"
    "fpscr (FCTRL_SET ex_arm_env ROUNDM ex_arm) = 0x00800000"
    by (simp_all add: FCTRL_SET_def ex_arm_env_def ex_arm_def Let_def)
  from a have 1: "fpscr (cvpos_rr ex_arm_env Xmm1 Xmm2 ex_arm) = 0x00C00000"
    "fpscr (cvmos_ld ex_arm_env Xmm1 Mebp PLAIN ex_arm) = 0x00C00000"
    "fpscr (seq [FCTRL_SET ex_arm_env ROUNDP, cvtos_rr ex_arm_env Xmm1 Xmm2, FCTRL_RESET ex_arm_env]
           (ex_arm\<lparr>fpscr := 0\<rparr>)) = 0"
    by (simp_all add: ex_arm_def)
  from a m have 2: "qreg (cvpos_rr ex_arm_env Xmm1 Xmm2 ex_arm) (REG Xmm1) = 0x00400000"
    "qreg (cvmos_rr ex_arm_env Xmm1 Xmm2 ex_arm) (REG Xmm1) = 0x00800000"
    by (simp_all add: ex_arm_env_def)
  from a [THEN conjunct1]
  have 3: "\<exists>t. cvtqx_rr ex_emul (ex_zmm 3) (ex_zmm 1) ex_x64 = Some t \<and> fpucw t = 0x037F
        \<and> mxcsr t = 0x1F80"
    by (auto simp: ex_x64_def ex_emul_def)
  from b [THEN conjunct1]
  have 4: "\<exists>t. cvtqx_rr ex_native (ex_zmm 3) (ex_zmm 1) ex_x64 = Some t \<and> fpucw t = 0x037F
        \<and> mxcsr t AND 0x6000 = 0"
    by (auto simp: ex_x64_def)
  have 0: "fpscr ex_arm = 0x00C00000" by (simp add: ex_arm_def)
  from 0 1 2 3 4 show ?thesis by (intro conjI)
qed

end
